theory Spec2Isabelle
  imports Main
begin

section \<open>JavaScript strings and regular expressions\<close>

text \<open>
  Strings are modelled as \<open>string\<close>, a list of characters. Comparison, concatenation and
  \<^verbatim>\<open>includes\<close> are those of lists; pictographs of the console messages are left out of the
  message texts.
\<close>

text \<open>\<open>str_includes s sub\<close> is \<^verbatim>\<open>s.includes(sub)\<close>.\<close>

fun str_includes :: "string \<Rightarrow> string \<Rightarrow> bool" where
  "str_includes [] sub = (sub = [])"
| "str_includes (c # s) sub = (take (length sub) (c # s) = sub \<or> str_includes s sub)"

text \<open>\<open>String n\<close> is \<^verbatim>\<open>String(n)\<close> for an integer \<open>n\<close>.\<close>

fun string_of_nat :: "nat \<Rightarrow> string" where
  "string_of_nat n =
     (if n < 10 then [''0123456789'' ! n]
      else string_of_nat (n div 10) @ [''0123456789'' ! (n mod 10)])"

declare string_of_nat.simps [simp del]

definition String :: "int \<Rightarrow> string" where
  "String n = (if n < 0 then CHR ''-'' # string_of_nat (nat (- n)) else string_of_nat (nat n))"

text \<open>
  The regular expressions of the source are sequences of literals, \<^verbatim>\<open>\s+\<close>, \<^verbatim>\<open>\s*\<close>
  and an optional character, all with the flag \<^verbatim>\<open>i\<close>; an alternation is a list of
  such sequences.
\<close>

datatype regex_atom = Lit string | Ws1 | Ws0 | Opt char

type_synonym regex = "regex_atom list"

text \<open>
  The built-in functions of the JavaScript engine whose result depends on the Unicode
  tables or on the number syntax are not part of the repository, so they are a parameter of
  every function that calls them: \<^verbatim>\<open>s.toLowerCase()\<close>, \<^verbatim>\<open>s.toUpperCase()\<close>,
  \<^verbatim>\<open>s.trim()\<close>, \<^verbatim>\<open>s.substring(i, j)\<close>, \<^verbatim>\<open>parseInt(s)\<close> (\<open>None\<close> is \<^verbatim>\<open>NaN\<close>) and
  \<^verbatim>\<open>re.test(s)\<close>.
\<close>

record js =
  toLowerCase :: "string \<Rightarrow> string"
  toUpperCase :: "string \<Rightarrow> string"
  trim :: "string \<Rightarrow> string"
  substring :: "string \<Rightarrow> nat \<Rightarrow> nat \<Rightarrow> string"
  parseInt :: "string \<Rightarrow> int option"
  regexTest :: "regex \<Rightarrow> string \<Rightarrow> bool"

text \<open>\<open>regexTestAny J alts s\<close> is the test of the alternation \<open>alts\<close>.\<close>

definition regexTestAny :: "js \<Rightarrow> regex list \<Rightarrow> string \<Rightarrow> bool" where
  "regexTestAny J alts s = list_ex (\<lambda>r. regexTest J r s) alts"

text \<open>JavaScript truthiness of an optional string: absent and the empty string are falsy.\<close>

definition truthy :: "string option \<Rightarrow> bool" where
  "truthy v = (case v of None \<Rightarrow> False | Some s \<Rightarrow> s \<noteq> [])"

definition orEmpty :: "string option \<Rightarrow> string" where
  "orEmpty v = (case v of None \<Rightarrow> [] | Some s \<Rightarrow> s)"

definition orElse :: "string option \<Rightarrow> string option \<Rightarrow> string option" where
  "orElse a b = (if truthy a then a else b)"

section \<open>Data model\<close>

datatype Status = UNKNOWN | AVAILABLE | SOLD_OUT | WAITLIST

record screening_record =
  rtitle :: string
  rscreeningTime :: string
  status :: Status
  buttonText :: string
  rurl :: string

datatype event_type = NEW_AVAILABLE | NOW_AVAILABLE | PURCHASE_SUCCESS | PURCHASE_FAILED

record change_event =
  etype :: event_type
  etitle :: string
  escreeningTime :: string
  estatus :: "Status option"
  ebuttonText :: string
  eurl :: string

record film_rule =
  title :: string
  screeningTime :: "string option"
  autoPurchase :: bool

record payment_settings =
  cardNumber :: "string option"
  exp :: "string option"
  cvc :: "string option"
  name :: "string option"
  zip :: "string option"

record settings =
  ticketQuantity :: "int option"
  notifyOnPurchaseUpdates :: "bool option"
  debugScreenshots :: bool
  debugButtonDump :: bool
  keepCheckoutOpen :: bool
  maxSteps :: "int option"
  stepWaitMs :: "int option"
  waitForBuyAdditionalMs :: "int option"
  payment :: "payment_settings option"

record config =
  enabled :: bool
  films :: "film_rule list option"
  csettings :: "settings option"

record checkout_result =
  success :: bool
  reason :: string
  result_url :: "string option"

definition emptyPayment :: payment_settings where
  "emptyPayment = \<lparr>cardNumber = None, exp = None, cvc = None, name = None, zip = None\<rparr>"

definition emptySettings :: settings where
  "emptySettings =
     \<lparr>ticketQuantity = None, notifyOnPurchaseUpdates = None, debugScreenshots = False,
      debugButtonDump = False, keepCheckoutOpen = False, maxSteps = None, stepWaitMs = None,
      waitForBuyAdditionalMs = None, payment = None\<rparr>"

section \<open>AutoPurchase matcher (auto-purchase.js)\<close>

definition normalizeTitle :: "js \<Rightarrow> string \<Rightarrow> string" where
  "normalizeTitle J t = trim J (toLowerCase J t)"

definition getFilmSettings :: "js \<Rightarrow> string \<Rightarrow> string \<Rightarrow> config option \<Rightarrow> film_rule option" where
  "getFilmSettings J filmTitle stime cfg =
     (case cfg of
        None \<Rightarrow> None
      | Some c \<Rightarrow>
          (case films c of
             None \<Rightarrow> None
           | Some fs \<Rightarrow>
               (let normalizedTitle = normalizeTitle J filmTitle;
                    normalizedTime = normalizeTitle J stime
                in case find (\<lambda>f. normalizeTitle J (title f) = normalizedTitle \<and>
                                   normalizeTitle J (orEmpty (screeningTime f)) = normalizedTime) fs of
                     Some exactMatch \<Rightarrow> Some exactMatch
                   | None \<Rightarrow>
                       (case find (\<lambda>f. \<not> truthy (screeningTime f) \<and>
                                         normalizeTitle J (title f) = normalizedTitle) fs of
                          Some titleOnlyMatch \<Rightarrow> Some titleOnlyMatch
                        | None \<Rightarrow> None))))"

definition shouldAutoPurchase :: "js \<Rightarrow> string \<Rightarrow> string \<Rightarrow> config option \<Rightarrow> bool" where
  "shouldAutoPurchase J filmTitle stime cfg =
     (case getFilmSettings J filmTitle stime cfg of None \<Rightarrow> False | Some film \<Rightarrow> autoPurchase film)"

section \<open>State differ (monitor.js)\<close>

text \<open>
  A snapshot is a plain object: its own properties map keys to records, and it inherits the
  members of \<^verbatim>\<open>Object.prototype\<close>. \<open>getProperty obj key\<close> is \<^verbatim>\<open>obj[key]\<close>: the own
  property if there is one, else the inherited member (a function or an object, so truthy,
  and without a \<^verbatim>\<open>status\<close>), else \<^verbatim>\<open>undefined\<close>.
\<close>

definition Object_prototype :: "string list" where
  "Object_prototype =
     [''constructor'', ''__defineGetter__'', ''__defineSetter__'', ''hasOwnProperty'',
      ''__lookupGetter__'', ''__lookupSetter__'', ''isPrototypeOf'', ''propertyIsEnumerable'',
      ''toString'', ''valueOf'', ''__proto__'', ''toLocaleString'']"

datatype 'a property = Undefined | Inherited | Own 'a

definition getProperty :: "(string \<rightharpoonup> 'a) \<Rightarrow> string \<Rightarrow> 'a property" where
  "getProperty obj key =
     (case obj key of
        Some v \<Rightarrow> Own v
      | None \<Rightarrow> if key \<in> set Object_prototype then Inherited else Undefined)"

text \<open>
  The previous snapshot is looked up by key; the current one is iterated in the order of
  \<^verbatim>\<open>Object.entries\<close>, so it is a list of entries. An event is
  \<^verbatim>\<open>{ type, ...current }\<close>.
\<close>

fun detectChanges_loop ::
  "(string \<rightharpoonup> screening_record) \<Rightarrow> (string \<times> screening_record) list \<Rightarrow> change_event list
     \<Rightarrow> change_event list" where
  "detectChanges_loop previousState [] changes = changes"
| "detectChanges_loop previousState ((key, current) # rest) changes =
     (case getProperty previousState key of
        Undefined \<Rightarrow>
          (if status current = AVAILABLE
           then detectChanges_loop previousState rest
                  (changes @ [\<lparr>etype = NEW_AVAILABLE, etitle = rtitle current,
                                escreeningTime = rscreeningTime current,
                                estatus = Some (status current),
                                ebuttonText = buttonText current, eurl = rurl current\<rparr>])
           else detectChanges_loop previousState rest changes)
      | Inherited \<Rightarrow> detectChanges_loop previousState rest changes
      | Own previous \<Rightarrow>
          (if status previous = SOLD_OUT \<and> status current = AVAILABLE
           then detectChanges_loop previousState rest
                  (changes @ [\<lparr>etype = NOW_AVAILABLE, etitle = rtitle current,
                                escreeningTime = rscreeningTime current,
                                estatus = Some (status current),
                                ebuttonText = buttonText current, eurl = rurl current\<rparr>])
           else detectChanges_loop previousState rest changes))"

definition detectChanges ::
  "(string \<rightharpoonup> screening_record) \<Rightarrow> (string \<times> screening_record) list \<Rightarrow> change_event list" where
  "detectChanges previousState currentState = detectChanges_loop previousState currentState []"

section \<open>Configuration loading (auto-purchase.js)\<close>

text \<open>
  The state of \<^verbatim>\<open>auto-purchase.json\<close>: absent, present but unreadable (\<^verbatim>\<open>readFileSync\<close>
  throws the given message), or present with the given contents.
\<close>

datatype file_state = Absent | Unreadable string | Contents string

text \<open>
  \<^verbatim>\<open>JSON.parse\<close> is a parameter: \<open>Inl msg\<close> is a syntax error, \<open>Inr None\<close> the value
  \<^verbatim>\<open>null\<close> (reading \<^verbatim>\<open>.enabled\<close> of it throws), \<open>Inr (Some c)\<close> any other value, seen
  as a configuration whose \<open>enabled\<close> is the truthiness of its property \<^verbatim>\<open>enabled\<close>.
  The result is the returned configuration and the lines written to the console.
\<close>

definition loadAutoPurchaseConfig ::
  "(string \<Rightarrow> string + config option) \<Rightarrow> file_state \<Rightarrow> config option \<times> string list" where
  "loadAutoPurchaseConfig JSON_parse file =
     (case file of
        Absent \<Rightarrow> (None, [])
      | Unreadable msg \<Rightarrow> (None, [''Error loading auto-purchase.json: '' @ msg])
      | Contents text \<Rightarrow>
          (case JSON_parse text of
             Inl msg \<Rightarrow> (None, [''Error loading auto-purchase.json: '' @ msg])
           | Inr None \<Rightarrow>
               (None, [''Error loading auto-purchase.json: '' @
                         ''Cannot read properties of null (reading 'enabled')''])
           | Inr (Some c) \<Rightarrow> (if \<not> enabled c then (None, []) else (Some c, []))))"

section \<open>The browser as the engine sees it\<close>

text \<open>
  The engine drives a browser through Playwright and through code it evaluates inside the
  page. The browser, the site behind it and the DOM are not part of the repository, so they
  are a parameter: a state of type \<open>'b\<close> and a record of the calls the source makes.
  Queries read the state; actions return the next state, and those that can reject return
  \<open>Inl\<close> of the error message. A query the source wraps in \<^verbatim>\<open>.catch(() => v)\<close> is a
  total function here (its value is \<open>v\<close> where Playwright would reject), and so is an
  action wrapped in \<^verbatim>\<open>.catch(() => {})\<close>. Pages, frames and elements are handles.
\<close>

datatype page = Page nat

datatype frame = Frame nat

datatype elem = Elem nat

datatype "context" = CPage page | CFrame frame

text \<open>
  \<open>Locator c sel hasText\<close> is \<^verbatim>\<open>c.locator(sel, { hasText })\<close>, \<open>Nth l i\<close> is
  \<^verbatim>\<open>l.nth(i)\<close>; \<^verbatim>\<open>l.first()\<close> is \<open>Nth l 0\<close>. Locators are resolved by the browser at
  each call.
\<close>

datatype locator = Locator "context" string "regex option" | Nth locator nat

record 'b browser =
  url :: "page \<Rightarrow> 'b \<Rightarrow> string"
  frames :: "page \<Rightarrow> 'b \<Rightarrow> frame list"
  mainFrame :: "page \<Rightarrow> 'b \<Rightarrow> frame"
  count :: "locator \<Rightarrow> 'b \<Rightarrow> nat"
  isVisible :: "locator \<Rightarrow> 'b \<Rightarrow> bool"
  isDisabled :: "locator \<Rightarrow> 'b \<Rightarrow> bool"
  innerText :: "locator \<Rightarrow> 'b \<Rightarrow> string"
  click :: "locator \<Rightarrow> 'b \<Rightarrow> (string + unit) \<times> 'b"
  fill :: "locator \<Rightarrow> string \<Rightarrow> 'b \<Rightarrow> 'b"
  waitForTimeout :: "page \<Rightarrow> int \<Rightarrow> 'b \<Rightarrow> (string + unit) \<times> 'b"
  waitForLoadState :: "page \<Rightarrow> 'b \<Rightarrow> 'b"
  pageClick :: "page \<Rightarrow> string \<Rightarrow> 'b \<Rightarrow> (string + unit) \<times> 'b"
  waitForPopup :: "page \<Rightarrow> 'b \<Rightarrow> page option \<times> 'b"
  screenshot :: "page \<Rightarrow> string \<Rightarrow> 'b \<Rightarrow> (string + unit) \<times> 'b"
  closePage :: "page \<Rightarrow> 'b \<Rightarrow> 'b"
  goto :: "page \<Rightarrow> string \<Rightarrow> 'b \<Rightarrow> (string + unit) \<times> 'b"
  evaluateRejects :: "page \<Rightarrow> 'b \<Rightarrow> string option"
  querySelectorAll :: "page \<Rightarrow> string \<Rightarrow> 'b \<Rightarrow> elem list"
  elemQuerySelectorAll :: "elem \<Rightarrow> string \<Rightarrow> 'b \<Rightarrow> elem list"
  closest :: "elem \<Rightarrow> string \<Rightarrow> 'b \<Rightarrow> elem option"
  parentElement :: "elem \<Rightarrow> 'b \<Rightarrow> elem option"
  selectOptions :: "elem \<Rightarrow> 'b \<Rightarrow> elem list"
  childTextNodes :: "elem \<Rightarrow> 'b \<Rightarrow> string list"
  childrenLength :: "elem \<Rightarrow> 'b \<Rightarrow> nat"
  getProp :: "elem \<Rightarrow> string \<Rightarrow> 'b \<Rightarrow> string"
  flag :: "elem \<Rightarrow> string \<Rightarrow> 'b \<Rightarrow> bool"
  domClick :: "elem \<Rightarrow> 'b \<Rightarrow> 'b"
  setValue :: "elem \<Rightarrow> string \<Rightarrow> 'b \<Rightarrow> 'b"
  dispatchEvent :: "elem \<Rightarrow> string \<Rightarrow> 'b \<Rightarrow> 'b"
  setAttribute :: "elem \<Rightarrow> string \<Rightarrow> string \<Rightarrow> 'b \<Rightarrow> 'b"

text \<open>
  The fields from \<open>querySelectorAll\<close> on are the DOM as the functions see it that the
  source passes to \<^verbatim>\<open>page.evaluate\<close>; \<open>evaluateRejects pg b\<close> is the message with which
  \<^verbatim>\<open>page.evaluate\<close> rejects in the state \<open>b\<close>, if it does (the page has been closed, or
  its execution context destroyed).
  \<open>getProp e p\<close> is the string property or attribute \<open>p\<close> of an element, the empty string
  where it is absent (the source only tests such values for truthiness); \<open>flag e p\<close> is a
  boolean property (\<^verbatim>\<open>disabled\<close>, \<^verbatim>\<open>checked\<close>, and \<^verbatim>\<open>offsetParent\<close> for
  \<^verbatim>\<open>e.offsetParent !== null\<close>).

  The world of a run: the browser state, the clock \<^verbatim>\<open>Date.now()\<close> in milliseconds and the
  console. Time passes in \<^verbatim>\<open>waitForTimeout\<close> only, by the time asked for.
\<close>

record 'b world =
  bstate :: 'b
  now :: int
  console :: "string list"

type_synonym ('a, 'b) comp = "'b world \<Rightarrow> (string + 'a) \<times> 'b world"

definition log :: "string \<Rightarrow> 'b world \<Rightarrow> 'b world" where
  "log line w = w\<lparr>console := console w @ [line]\<rparr>"

definition pageWaitForTimeout :: "'b browser \<Rightarrow> page \<Rightarrow> int \<Rightarrow> (unit, 'b) comp" where
  "pageWaitForTimeout B pg ms w =
     (case waitForTimeout B pg ms (bstate w) of
        (Inl e, b') \<Rightarrow> (Inl e, w\<lparr>bstate := b'\<rparr>)
      | (Inr u, b') \<Rightarrow> (Inr (), w\<lparr>bstate := b', now := now w + max 0 ms\<rparr>))"

definition querySelector :: "'b browser \<Rightarrow> page \<Rightarrow> string \<Rightarrow> 'b \<Rightarrow> elem option" where
  "querySelector B pg sel b = (case querySelectorAll B pg sel b of [] \<Rightarrow> None | e # es \<Rightarrow> Some e)"

definition elemQuerySelector :: "'b browser \<Rightarrow> elem \<Rightarrow> string \<Rightarrow> 'b \<Rightarrow> elem option" where
  "elemQuerySelector B el sel b =
     (case elemQuerySelectorAll B el sel b of [] \<Rightarrow> None | e # es \<Rightarrow> Some e)"

text \<open>
  Sequencing of asynchronous calls: \<open>await m f\<close> runs \<open>m\<close> and, unless it rejects,
  continues with \<open>f\<close> on its value. \<open>evaluate B pg f\<close> is \<^verbatim>\<open>page.evaluate(f)\<close> for a
  function \<open>f\<close> on the DOM.
\<close>

definition ret :: "'a \<Rightarrow> ('a, 'b) comp" where
  "ret x w = (Inr x, w)"

definition await :: "('a, 'b) comp \<Rightarrow> ('a \<Rightarrow> ('c, 'b) comp) \<Rightarrow> ('c, 'b) comp" where
  "await m f w = (case m w of (Inl e, w') \<Rightarrow> (Inl e, w') | (Inr x, w') \<Rightarrow> f x w')"

definition evaluate :: "'b browser \<Rightarrow> page \<Rightarrow> ('b \<Rightarrow> 'a \<times> 'b) \<Rightarrow> ('a, 'b) comp" where
  "evaluate B pg f w =
     (case evaluateRejects B pg (bstate w) of
        Some e \<Rightarrow> (Inl e, w)
      | None \<Rightarrow> (case f (bstate w) of (x, b') \<Rightarrow> (Inr x, w\<lparr>bstate := b'\<rparr>)))"

section \<open>Checkout automation engine (auto-purchase.js)\<close>

definition BUTTON_SELECTOR :: string where
  \<open>BUTTON_SELECTOR = ''button, [role="button"], a, input[type="button"], input[type="submit"]''\<close>

definition TEXT_PATTERNS_orderTickets :: "regex list" where
  "TEXT_PATTERNS_orderTickets =
     [[Lit ''order'', Ws1, Lit ''ticket'', Opt CHR ''s''],
      [Lit ''get'', Ws1, Lit ''ticket'', Opt CHR ''s''],
      [Lit ''buy'', Ws1, Lit ''ticket'', Opt CHR ''s'']]"

definition TEXT_PATTERNS_buyAdditional :: "regex list" where
  "TEXT_PATTERNS_buyAdditional =
     [[Lit ''buy'', Ws1, Lit ''additional'', Ws1, Lit ''tickets''],
      [Lit ''buy'', Ws1, Lit ''additional''],
      [Lit ''add'', Ws1, Lit ''ticket'', Opt CHR ''s''],
      [Lit ''add'', Ws1, Lit ''another'']]"

definition TEXT_PATTERNS_continue :: "regex list" where
  "TEXT_PATTERNS_continue =
     [[Lit ''add'', Ws1, Lit ''to'', Ws1, Lit ''cart''], [Lit ''continue''], [Lit ''next''],
      [Lit ''checkout''], [Lit ''proceed''], [Lit ''review'']]"

definition TEXT_PATTERNS_final :: "regex list" where
  "TEXT_PATTERNS_final =
     [[Lit ''complete'', Ws1, Lit ''purchase''], [Lit ''place'', Ws1, Lit ''order''],
      [Lit ''confirm'', Ws1, Lit ''purchase''], [Lit ''pay'', Ws1, Lit ''now''],
      [Lit ''submit'', Ws1, Lit ''order''], [Lit ''buy'', Ws1, Lit ''now''], [Lit ''finish'']]"

definition slugify :: "js \<Rightarrow> string \<Rightarrow> string" where
  "slugify J t =
     (let alnum = (\<lambda>c. c \<in> set ''abcdefghijklmnopqrstuvwxyz0123456789'');
          dashed = foldr (\<lambda>c acc. if alnum c then c # acc
                                   else (case acc of
                                           d # rest \<Rightarrow> if d = CHR ''-'' then acc else CHR ''-'' # acc
                                         | [] \<Rightarrow> [CHR ''-''])) (normalizeTitle J t) [];
          isDash = (\<lambda>c. c = CHR ''-'')
      in take 48 (rev (dropWhile isDash (rev (dropWhile isDash dashed)))))"

text \<open>\<open>process.env\<close> is the parameter \<open>env\<close>.\<close>

definition getPaymentConfig :: "(string \<Rightarrow> string option) \<Rightarrow> settings \<Rightarrow> payment_settings" where
  "getPaymentConfig env s =
     (let p = (case payment s of None \<Rightarrow> emptyPayment | Some p \<Rightarrow> p)
      in \<lparr>cardNumber = orElse (cardNumber p) (env ''SUNDANCE_CARD_NUMBER''),
          exp = orElse (exp p) (env ''SUNDANCE_CARD_EXP''),
          cvc = orElse (cvc p) (env ''SUNDANCE_CARD_CVC''),
          name = orElse (name p) (env ''SUNDANCE_CARD_NAME''),
          zip = orElse (orElse (zip p) (env ''SUNDANCE_BILLING_ZIP''))
                  (env ''SUNDANCE_BILLING_POSTAL'')\<rparr>)"

definition waitForPageSettled :: "'b browser \<Rightarrow> page \<Rightarrow> int \<Rightarrow> (unit, 'b) comp" where
  "waitForPageSettled B pg waitMs w =
     pageWaitForTimeout B pg waitMs (w\<lparr>bstate := waitForLoadState B pg (bstate w)\<rparr>)"

definition quoted :: "string \<Rightarrow> string" where
  \<open>quoted s = ''"'' @ s @ ''"''\<close>

definition soldOutPattern :: regex where
  "soldOutPattern = [Lit ''sold'', Ws0, Lit ''out'']"

definition labelOr :: "string \<Rightarrow> string" where
  "labelOr label = (if label = [] then ''Clicked'' else label)"

text \<open>The inner loop of \<^verbatim>\<open>clickFirstMatching\<close> over the indices \<open>i < min count 6\<close>.\<close>

fun clickFirstMatching_targets ::
  "js \<Rightarrow> 'b browser \<Rightarrow> locator \<Rightarrow> string \<Rightarrow> bool \<Rightarrow> nat list \<Rightarrow> (bool, 'b) comp" where
  "clickFirstMatching_targets J B loc label quiet [] w = (Inr False, w)"
| "clickFirstMatching_targets J B loc label quiet (i # rest) w =
     (let target = Nth loc i in
      if \<not> isVisible B target (bstate w) then clickFirstMatching_targets J B loc label quiet rest w
      else if isDisabled B target (bstate w)
        then clickFirstMatching_targets J B loc label quiet rest w
      else
        (let text = trim J (innerText B target (bstate w)) in
         if text \<noteq> [] \<and> regexTest J soldOutPattern text
         then clickFirstMatching_targets J B loc label quiet rest w
         else
           (case click B target (bstate w) of
              (Inl e, b') \<Rightarrow> (Inl e, w\<lparr>bstate := b'\<rparr>)
            | (Inr u, b') \<Rightarrow>
                (Inr True,
                 if quiet then w\<lparr>bstate := b'\<rparr>
                 else log (''   '' @ labelOr label @
                           (if text \<noteq> [] then '': '' @ quoted text else []))
                        (w\<lparr>bstate := b'\<rparr>)))))"

fun clickFirstMatching ::
  "js \<Rightarrow> 'b browser \<Rightarrow> context \<Rightarrow> regex list \<Rightarrow> string \<Rightarrow> bool \<Rightarrow> (bool, 'b) comp" where
  "clickFirstMatching J B ctx [] label quiet w = (Inr False, w)"
| "clickFirstMatching J B ctx (pattern # rest) label quiet w =
     (let locator = Locator ctx BUTTON_SELECTOR (Some pattern);
          n = count B locator (bstate w)
      in case clickFirstMatching_targets J B locator label quiet [0..<min n 6] w of
           (Inr False, w') \<Rightarrow> clickFirstMatching J B ctx rest label quiet w'
         | r \<Rightarrow> r)"

definition contexts :: "'b browser \<Rightarrow> page \<Rightarrow> 'b \<Rightarrow> context list" where
  "contexts B pg b = CPage pg # map CFrame (filter (\<lambda>f. f \<noteq> mainFrame B pg b) (frames B pg b))"

text \<open>The \<^verbatim>\<open>for\<close> loop over the contexts inside \<^verbatim>\<open>clickFirstMatchingAnyContext\<close>.\<close>

fun clickFirstMatchingAnyContext_pass ::
  "js \<Rightarrow> 'b browser \<Rightarrow> regex list \<Rightarrow> string \<Rightarrow> int \<Rightarrow> context list \<Rightarrow> (bool, 'b) comp" where
  "clickFirstMatchingAnyContext_pass J B patterns label waitMs [] w = (Inr False, w)"
| "clickFirstMatchingAnyContext_pass J B patterns label waitMs (ctx # rest) w =
     (case clickFirstMatching J B ctx patterns label (waitMs > 0) w of
        (Inl e, w') \<Rightarrow> (Inl e, w')
      | (Inr True, w') \<Rightarrow>
          (Inr True,
           if waitMs > 0 then log (''   '' @ labelOr label @ '' (after wait)'') w' else w')
      | (Inr False, w') \<Rightarrow> clickFirstMatchingAnyContext_pass J B patterns label waitMs rest w')"

lemma clickFirstMatching_targets_now:
  "now (snd (clickFirstMatching_targets J B loc label quiet idxs w)) = now w"
  by (induction idxs arbitrary: w) (auto simp: Let_def log_def split: prod.splits sum.splits)

lemma clickFirstMatching_now:
  "now (snd (clickFirstMatching J B ctx patterns label quiet w)) = now w"
proof (induction patterns arbitrary: w)
  case Nil
  then show ?case by simp
next
  case (Cons p ps)
  show ?case
    using Cons.IH
      clickFirstMatching_targets_now [of J B "Locator ctx BUTTON_SELECTOR (Some p)" label quiet _ w]
    apply (simp add: Let_def split: prod.splits sum.splits bool.splits)
    by (metis snd_conv)
qed

lemma clickFirstMatchingAnyContext_pass_now:
  "now (snd (clickFirstMatchingAnyContext_pass J B patterns label waitMs ctxs w)) = now w"
proof (induction ctxs arbitrary: w)
  case Nil
  then show ?case by simp
next
  case (Cons c cs)
  show ?case
    using Cons.IH clickFirstMatching_now [of J B c patterns label "waitMs > 0" w]
    by (auto simp: log_def split: prod.splits sum.splits bool.splits)
qed

text \<open>
  The \<^verbatim>\<open>while (true)\<close> loop of \<^verbatim>\<open>clickFirstMatchingAnyContext\<close>: it ends because each
  pass that does not return waits 500 ms and the deadline is fixed.
\<close>

function clickFirstMatchingAnyContext_loop ::
  "js \<Rightarrow> 'b browser \<Rightarrow> page \<Rightarrow> regex list \<Rightarrow> string \<Rightarrow> int \<Rightarrow> int \<Rightarrow> (bool, 'b) comp" where
  "clickFirstMatchingAnyContext_loop J B pg patterns label waitMs deadline w =
     (case clickFirstMatchingAnyContext_pass J B patterns label waitMs
             (contexts B pg (bstate w)) w of
        (Inl e, w') \<Rightarrow> (Inl e, w')
      | (Inr True, w') \<Rightarrow> (Inr True, w')
      | (Inr False, w') \<Rightarrow>
          if now w' \<ge> deadline then (Inr False, w')
          else (case pageWaitForTimeout B pg 500 w' of
                  (Inl e, w'') \<Rightarrow> (Inl e, w'')
                | (Inr u, w'') \<Rightarrow>
                    clickFirstMatchingAnyContext_loop J B pg patterns label waitMs deadline w''))"
  by pat_completeness auto
termination
  apply (relation "measure (\<lambda>(J, B, pg, patterns, label, waitMs, deadline, w). nat (deadline - now w))")
   apply simp
  subgoal premises prems for J B pg patterns label waitMs deadline w x1 w' x2 u w''
  proof -
    have "now w' = now w"
      using clickFirstMatchingAnyContext_pass_now
              [of J B patterns label waitMs "contexts B pg (bstate w)" w] prems
      by (metis snd_conv)
    moreover have "now w'' = now w' + 500"
      using prems by (auto simp: pageWaitForTimeout_def split: prod.splits sum.splits)
    ultimately show ?thesis
      using prems by simp
  qed
  done

declare clickFirstMatchingAnyContext_loop.simps [simp del]

text \<open>\<open>optWaitMs\<close> is \<^verbatim>\<open>options.waitMs\<close>, absent where the caller passes no options.\<close>

definition clickFirstMatchingAnyContext ::
  "js \<Rightarrow> 'b browser \<Rightarrow> page \<Rightarrow> regex list \<Rightarrow> string \<Rightarrow> int option \<Rightarrow> (bool, 'b) comp" where
  "clickFirstMatchingAnyContext J B pg patterns label optWaitMs w =
     (let waitMs = (case optWaitMs of None \<Rightarrow> 0 | Some ms \<Rightarrow> ms);
          deadline = now w + waitMs
      in clickFirstMatchingAnyContext_loop J B pg patterns label waitMs deadline w)"

definition firstTruthy :: "string \<Rightarrow> string \<Rightarrow> string" where
  "firstTruthy a b = (if a \<noteq> [] then a else b)"

fun join :: "string \<Rightarrow> string list \<Rightarrow> string" where
  "join sep [] = []"
| "join sep [x] = x"
| "join sep (x # y # rest) = x @ sep @ join sep (y # rest)"

definition CLICKABLE_ANCESTOR :: string where
  \<open>CLICKABLE_ANCESTOR = ''a, button, [role="button"], [onclick]''\<close>

text \<open>The function \<^verbatim>\<open>clickByTextContent\<close> evaluates in the page, over all elements.\<close>

fun clickByTextContent_eval ::
  "js \<Rightarrow> 'b browser \<Rightarrow> string \<Rightarrow> elem list \<Rightarrow> 'b \<Rightarrow> string option \<times> 'b" where
  "clickByTextContent_eval J B searchLower [] b = (None, b)"
| "clickByTextContent_eval J B searchLower (el # rest) b =
     (let text = toLowerCase J (firstTruthy (getProp B el ''innerText'' b)
                                          (getProp B el ''textContent'' b));
          directText = toLowerCase J (concat (childTextNodes B el b))
      in if str_includes directText searchLower \<or>
            (str_includes text searchLower \<and> childrenLength B el b = 0)
         then
           (let clickable = (case closest B el CLICKABLE_ANCESTOR b of
                               Some a \<Rightarrow> a | None \<Rightarrow> el)
            in if flag B clickable ''offsetParent'' b
               then (let b' = domClick B clickable b
                     in (Some (substring J (trim J (getProp B clickable ''innerText'' b')) 0 50), b'))
               else clickByTextContent_eval J B searchLower rest b)
         else clickByTextContent_eval J B searchLower rest b)"

definition clickByTextContent ::
  "js \<Rightarrow> 'b browser \<Rightarrow> page \<Rightarrow> string \<Rightarrow> string \<Rightarrow> (bool, 'b) comp" where
  "clickByTextContent J B pg searchText label =
     await (evaluate B pg (\<lambda>b. clickByTextContent_eval J B (toLowerCase J searchText)
                                   (querySelectorAll B pg ''*'' b) b))
       (\<lambda>clicked w'.
          case clicked of
            Some text \<Rightarrow> (Inr True, log (''   '' @ labelOr label @ '': '' @ quoted text) w')
          | None \<Rightarrow> (Inr False, w'))"

definition dumpVisibleButtons :: "js \<Rightarrow> 'b browser \<Rightarrow> page \<Rightarrow> string \<Rightarrow> (unit, 'b) comp" where
  "dumpVisibleButtons J B pg label =
     await (evaluate B pg (\<lambda>b.
              (take 20 (filter (\<lambda>t. t \<noteq> [])
                 (map (\<lambda>btn. trim J (firstTruthy (getProp B btn ''innerText'' b)
                                                (getProp B btn ''value'' b)))
                    (querySelectorAll B pg BUTTON_SELECTOR b))), b)))
       (\<lambda>items w'.
          (Inr (), if items \<noteq> [] then log (''   '' @ label @ '': '' @ join '' | '' items) w'
                   else w'))"

definition termsPatterns :: "regex list" where
  "termsPatterns =
     [[Lit ''agree''], [Lit ''terms''], [Lit ''conditions''], [Lit ''policy''], [Lit ''purchasing'']]"

definition labelForSelector :: "string \<Rightarrow> string" where
  \<open>labelForSelector i = ''label[for="'' @ i @ ''"]''\<close>

text \<open>
  \<^verbatim>\<open>box.closest('label') || (box.id ? document.querySelector(`label[for="${box.id}"]`) : null)\<close>
\<close>

definition labelOf :: "'b browser \<Rightarrow> page \<Rightarrow> elem \<Rightarrow> 'b \<Rightarrow> elem option" where
  "labelOf B pg box b =
     (case closest B box ''label'' b of
        Some l \<Rightarrow> Some l
      | None \<Rightarrow> (if getProp B box ''id'' b \<noteq> []
                 then querySelector B pg (labelForSelector (getProp B box ''id'' b)) b
                 else None))"

fun checkTermsCheckboxes_forEach ::
  "js \<Rightarrow> 'b browser \<Rightarrow> page \<Rightarrow> elem list \<Rightarrow> bool \<Rightarrow> 'b \<Rightarrow> bool \<times> 'b" where
  "checkTermsCheckboxes_forEach J B pg [] checkedAny b = (checkedAny, b)"
| "checkTermsCheckboxes_forEach J B pg (box # rest) checkedAny b =
     (if flag B box ''disabled'' b then checkTermsCheckboxes_forEach J B pg rest checkedAny b
      else
        (let textSources = toLowerCase J (join '' '' (filter (\<lambda>t. t \<noteq> [])
               [case labelOf B pg box b of None \<Rightarrow> [] | Some l \<Rightarrow> getProp B l ''innerText'' b,
                getProp B box ''aria-label'' b,
                case parentElement B box b of None \<Rightarrow> [] | Some p \<Rightarrow> getProp B p ''innerText'' b,
                case parentElement B box b of None \<Rightarrow> [] | Some p \<Rightarrow> getProp B p ''textContent'' b]))
         in if regexTestAny J termsPatterns textSources
            then (if \<not> flag B box ''checked'' b
                  then checkTermsCheckboxes_forEach J B pg rest True (domClick B box b)
                  else checkTermsCheckboxes_forEach J B pg rest checkedAny b)
            else checkTermsCheckboxes_forEach J B pg rest checkedAny b))"

definition checkTermsCheckboxes :: "js \<Rightarrow> 'b browser \<Rightarrow> page \<Rightarrow> (bool, 'b) comp" where
  \<open>checkTermsCheckboxes J B pg =
     await (evaluate B pg (\<lambda>b. checkTermsCheckboxes_forEach J B pg
                                   (querySelectorAll B pg ''input[type="checkbox"]'' b) False b))
       (\<lambda>checked w'.
          (Inr checked, if checked then log ''   Checked terms/agreement checkbox'' w' else w'))\<close>

record quantity_result =
  qsuccess :: bool
  quantity :: "int option"

text \<open>
  \<^verbatim>\<open>Array.from(select.options).find(o => o.value === v || o.textContent.trim() === v)\<close>
\<close>

definition findOption :: "js \<Rightarrow> 'b browser \<Rightarrow> elem \<Rightarrow> string \<Rightarrow> 'b \<Rightarrow> elem option" where
  "findOption J B select v b =
     find (\<lambda>opt. getProp B opt ''value'' b = v \<or> trim J (getProp B opt ''textContent'' b) = v)
       (selectOptions B select b)"

definition chooseOption :: "'b browser \<Rightarrow> elem \<Rightarrow> elem \<Rightarrow> 'b \<Rightarrow> 'b" where
  "chooseOption B select option b =
     dispatchEvent B select ''change'' (setValue B select (getProp B option ''value'' b) b)"

text \<open>The loop \<^verbatim>\<open>for (let qty = desired - 1; qty >= 1; qty--)\<close>, entered at \<open>qty\<close>.\<close>

function setTicketQuantity_lower ::
  "js \<Rightarrow> 'b browser \<Rightarrow> elem \<Rightarrow> int \<Rightarrow> 'b \<Rightarrow> quantity_result \<times> 'b" where
  "setTicketQuantity_lower J B select qty b =
     (if qty \<ge> 1 then
        (case findOption J B select (String qty) b of
           Some option \<Rightarrow>
             (\<lparr>qsuccess = True, quantity = Some qty\<rparr>, chooseOption B select option b)
         | None \<Rightarrow> setTicketQuantity_lower J B select (qty - 1) b)
      else (\<lparr>qsuccess = False, quantity = None\<rparr>, b))"
  by pat_completeness auto
termination
  by (relation "measure (\<lambda>(J, B, select, qty, b). nat qty)") auto

declare setTicketQuantity_lower.simps [simp del]

definition isQuantitySelect :: "js \<Rightarrow> 'b browser \<Rightarrow> elem \<Rightarrow> 'b \<Rightarrow> bool" where
  "isQuantitySelect J B select b \<longleftrightarrow>
     str_includes (toLowerCase J (getProp B select ''id'' b)) ''quantity'' \<or>
     str_includes (toLowerCase J (getProp B select ''name'' b)) ''quantity'' \<or>
     str_includes (toLowerCase J (getProp B select ''className'' b)) ''quantity''"

text \<open>
  The loop over the \<^verbatim>\<open>select\<close> elements: \<open>Some r\<close> where the evaluated function returns
  \<open>r\<close> from inside the loop, \<open>None\<close> where the loop ends and the inputs are tried.
\<close>

fun setTicketQuantity_selects ::
  "js \<Rightarrow> 'b browser \<Rightarrow> int \<Rightarrow> elem list \<Rightarrow> 'b \<Rightarrow> (quantity_result \<times> 'b) option" where
  "setTicketQuantity_selects J B desired [] b = None"
| "setTicketQuantity_selects J B desired (select # rest) b =
     (if isQuantitySelect J B select b then
        (case findOption J B select (String desired) b of
           None \<Rightarrow> Some (setTicketQuantity_lower J B select (desired - 1) b)
         | Some option \<Rightarrow>
             Some (\<lparr>qsuccess = True, quantity = Some desired\<rparr>, chooseOption B select option b))
      else setTicketQuantity_selects J B desired rest b)"

text \<open>
  The loop over the numeric inputs. Its inner loop
  \<^verbatim>\<open>for (let qty = actualQty; qty >= 1; qty--) { ...; return { success: true, quantity: qty } }\<close>
  returns in its first pass, so it runs at most once, and not at all when \<open>actualQty\<close> is
  below 1 or \<^verbatim>\<open>NaN\<close>.
\<close>

fun setTicketQuantity_inputs ::
  "js \<Rightarrow> 'b browser \<Rightarrow> int \<Rightarrow> nat \<Rightarrow> elem list \<Rightarrow> 'b \<Rightarrow> quantity_result \<times> 'b" where
  "setTicketQuantity_inputs J B desired n [] b = (\<lparr>qsuccess = False, quantity = None\<rparr>, b)"
| "setTicketQuantity_inputs J B desired n (input # rest) b =
     (let i = toLowerCase J (getProp B input ''id'' b);
          nm = toLowerCase J (getProp B input ''name'' b)
      in if i = [] \<and> nm = [] \<and> n > 1 then setTicketQuantity_inputs J B desired n rest b
         else if (str_includes i ''quantity'' \<or> str_includes nm ''quantity'' \<or> n = 1) \<and>
                 \<not> flag B input ''disabled'' b
         then
           (let mx = (if getProp B input ''max'' b \<noteq> [] then parseInt J (getProp B input ''max'' b)
                      else Some desired);
                actualQty = map_option (min desired) mx
            in case actualQty of
                 None \<Rightarrow> setTicketQuantity_inputs J B desired n rest b
               | Some qty \<Rightarrow>
                   if qty \<ge> 1
                   then (\<lparr>qsuccess = True, quantity = Some qty\<rparr>,
                         dispatchEvent B input ''change''
                           (dispatchEvent B input ''input'' (setValue B input (String qty) b)))
                   else setTicketQuantity_inputs J B desired n rest b)
         else setTicketQuantity_inputs J B desired n rest b)"

definition NUMBER_INPUT :: string where
  \<open>NUMBER_INPUT = ''input[type="number"]''\<close>

text \<open>The function that \<^verbatim>\<open>setTicketQuantity\<close> evaluates in the page.\<close>

definition setTicketQuantity_eval ::
  "js \<Rightarrow> 'b browser \<Rightarrow> page \<Rightarrow> int \<Rightarrow> 'b \<Rightarrow> quantity_result \<times> 'b" where
  \<open>setTicketQuantity_eval J B pg desired b =
     (case setTicketQuantity_selects J B desired (querySelectorAll B pg ''select'' b) b of
        Some r \<Rightarrow> r
      | None \<Rightarrow>
          (let inputs = querySelectorAll B pg NUMBER_INPUT b
           in setTicketQuantity_inputs J B desired (length inputs) inputs b))\<close>

definition setTicketQuantity :: "js \<Rightarrow> 'b browser \<Rightarrow> page \<Rightarrow> int option \<Rightarrow> (bool, 'b) comp" where
  "setTicketQuantity J B pg qopt w =
     (case qopt of
        None \<Rightarrow> (Inr False, w)
      | Some q \<Rightarrow>
          if q = 0 \<or> q \<le> 1 then (Inr False, w)
          else
            await (evaluate B pg (setTicketQuantity_eval J B pg q))
              (\<lambda>result w'.
                 (Inr (qsuccess result),
                  if qsuccess result then
                    (case quantity result of
                       None \<Rightarrow> w'
                     | Some rq \<Rightarrow>
                         if rq < q
                         then log (''   Set ticket quantity to '' @ String rq)
                                (log (''   Only '' @ String rq @ '' ticket(s) available (requested ''
                                        @ String q @ '')'') w')
                         else log (''   Set ticket quantity to '' @ String rq) w')
                  else w')) w)"

definition savedPaymentPatterns :: "string list" where
  "savedPaymentPatterns =
     [''VISA'', ''MASTERCARD'', ''AMEX'', ''AMERICAN EXPRESS'', ''DISCOVER'', ''ENDING'', ''****'',
      ''CARD'']"

fun selectSavedPayment_radios :: "js \<Rightarrow> 'b browser \<Rightarrow> page \<Rightarrow> elem list \<Rightarrow> 'b \<Rightarrow> bool \<times> 'b" where
  "selectSavedPayment_radios J B pg [] b = (False, b)"
| "selectSavedPayment_radios J B pg (radio # rest) b =
     (if flag B radio ''disabled'' b then selectSavedPayment_radios J B pg rest b
      else
        (let labelText = toUpperCase J
               (firstTruthy (case labelOf B pg radio b of
                               None \<Rightarrow> [] | Some l \<Rightarrow> getProp B l ''innerText'' b)
                            (getProp B radio ''aria-label'' b))
         in if list_ex (\<lambda>p. str_includes labelText p) savedPaymentPatterns
            then (True, if \<not> flag B radio ''checked'' b then domClick B radio b else b)
            else selectSavedPayment_radios J B pg rest b))"

definition selectSavedPayment :: "js \<Rightarrow> 'b browser \<Rightarrow> page \<Rightarrow> (bool, 'b) comp" where
  \<open>selectSavedPayment J B pg =
     evaluate B pg (\<lambda>b. selectSavedPayment_radios J B pg
                            (querySelectorAll B pg ''input[type="radio"]'' b) b)\<close>

fun fillInputs :: "'b browser \<Rightarrow> context \<Rightarrow> string list \<Rightarrow> string \<Rightarrow> 'b \<Rightarrow> bool \<times> 'b" where
  "fillInputs B fr [] v b = (False, b)"
| "fillInputs B fr (selector # rest) v b =
     (let locator = Locator fr selector None in
      if count B locator b = 0 then fillInputs B fr rest v b
      else if \<not> isVisible B (Nth locator 0) b then fillInputs B fr rest v b
      else (True, fill B (Nth locator 0) v b))"

definition cardNumberSelectors :: "string list" where
  \<open>cardNumberSelectors =
     [''input[name="cardnumber"]'', ''input[autocomplete="cc-number"]'',
      ''input[aria-label*="Card number"]'', ''input[placeholder*="Card number"]'',
      ''input[placeholder*="Card Number"]'']\<close>

definition expSelectors :: "string list" where
  \<open>expSelectors =
     [''input[name="exp-date"]'', ''input[autocomplete="cc-exp"]'', ''input[aria-label*="Expiry"]'',
      ''input[aria-label*="Expiration"]'', ''input[placeholder*="MM"]'',
      ''input[placeholder*="MM/YY"]'']\<close>

definition cvcSelectors :: "string list" where
  \<open>cvcSelectors =
     [''input[name="cvc"]'', ''input[name="cvv"]'', ''input[autocomplete="cc-csc"]'',
      ''input[aria-label*="CVC"]'', ''input[aria-label*="CVV"]'', ''input[placeholder*="CVC"]'']\<close>

definition nameSelectors :: "string list" where
  \<open>nameSelectors =
     [''input[name*="name"]'', ''input[autocomplete="cc-name"]'',
      ''input[aria-label*="Name on card"]'', ''input[placeholder*="Name"]'']\<close>

definition zipSelectors :: "string list" where
  \<open>zipSelectors =
     [''input[name*="zip"]'', ''input[name*="postal"]'', ''input[autocomplete="postal-code"]'',
      ''input[aria-label*="ZIP"]'', ''input[placeholder*="ZIP"]'', ''input[placeholder*="Postal"]'']\<close>

text \<open>\<open>fillIf v sels\<close> is \<^verbatim>\<open>if (v) { filled = await fillInputs(..., v); filledAny ||= filled }\<close>.\<close>

definition fillIf ::
  "'b browser \<Rightarrow> context \<Rightarrow> string option \<Rightarrow> string list \<Rightarrow> bool \<times> 'b \<Rightarrow> bool \<times> 'b" where
  "fillIf B fr v sels st =
     (if truthy v
      then (case fillInputs B fr sels (orEmpty v) (snd st) of
              (filled, b') \<Rightarrow> (fst st \<or> filled, b'))
      else st)"

fun fillCardDetails_frames ::
  "'b browser \<Rightarrow> payment_settings \<Rightarrow> frame list \<Rightarrow> bool \<times> 'b \<Rightarrow> bool \<times> 'b" where
  "fillCardDetails_frames B p [] st = st"
| "fillCardDetails_frames B p (fr # rest) st =
     fillCardDetails_frames B p rest
       (fillIf B (CFrame fr) (cvc p) cvcSelectors
          (fillIf B (CFrame fr) (exp p) expSelectors
             (fillIf B (CFrame fr) (cardNumber p) cardNumberSelectors st)))"

definition fillCardDetails :: "'b browser \<Rightarrow> page \<Rightarrow> payment_settings \<Rightarrow> (bool, 'b) comp" where
  "fillCardDetails B pg p w =
     (if \<not> truthy (cardNumber p) \<and> \<not> truthy (exp p) \<and> \<not> truthy (cvc p) then (Inr False, w)
      else
        (case fillIf B (CPage pg) (zip p) zipSelectors
                (fillIf B (CPage pg) (name p) nameSelectors
                   (fillCardDetails_frames B p (frames B pg (bstate w)) (False, bstate w))) of
           (filledAny, b') \<Rightarrow>
             (Inr filledAny,
              if filledAny then log ''   Filled payment fields'' (w\<lparr>bstate := b'\<rparr>)
              else w\<lparr>bstate := b'\<rparr>)))"

definition PASSWORD_INPUT :: string where
  \<open>PASSWORD_INPUT = ''input[type="password"]''\<close>

definition LOGIN_TEXT :: string where
  "LOGIN_TEXT = ''text=/sign in|log in/i''"

definition QUEUE_TEXT :: string where
  "QUEUE_TEXT = ''text=/waiting room|queue/i''"

definition CONFIRMATION_TEXT :: string where
  "CONFIRMATION_TEXT =
     ''text=/thank you|order confirmed|purchase complete|confirmation number|receipt/i''"

definition detectLogin :: "js \<Rightarrow> 'b browser \<Rightarrow> page \<Rightarrow> 'b \<Rightarrow> bool" where
  "detectLogin J B pg b \<longleftrightarrow>
     regexTestAny J [[Lit ''login''], [Lit ''sign-in''], [Lit ''signin''], [Lit ''auth'']] (url B pg b) \<or>
     isVisible B (Nth (Locator (CPage pg) PASSWORD_INPUT None) 0) b \<or>
     isVisible B (Nth (Locator (CPage pg) LOGIN_TEXT None) 0) b"

definition detectQueue :: "js \<Rightarrow> 'b browser \<Rightarrow> page \<Rightarrow> 'b \<Rightarrow> bool" where
  "detectQueue J B pg b \<longleftrightarrow>
     regexTestAny J [[Lit ''queue''], [Lit ''waiting-room'']] (url B pg b) \<or>
     isVisible B (Nth (Locator (CPage pg) QUEUE_TEXT None) 0) b"

definition detectConfirmation :: "js \<Rightarrow> 'b browser \<Rightarrow> page \<Rightarrow> 'b \<Rightarrow> bool" where
  "detectConfirmation J B pg b \<longleftrightarrow>
     regexTestAny J [[Lit ''confirmation''], [Lit ''receipt''], [Lit ''thank-you''],
                     [Lit ''order-complete''], [Lit ''purchase-complete'']] (url B pg b) \<or>
     isVisible B (Nth (Locator (CPage pg) CONFIRMATION_TEXT None) 0) b"

definition MODAL_SELECTOR :: string where
  \<open>MODAL_SELECTOR =
     ''[role="dialog"], .modal, [class*="modal"], [class*="checkout"], [class*="Checkout"]''\<close>

definition detectBlockingError_eval :: "js \<Rightarrow> 'b browser \<Rightarrow> page \<Rightarrow> 'b \<Rightarrow> bool" where
  "detectBlockingError_eval J B pg b =
     (case querySelector B pg MODAL_SELECTOR b of
        None \<Rightarrow> False
      | Some modal \<Rightarrow>
          (let modalText = toLowerCase J (getProp B modal ''innerText'' b)
           in list_ex (\<lambda>p. str_includes modalText p)
                [''no longer available'', ''payment failed'', ''declined'', ''try again'', ''error'']))"

definition detectBlockingError :: "js \<Rightarrow> 'b browser \<Rightarrow> page \<Rightarrow> (bool, 'b) comp" where
  "detectBlockingError J B pg = evaluate B pg (\<lambda>b. (detectBlockingError_eval J B pg b, b))"

text \<open>
  \<^verbatim>\<open>helpers\<close> is \<^verbatim>\<open>{ debug, screenshot }\<close>. One pass of the checkout loop either returns
  from \<^verbatim>\<open>runCheckoutFlow\<close> or goes on to the next step.
\<close>

record 'b helpers =
  debug :: bool
  hscreenshot :: "string \<Rightarrow> (unit, 'b) comp"

datatype 'a outcome = Return 'a | Continue

definition orDefault :: "int option \<Rightarrow> int \<Rightarrow> int" where
  "orDefault v d = (case v of None \<Rightarrow> d | Some n \<Rightarrow> if n = 0 then d else n)"

definition runCheckoutFlow_step ::
  "js \<Rightarrow> 'b browser \<Rightarrow> page \<Rightarrow> settings \<Rightarrow> 'b helpers option \<Rightarrow> int \<Rightarrow> int
     \<Rightarrow> (checkout_result outcome, 'b) comp" where
  "runCheckoutFlow_step J B pg s hs stepWaitMs' step w =
     (let w0 = log (''   Checkout step '' @ String step @ ''...'') w in
      if detectQueue J B pg (bstate w0) then
        (Inr (Return \<lparr>success = False, reason = ''Queue/waiting room encountered'',
                       result_url = Some (url B pg (bstate w0))\<rparr>), w0)
      else if detectLogin J B pg (bstate w0) then
        (Inr (Return \<lparr>success = False, reason = ''Login required during checkout'',
                       result_url = Some (url B pg (bstate w0))\<rparr>), w0)
      else if detectConfirmation J B pg (bstate w0) then
        (Inr (Return \<lparr>success = True, reason = ''Purchase confirmed'',
                       result_url = Some (url B pg (bstate w0))\<rparr>), w0)
      else
        await (detectBlockingError J B pg) (\<lambda>blocked w1.
        if blocked then
          (Inr (Return \<lparr>success = False, reason = ''Checkout error in modal'',
                         result_url = Some (url B pg (bstate w1))\<rparr>), w1)
        else
        await (checkTermsCheckboxes J B pg) (\<lambda>acted1.
        await (clickFirstMatchingAnyContext J B pg TEXT_PATTERNS_final ''Complete purchase'' None)
          (\<lambda>clicked.
        await (if clicked then waitForPageSettled B pg (stepWaitMs' + 1000) else ret ()) (\<lambda>u w3.
          if clicked \<and> detectConfirmation J B pg (bstate w3) then
            (Inr (Return \<lparr>success = True, reason = ''Purchase confirmed'',
                           result_url = Some (url B pg (bstate w3))\<rparr>), w3)
          else
            await (if acted1 \<or> clicked then ret True
                   else setTicketQuantity J B pg (ticketQuantity s)) (\<lambda>acted3.
            await (if acted3 then ret True else selectSavedPayment J B pg) (\<lambda>acted4.
            await (if acted4 then ret True
                   else clickFirstMatchingAnyContext J B pg TEXT_PATTERNS_continue ''Continue'' None)
              (\<lambda>acted.
            if \<not> acted then
              await (if debugScreenshots s \<or> debugButtonDump s
                     then dumpVisibleButtons J B pg (''Step '' @ String step @ '' - no action taken'')
                     else ret ()) (\<lambda>u.
              await (pageWaitForTimeout B pg 1500) (\<lambda>u. ret Continue))
            else
              await (waitForPageSettled B pg stepWaitMs') (\<lambda>u.
              await (case hs of
                       None \<Rightarrow> ret ()
                     | Some h \<Rightarrow> if debug h then hscreenshot h (''step-'' @ String step) else ret ())
                (\<lambda>u. ret Continue))))) w3))) w1) w0)"

text \<open>The loop \<^verbatim>\<open>for (let step = 1; step <= maxSteps; step++)\<close>, entered at \<open>step\<close>.\<close>

function runCheckoutFlow_loop ::
  "js \<Rightarrow> 'b browser \<Rightarrow> page \<Rightarrow> settings \<Rightarrow> 'b helpers option \<Rightarrow> int \<Rightarrow> int \<Rightarrow> int
     \<Rightarrow> (checkout_result, 'b) comp" where
  "runCheckoutFlow_loop J B pg s hs maxSteps' stepWaitMs' step w =
     (if step \<le> maxSteps' then
        (case runCheckoutFlow_step J B pg s hs stepWaitMs' step w of
           (Inl e, w') \<Rightarrow> (Inl e, w')
         | (Inr (Return r), w') \<Rightarrow> (Inr r, w')
         | (Inr Continue, w') \<Rightarrow> runCheckoutFlow_loop J B pg s hs maxSteps' stepWaitMs' (step + 1) w')
      else (Inr \<lparr>success = False, reason = ''Checkout flow incomplete'',
                 result_url = Some (url B pg (bstate w))\<rparr>, w))"
  by pat_completeness auto
termination
  by (relation "measure (\<lambda>(J, B, pg, s, hs, maxSteps', stepWaitMs', step, w). nat (maxSteps' + 1 - step))")
     auto

declare runCheckoutFlow_loop.simps [simp del]

text \<open>
  \<^verbatim>\<open>payment\<close> is computed from the settings and the environment \<open>env\<close> as in the source,
  which does not use it afterwards.
\<close>

definition runCheckoutFlow ::
  "js \<Rightarrow> 'b browser \<Rightarrow> (string \<Rightarrow> string option) \<Rightarrow> page \<Rightarrow> settings \<Rightarrow> 'b helpers option
     \<Rightarrow> (checkout_result, 'b) comp" where
  \<open>runCheckoutFlow J B env pg s hs w =
     (let maxSteps' = orDefault (maxSteps s) 12;
          stepWaitMs' = orDefault (stepWaitMs s) 1800;
          waitForBuyAdditionalMs' = orDefault (waitForBuyAdditionalMs s) 15000;
          payment' = getPaymentConfig env s
      in await (pageWaitForTimeout B pg 1500) (\<lambda>u.
         await (clickByTextContent J B pg ''buy additional tickets'' ''Buy additional tickets'')
           (\<lambda>clickedText.
         await (if clickedText then ret True
                else clickFirstMatchingAnyContext J B pg TEXT_PATTERNS_buyAdditional
                       ''Buy additional tickets'' (Some waitForBuyAdditionalMs'))
           (\<lambda>clickedBuyAdditional.
         await (if clickedBuyAdditional
                then await (waitForPageSettled B pg stepWaitMs')
                       (\<lambda>u w'. (Inr (), log ''   Checkout modal should be open...'' w'))
                else (\<lambda>w'. (Inr (),
                        log (''   Could not find "Buy additional tickets..."'' @
                             '' - may already be in checkout'') w')))
           (\<lambda>u. runCheckoutFlow_loop J B pg s hs maxSteps' stepWaitMs' 1))))
        (log ''   Looking for "Buy additional tickets..." dropdown...'' w))\<close>

text \<open>
  The result of \<^verbatim>\<open>clickOrderTicketsButton\<close>: \<^verbatim>\<open>{ success: false, reason }\<close> or
  \<^verbatim>\<open>{ success: true, purchasePage, openedNewPage }\<close>.
\<close>

datatype order_result = OrderFailure string | OrderSuccess page bool

definition ROW_SELECTOR :: string where
  \<open>ROW_SELECTOR = ''.rdt_TableRow, [class*="TableRow"]''\<close>

definition TARGET_SELECTOR :: string where
  \<open>TARGET_SELECTOR = ''[data-auto-purchase-target="true"]''\<close>

definition isOrderButton :: "js \<Rightarrow> 'b browser \<Rightarrow> elem \<Rightarrow> 'b \<Rightarrow> bool" where
  "isOrderButton J B btn b =
     (let text = toUpperCase J (trim J (getProp B btn ''textContent'' b))
      in str_includes text ''ORDER'' \<or> str_includes text ''GET'' \<or>
         (str_includes text ''BUY'' \<and> str_includes text ''TICKET''))"

text \<open>The function that \<^verbatim>\<open>clickOrderTicketsButton\<close> evaluates in the page.\<close>

fun clickOrderTicketsButton_eval ::
  "js \<Rightarrow> 'b browser \<Rightarrow> string \<Rightarrow> elem list \<Rightarrow> 'b \<Rightarrow> bool \<times> 'b" where
  "clickOrderTicketsButton_eval J B t [] b = (False, b)"
| "clickOrderTicketsButton_eval J B t (desc # rest) b =
     (case elemQuerySelector B desc ''h3'' b of
        None \<Rightarrow> clickOrderTicketsButton_eval J B t rest b
      | Some titleEl \<Rightarrow>
          (let filmTitle = trim J (getProp B titleEl ''textContent'' b) in
           if \<not> str_includes (toLowerCase J filmTitle) (toLowerCase J t)
           then clickOrderTicketsButton_eval J B t rest b
           else
             (case closest B desc ROW_SELECTOR b of
                None \<Rightarrow> clickOrderTicketsButton_eval J B t rest b
              | Some row \<Rightarrow>
                  (case find (\<lambda>btn. isOrderButton J B btn b)
                          (elemQuerySelectorAll B row BUTTON_SELECTOR b) of
                     Some btn \<Rightarrow> (True, setAttribute B btn ''data-auto-purchase-target'' ''true'' b)
                   | None \<Rightarrow> clickOrderTicketsButton_eval J B t rest b))))"

definition clickOrderTicketsButton ::
  "js \<Rightarrow> 'b browser \<Rightarrow> page \<Rightarrow> string \<Rightarrow> (order_result, 'b) comp" where
  "clickOrderTicketsButton J B pg filmTitle =
     await (evaluate B pg (\<lambda>b. clickOrderTicketsButton_eval J B filmTitle
                                   (querySelectorAll B pg ''.sd_schedule_film_desc'' b) b))
       (\<lambda>found w1.
          if \<not> found then (Inr (OrderFailure ''Order tickets button not found''), w1)
          else
            (case pageClick B pg TARGET_SELECTOR (bstate w1) of
               (Inl e, b2) \<Rightarrow> (Inl e, w1\<lparr>bstate := b2\<rparr>)
             | (Inr u, b2) \<Rightarrow>
                 (case waitForPopup B pg b2 of
                    (Some popup, b3) \<Rightarrow>
                      (Inr (OrderSuccess popup True), w1\<lparr>bstate := waitForLoadState B popup b3\<rparr>)
                  | (None, b3) \<Rightarrow> (Inr (OrderSuccess pg False), w1\<lparr>bstate := b3\<rparr>))))"

text \<open>
  The closure \<^verbatim>\<open>screenshot\<close> of \<^verbatim>\<open>attemptPurchase\<close>; every call of it is made after
  \<^verbatim>\<open>currentPage\<close> has become the purchase page.
\<close>

definition attemptPurchase_screenshot ::
  "'b browser \<Rightarrow> bool \<Rightarrow> string \<Rightarrow> int \<Rightarrow> page \<Rightarrow> string \<Rightarrow> (unit, 'b) comp" where
  "attemptPurchase_screenshot B dbg slug runId currentPage label w =
     (if \<not> dbg then (Inr (), w)
      else (Inr (),
            w\<lparr>bstate := snd (screenshot B currentPage
                                (''auto-purchase-'' @ slug @ ''-'' @ String runId @ ''-'' @ label @ ''.png'')
                                (bstate w))\<rparr>))"

text \<open>The \<^verbatim>\<open>catch\<close> block of \<^verbatim>\<open>attemptPurchase\<close>, for the error message \<open>msg\<close>.\<close>

definition attemptPurchase_catch ::
  "'b browser \<Rightarrow> page \<Rightarrow> int \<Rightarrow> string \<Rightarrow> (checkout_result, 'b) comp" where
  "attemptPurchase_catch B currentPage runId msg w =
     (let w1 = log (''   Auto-purchase error: '' @ msg) w
      in (Inr \<lparr>success = False, reason = msg, result_url = None\<rparr>,
          w1\<lparr>bstate := snd (screenshot B currentPage
                               (''auto-purchase-error-'' @ String runId @ ''.png'') (bstate w1))\<rparr>))"

text \<open>The \<^verbatim>\<open>try\<close> block after the order button has been clicked.\<close>

definition attemptPurchase_checkout ::
  "js \<Rightarrow> 'b browser \<Rightarrow> (string \<Rightarrow> string option) \<Rightarrow> page \<Rightarrow> page \<Rightarrow> bool \<Rightarrow> string \<Rightarrow> settings
     \<Rightarrow> string \<Rightarrow> int \<Rightarrow> (change_event list \<Rightarrow> (unit, 'b) comp) option
     \<Rightarrow> (checkout_result, 'b) comp" where
  "attemptPurchase_checkout J B env pg purchasePage openedNewPage filmTitle s slug runId
      sendNotification =
     (let dbg = (debugScreenshots s = True) in
      await (waitForPageSettled B purchasePage 1500) (\<lambda>u.
      await (attemptPurchase_screenshot B dbg slug runId purchasePage ''after-order'') (\<lambda>u w2.
      await (runCheckoutFlow J B env purchasePage s
               (Some \<lparr>debug = dbg,
                      hscreenshot = attemptPurchase_screenshot B dbg slug runId purchasePage\<rparr>))
        (\<lambda>checkoutResult w3.
           (let w4 = (if openedNewPage \<and> purchasePage \<noteq> pg \<and> keepCheckoutOpen s \<noteq> True
                      then w3\<lparr>bstate := closePage B purchasePage (bstate w3)\<rparr> else w3)
            in await (case sendNotification of
                        None \<Rightarrow> ret ()
                      | Some send \<Rightarrow>
                          if notifyOnPurchaseUpdates s \<noteq> Some False
                          then send [\<lparr>etype = (if success checkoutResult then PURCHASE_SUCCESS
                                                 else PURCHASE_FAILED),
                                      etitle = filmTitle, escreeningTime = [], estatus = None,
                                      ebuttonText = reason checkoutResult,
                                      eurl = (if truthy (result_url checkoutResult)
                                              then orEmpty (result_url checkoutResult)
                                              else url B purchasePage (bstate w4))\<rparr>]
                          else ret ())
                 (\<lambda>u. ret checkoutResult) w4))
        (log ''   Step 2+: Navigating checkout flow...'' w2))))"

definition attemptPurchase ::
  "js \<Rightarrow> 'b browser \<Rightarrow> (string \<Rightarrow> string option) \<Rightarrow> page \<Rightarrow> string \<Rightarrow> string \<Rightarrow> config
     \<Rightarrow> (change_event list \<Rightarrow> (unit, 'b) comp) option \<Rightarrow> (checkout_result, 'b) comp" where
  "attemptPurchase J B env pg filmTitle stime cfg sendNotification w =
     (let w0 = log (''AUTO-PURCHASE: Starting purchase flow for '' @ quoted filmTitle) w;
          w1 = (if stime \<noteq> [] then log (''   Screening: '' @ stime) w0 else w0);
          s = (case csettings cfg of None \<Rightarrow> emptySettings | Some s \<Rightarrow> s)
      in case getFilmSettings J filmTitle stime (Some cfg) of
           None \<Rightarrow>
             (Inr \<lparr>success = False, reason = ''Film screening not found in auto-purchase list'',
                   result_url = None\<rparr>, w1)
         | Some filmSettings \<Rightarrow>
             if autoPurchase filmSettings \<noteq> True then
               (Inr \<lparr>success = False, reason = ''Auto-purchase disabled for this screening'',
                     result_url = None\<rparr>, w1)
             else
               (let runId = now w1;
                    slug = (if slugify J filmTitle \<noteq> [] then slugify J filmTitle else ''film'')
                in case clickOrderTicketsButton J B pg filmTitle
                          (log ''   Step 1: Finding Order tickets button...'' w1) of
                     (Inl e, w2) \<Rightarrow> attemptPurchase_catch B pg runId e w2
                   | (Inr (OrderFailure why), w2) \<Rightarrow>
                       (Inr \<lparr>success = False, reason = why, result_url = None\<rparr>, w2)
                   | (Inr (OrderSuccess purchasePage openedNewPage), w2) \<Rightarrow>
                       (case attemptPurchase_checkout J B env pg purchasePage openedNewPage filmTitle
                               s slug runId sendNotification w2 of
                          (Inl e, w3) \<Rightarrow> attemptPurchase_catch B purchasePage runId e w3
                        | (Inr r, w3) \<Rightarrow> (Inr r, w3))))"

section \<open>Monitoring loop: the auto-purchase block (monitor.js)\<close>

definition SCHEDULE_URL :: string where
  "SCHEDULE_URL = ''https://festival.sundance.org/my-festival/my-schedule''"

text \<open>The loop \<^verbatim>\<open>for (const change of changes)\<close> inside \<^verbatim>\<open>if (autoPurchaseConfig)\<close>.\<close>

fun monitorSchedule_purchases ::
  "js \<Rightarrow> 'b browser \<Rightarrow> (string \<Rightarrow> string option) \<Rightarrow> page \<Rightarrow> config
     \<Rightarrow> (change_event list \<Rightarrow> (unit, 'b) comp) \<Rightarrow> change_event list \<Rightarrow> (unit, 'b) comp" where
  "monitorSchedule_purchases J B env pg cfg sendEmailNotification [] w = (Inr (), w)"
| "monitorSchedule_purchases J B env pg cfg sendEmailNotification (change # rest) w =
     (if (etype change = NOW_AVAILABLE \<or> etype change = NEW_AVAILABLE) \<and>
         shouldAutoPurchase J (etitle change) (escreeningTime change) (Some cfg)
      then
        (let w0 = log (''Auto-purchase triggered for: '' @ etitle change) w;
             w1 = (if escreeningTime change \<noteq> []
                   then log (''   Screening: '' @ escreeningTime change) w0 else w0)
         in case attemptPurchase J B env pg (etitle change) (escreeningTime change) cfg
                   (Some sendEmailNotification) w1 of
              (Inl e, w2) \<Rightarrow> (Inl e, w2)
            | (Inr result, w2) \<Rightarrow>
                (let w3 = (if success result
                           then (let w' = log (''   Auto-purchase '' @ reason result) w2
                                 in if truthy (result_url result)
                                    then log (''   '' @ orEmpty (result_url result)) w' else w')
                           else log (''   Auto-purchase failed: '' @ reason result) w2)
                 in case goto B pg SCHEDULE_URL (bstate w3) of
                      (Inl e, b4) \<Rightarrow> (Inl e, w3\<lparr>bstate := b4\<rparr>)
                    | (Inr u, b4) \<Rightarrow>
                        (case pageWaitForTimeout B pg 3000 (w3\<lparr>bstate := b4\<rparr>) of
                           (Inl e, w5) \<Rightarrow> (Inl e, w5)
                         | (Inr u', w5) \<Rightarrow>
                             monitorSchedule_purchases J B env pg cfg sendEmailNotification rest w5)))
      else monitorSchedule_purchases J B env pg cfg sendEmailNotification rest w)"

text \<open>
  The block of \<^verbatim>\<open>monitorSchedule\<close> that follows \<^verbatim>\<open>notifyChanges\<close>: load the configuration
  and, if there is one, go through the changes.
\<close>

definition monitorSchedule_autoPurchase ::
  "js \<Rightarrow> 'b browser \<Rightarrow> (string \<Rightarrow> string option) \<Rightarrow> (string \<Rightarrow> string + config option) \<Rightarrow> file_state
     \<Rightarrow> page \<Rightarrow> (change_event list \<Rightarrow> (unit, 'b) comp) \<Rightarrow> change_event list \<Rightarrow> (unit, 'b) comp" where
  "monitorSchedule_autoPurchase J B env JSON_parse file pg sendEmailNotification changes w =
     (case loadAutoPurchaseConfig JSON_parse file of
        (autoPurchaseConfig, errors) \<Rightarrow>
          (case autoPurchaseConfig of
             None \<Rightarrow> (Inr (), w\<lparr>console := console w @ errors\<rparr>)
           | Some cfg \<Rightarrow>
               monitorSchedule_purchases J B env pg cfg sendEmailNotification changes
                 (w\<lparr>console := console w @ errors\<rparr>)))"

section \<open>Properties of a run, as the specification words them\<close>

text \<open>
  Each pass of the checkout loop writes the line \<open>stepLine step\<close> to the console, so the
  passes of a run are the step lines of its console.

  \<open>preludeIdle J B pg Q\<close>: on every browser state that satisfies \<open>Q\<close> the two searches
  for the "buy additional tickets" prompt click nothing, and waiting leads to such states only.
  \<open>quiescent J B pg s Q\<close>: moreover no hazard detector fires, no action of the checkout
  loop has an effect on these states, and \<^verbatim>\<open>page.evaluate\<close> does not reject there.
\<close>

definition stepLine :: "int \<Rightarrow> string" where
  "stepLine step = ''   Checkout step '' @ String step @ ''...''"

definition isStepLine :: "string \<Rightarrow> bool" where
  "isStepLine line \<longleftrightarrow> take 17 line = ''   Checkout step ''"

definition preludeIdle :: "js \<Rightarrow> 'b browser \<Rightarrow> page \<Rightarrow> ('b \<Rightarrow> bool) \<Rightarrow> bool" where
  "preludeIdle J B pg Q \<longleftrightarrow>
     (\<forall>w. Q (bstate w) \<longrightarrow>
        clickByTextContent J B pg ''buy additional tickets'' ''Buy additional tickets'' w
          = (Inr False, w) \<and>
        (\<forall>ctx quiet. ctx \<in> set (contexts B pg (bstate w)) \<longrightarrow>
           clickFirstMatching J B ctx TEXT_PATTERNS_buyAdditional ''Buy additional tickets'' quiet w
             = (Inr False, w)) \<and>
        (\<forall>ms. \<exists>b'. waitForTimeout B pg ms (bstate w) = (Inr (), b') \<and> Q b'))"

definition quiescent :: "js \<Rightarrow> 'b browser \<Rightarrow> page \<Rightarrow> settings \<Rightarrow> ('b \<Rightarrow> bool) \<Rightarrow> bool" where
  "quiescent J B pg s Q \<longleftrightarrow>
     preludeIdle J B pg Q \<and>
     (\<forall>w. Q (bstate w) \<longrightarrow>
        \<not> detectQueue J B pg (bstate w) \<and> \<not> detectLogin J B pg (bstate w) \<and>
        \<not> detectConfirmation J B pg (bstate w) \<and>
        detectBlockingError J B pg w = (Inr False, w) \<and>
        checkTermsCheckboxes J B pg w = (Inr False, w) \<and>
        clickFirstMatchingAnyContext J B pg TEXT_PATTERNS_final ''Complete purchase'' None w
          = (Inr False, w) \<and>
        setTicketQuantity J B pg (ticketQuantity s) w = (Inr False, w) \<and>
        selectSavedPayment J B pg w = (Inr False, w) \<and>
        clickFirstMatchingAnyContext J B pg TEXT_PATTERNS_continue ''Continue'' None w
          = (Inr False, w) \<and>
        evaluateRejects B pg (bstate w) = None)"

text \<open>
  The matcher in the words of section 4.2: the rules of a configuration, a rule that matches
  a title and time exactly, a rule that matches the title and has no screening time, and a
  rule whose screening time is not blank.
\<close>

definition rulesOf :: "config option \<Rightarrow> film_rule list" where
  "rulesOf cfg =
     (case cfg of None \<Rightarrow> [] | Some c \<Rightarrow> (case films c of None \<Rightarrow> [] | Some fs \<Rightarrow> fs))"

definition exactFor :: "js \<Rightarrow> string \<Rightarrow> string \<Rightarrow> film_rule \<Rightarrow> bool" where
  "exactFor J filmTitle stime f \<longleftrightarrow>
     normalizeTitle J (title f) = normalizeTitle J filmTitle \<and>
     normalizeTitle J (orEmpty (screeningTime f)) = normalizeTitle J stime"

definition titleOnlyFor :: "js \<Rightarrow> string \<Rightarrow> film_rule \<Rightarrow> bool" where
  "titleOnlyFor J filmTitle f \<longleftrightarrow>
     \<not> truthy (screeningTime f) \<and> normalizeTitle J (title f) = normalizeTitle J filmTitle"

definition hasExactTime :: "js \<Rightarrow> film_rule \<Rightarrow> bool" where
  "hasExactTime J f \<longleftrightarrow> normalizeTitle J (orEmpty (screeningTime f)) \<noteq> []"

text \<open>
  The differ as section 4.1 of the specification words it: which entries of the current
  snapshot emit an event, of which type, and what the event carries.
\<close>

definition emitsNew :: "(string \<rightharpoonup> screening_record) \<Rightarrow> string \<times> screening_record \<Rightarrow> bool" where
  "emitsNew previousState e \<longleftrightarrow> previousState (fst e) = None \<and> status (snd e) = AVAILABLE"

definition emitsNow :: "(string \<rightharpoonup> screening_record) \<Rightarrow> string \<times> screening_record \<Rightarrow> bool" where
  "emitsNow previousState e \<longleftrightarrow>
     (case previousState (fst e) of
        None \<Rightarrow> False
      | Some previous \<Rightarrow> status previous = SOLD_OUT \<and> status (snd e) = AVAILABLE)"

definition carrying :: "event_type \<Rightarrow> screening_record \<Rightarrow> change_event" where
  "carrying t r =
     \<lparr>etype = t, etitle = rtitle r, escreeningTime = rscreeningTime r, estatus = Some (status r),
      ebuttonText = buttonText r, eurl = rurl r\<rparr>"

definition diff_spec ::
  "(string \<rightharpoonup> screening_record) \<Rightarrow> (string \<times> screening_record) list \<Rightarrow> change_event list" where
  "diff_spec previousState currentState =
     map (\<lambda>e. carrying (if emitsNew previousState e then NEW_AVAILABLE else NOW_AVAILABLE) (snd e))
       (filter (\<lambda>e. emitsNew previousState e \<or> emitsNow previousState e) currentState)"

text \<open>
  The quantity select is the first \<^verbatim>\<open>select\<close> whose id, name or class contains
  "quantity"; it offers a quantity by the first of its options whose value or trimmed text is
  that number.
\<close>

definition quantitySelect :: "js \<Rightarrow> 'b browser \<Rightarrow> page \<Rightarrow> 'b \<Rightarrow> elem option" where
  "quantitySelect J B pg b =
     find (\<lambda>sel. str_includes (toLowerCase J (getProp B sel ''id'' b)) ''quantity'' \<or>
                  str_includes (toLowerCase J (getProp B sel ''name'' b)) ''quantity'' \<or>
                  str_includes (toLowerCase J (getProp B sel ''className'' b)) ''quantity'')
       (querySelectorAll B pg ''select'' b)"

definition optionFor :: "js \<Rightarrow> 'b browser \<Rightarrow> elem \<Rightarrow> int \<Rightarrow> 'b \<Rightarrow> elem option" where
  "optionFor J B sel q b =
     find (\<lambda>opt. getProp B opt ''value'' b = String q \<or>
                  trim J (getProp B opt ''textContent'' b) = String q)
       (selectOptions B sel b)"

text \<open>
  The quantity that a numeric input takes: the desired one, capped by the attribute
  \<^verbatim>\<open>max\<close> of the input if it has one. An input is usable if its id or name contains
  "quantity" or it is the only numeric input, it is enabled, and the quantity it takes is at
  least 1.
\<close>

definition inputQuantity :: "js \<Rightarrow> 'b browser \<Rightarrow> int \<Rightarrow> elem \<Rightarrow> 'b \<Rightarrow> int option" where
  "inputQuantity J B desired input b =
     (if getProp B input ''max'' b = [] then Some desired
      else map_option (min desired) (parseInt J (getProp B input ''max'' b)))"

definition usableInput :: "js \<Rightarrow> 'b browser \<Rightarrow> int \<Rightarrow> nat \<Rightarrow> 'b \<Rightarrow> elem \<Rightarrow> bool" where
  "usableInput J B desired n b input \<longleftrightarrow>
     (str_includes (toLowerCase J (getProp B input ''id'' b)) ''quantity'' \<or>
      str_includes (toLowerCase J (getProp B input ''name'' b)) ''quantity'' \<or> n = 1) \<and>
     \<not> flag B input ''disabled'' b \<and>
     (case inputQuantity J B desired input b of None \<Rightarrow> False | Some q \<Rightarrow> 1 \<le> q)"

text \<open>
  The entry controls of a film: the buttons labelled with the order vocabulary in the rows
  of the schedule whose title contains the title of the film. \<open>attemptStart\<close> is the world
  after the opening lines of an attempt.
\<close>

definition entryControlsOf :: "js \<Rightarrow> 'b browser \<Rightarrow> string \<Rightarrow> elem list \<Rightarrow> 'b \<Rightarrow> elem list" where
  "entryControlsOf J B t descs b =
     concat (map (\<lambda>desc.
        case elemQuerySelector B desc ''h3'' b of
          None \<Rightarrow> []
        | Some titleEl \<Rightarrow>
            if str_includes (toLowerCase J (trim J (getProp B titleEl ''textContent'' b)))
                 (toLowerCase J t)
            then (case closest B desc ROW_SELECTOR b of
                    None \<Rightarrow> []
                  | Some row \<Rightarrow>
                      filter (\<lambda>btn. isOrderButton J B btn b)
                        (elemQuerySelectorAll B row BUTTON_SELECTOR b))
            else []) descs)"

definition entryControls :: "js \<Rightarrow> 'b browser \<Rightarrow> page \<Rightarrow> string \<Rightarrow> 'b \<Rightarrow> elem list" where
  "entryControls J B pg t b =
     entryControlsOf J B t (querySelectorAll B pg ''.sd_schedule_film_desc'' b) b"

definition attemptStart :: "string \<Rightarrow> string \<Rightarrow> 'b world \<Rightarrow> 'b world" where
  "attemptStart t st w =
     log ''   Step 1: Finding Order tickets button...''
       (if st \<noteq> []
        then log (''   Screening: '' @ st)
               (log (''AUTO-PURCHASE: Starting purchase flow for '' @ quoted t) w)
        else log (''AUTO-PURCHASE: Starting purchase flow for '' @ quoted t) w)"

definition settingsOf :: "config \<Rightarrow> settings" where
  "settingsOf cfg = (case csettings cfg of None \<Rightarrow> emptySettings | Some s \<Rightarrow> s)"

definition slugOf :: "js \<Rightarrow> string \<Rightarrow> string" where
  "slugOf J t = (if slugify J t \<noteq> [] then slugify J t else ''film'')"

section \<open>Page doubles\<close>

text \<open>
  The built-in functions on ASCII text, for the page doubles: the case mappings and the
  white-space class of JavaScript restricted to ASCII, \<^verbatim>\<open>parseInt\<close> with its optional sign
  and its hexadecimal prefix, and a matcher for the regular expressions above that looks for
  a match anywhere in the string.
\<close>

definition isSpace :: "char \<Rightarrow> bool" where
  "isSpace c \<longleftrightarrow> c \<in> set [CHR '' '', CHR 0x09, CHR 0x0A, CHR 0x0B, CHR 0x0C, CHR 0x0D]"

definition toLowerChar :: "char \<Rightarrow> char" where
  "toLowerChar c =
     (case map_of (List.zip ''ABCDEFGHIJKLMNOPQRSTUVWXYZ'' ''abcdefghijklmnopqrstuvwxyz'') c of
        Some d \<Rightarrow> d | None \<Rightarrow> c)"

definition toUpperChar :: "char \<Rightarrow> char" where
  "toUpperChar c =
     (case map_of (List.zip ''abcdefghijklmnopqrstuvwxyz'' ''ABCDEFGHIJKLMNOPQRSTUVWXYZ'') c of
        Some d \<Rightarrow> d | None \<Rightarrow> c)"

definition ascii_trim :: "string \<Rightarrow> string" where
  "ascii_trim s = rev (dropWhile isSpace (rev (dropWhile isSpace s)))"

definition digitVal :: "char \<Rightarrow> nat option" where
  "digitVal c = map_of (List.zip ''0123456789abcdefABCDEF''
                   [0, 1, 2, 3, 4, 5, 6, 7, 8, 9, 10, 11, 12, 13, 14, 15, 10, 11, 12, 13, 14, 15]) c"

definition isDigit :: "nat \<Rightarrow> char \<Rightarrow> bool" where
  "isDigit radix c = (case digitVal c of None \<Rightarrow> False | Some d \<Rightarrow> d < radix)"

definition digitsVal :: "nat \<Rightarrow> string \<Rightarrow> nat" where
  "digitsVal radix ds = foldl (\<lambda>acc c. radix * acc + (case digitVal c of None \<Rightarrow> 0 | Some d \<Rightarrow> d)) 0 ds"

definition ascii_parseInt :: "string \<Rightarrow> int option" where
  "ascii_parseInt s =
     (let t = dropWhile isSpace s;
          neg = (t \<noteq> [] \<and> hd t = CHR ''-'');
          u = (if t \<noteq> [] \<and> (hd t = CHR ''-'' \<or> hd t = CHR ''+'') then tl t else t);
          hex = (take 2 u = ''0x'' \<or> take 2 u = ''0X'');
          radix = (if hex then 16 else 10);
          ds = takeWhile (isDigit radix) (if hex then drop 2 u else u)
      in if ds = [] then None
         else Some (if neg then - int (digitsVal radix ds) else int (digitsVal radix ds)))"

fun match_here :: "regex \<Rightarrow> string \<Rightarrow> bool" where
  "match_here [] s = True"
| "match_here (Lit l # r) s =
     (map toLowerChar (take (length l) s) = map toLowerChar l \<and> match_here r (drop (length l) s))"
| "match_here (Opt c # r) [] = match_here r []"
| "match_here (Opt c # r) (d # s) =
     ((toLowerChar d = toLowerChar c \<and> match_here r s) \<or> match_here r (d # s))"
| "match_here (Ws0 # r) [] = match_here r []"
| "match_here (Ws0 # r) (d # s) = (match_here r (d # s) \<or> (isSpace d \<and> match_here (Ws0 # r) s))"
| "match_here (Ws1 # r) [] = False"
| "match_here (Ws1 # r) (d # s) = (isSpace d \<and> match_here (Ws0 # r) s)"

fun regex_test :: "regex \<Rightarrow> string \<Rightarrow> bool" where
  "regex_test r [] = match_here r []"
| "regex_test r (c # s) = (match_here r (c # s) \<or> regex_test r s)"

definition asciiJs :: js where
  "asciiJs =
     \<lparr>toLowerCase = map toLowerChar,
      toUpperCase = map toUpperChar,
      trim = ascii_trim,
      substring = (\<lambda>s i j. take (j - i) (drop i s)),
      parseInt = ascii_parseInt,
      regexTest = regex_test\<rparr>"

text \<open>
  A browser on an empty, static page, whose state is the journal of the actions done in
  it. The doubles of the examples below differ from it in a few calls.
\<close>

definition stillBrowser :: "string list browser" where
  "stillBrowser =
     \<lparr>url = (\<lambda>pg b. ''/cart''),
      frames = (\<lambda>pg b. [Frame 0]),
      mainFrame = (\<lambda>pg b. Frame 0),
      count = (\<lambda>l b. 0),
      isVisible = (\<lambda>l b. False),
      isDisabled = (\<lambda>l b. False),
      innerText = (\<lambda>l b. []),
      click = (\<lambda>l b. (Inr (), b @ [''click''])),
      fill = (\<lambda>l v b. b @ [''fill '' @ v]),
      waitForTimeout = (\<lambda>pg ms b. (Inr (), b)),
      waitForLoadState = (\<lambda>pg b. b),
      pageClick = (\<lambda>pg sel b. (Inr (), b @ [''click '' @ sel])),
      waitForPopup = (\<lambda>pg b. (None, b)),
      screenshot = (\<lambda>pg path b. (Inr (), b @ [''screenshot '' @ path])),
      closePage = (\<lambda>pg b. b @ [''close'']),
      goto = (\<lambda>pg u b. (Inr (), b @ [''goto '' @ u])),
      evaluateRejects = (\<lambda>pg b. None),
      querySelectorAll = (\<lambda>pg sel b. []),
      elemQuerySelectorAll = (\<lambda>e sel b. []),
      closest = (\<lambda>e sel b. None),
      parentElement = (\<lambda>e b. None),
      selectOptions = (\<lambda>e b. []),
      childTextNodes = (\<lambda>e b. []),
      childrenLength = (\<lambda>e b. 0),
      getProp = (\<lambda>e p b. []),
      flag = (\<lambda>e p b. False),
      domClick = (\<lambda>e b. b @ [''click'']),
      setValue = (\<lambda>e v b. b @ [''value '' @ v]),
      dispatchEvent = (\<lambda>e ev b. b @ [''event '' @ ev]),
      setAttribute = (\<lambda>e a v b. b @ [''attribute '' @ a])\<rparr>"

definition world0 :: "string list world" where
  "world0 = \<lparr>bstate = [], now = 0, console = []\<rparr>"

definition noEnv :: "string \<Rightarrow> string option" where
  "noEnv v = None"

text \<open>A configuration with a rule for every screening of "Dune" and one for its 9 PM one.\<close>

definition filmA :: film_rule where
  "filmA = \<lparr>title = ''Dune'', screeningTime = None, autoPurchase = True\<rparr>"

definition filmA9 :: film_rule where
  "filmA9 = \<lparr>title = ''Dune'', screeningTime = Some ''Jan 25 9PM'', autoPurchase = True\<rparr>"

definition configA :: config where
  "configA = \<lparr>enabled = True, films = Some [filmA, filmA9], csettings = None\<rparr>"

text \<open>A page with one select, \<^verbatim>\<open>id="ticket-quantity"\<close>, whose options are 1, 2 and 3.\<close>

definition selectBrowser :: "string list browser" where
  "selectBrowser = stillBrowser
     \<lparr>querySelectorAll := (\<lambda>pg sel b. if sel = ''select'' then [Elem 1] else []),
      selectOptions := (\<lambda>e b. if e = Elem 1 then [Elem 11, Elem 12, Elem 13] else []),
      getProp := (\<lambda>e p b.
         if e = Elem 1 then (if p = ''id'' then ''ticket-quantity'' else [])
         else if p = ''value'' \<or> p = ''textContent''
           then (if e = Elem 11 then ''1'' else if e = Elem 12 then ''2''
                 else if e = Elem 13 then ''3'' else [])
         else [])\<rparr>"

text \<open>
  The same select with the options 0 and 5 only, and a page with a second quantity select,
  without options, before it.
\<close>

definition zeroSelectBrowser :: "string list browser" where
  "zeroSelectBrowser = selectBrowser
     \<lparr>selectOptions := (\<lambda>e b. if e = Elem 1 then [Elem 10, Elem 15] else []),
      getProp := (\<lambda>e p b.
         if e = Elem 1 then (if p = ''id'' then ''ticket-quantity'' else [])
         else if p = ''value'' \<or> p = ''textContent''
           then (if e = Elem 10 then ''0'' else if e = Elem 15 then ''5'' else [])
         else [])\<rparr>"

definition twoSelectBrowser :: "string list browser" where
  "twoSelectBrowser = selectBrowser
     \<lparr>querySelectorAll := (\<lambda>pg sel b. if sel = ''select'' then [Elem 2, Elem 1] else []),
      getProp := (\<lambda>e p b.
         if e = Elem 2 then (if p = ''name'' then ''seat-quantity'' else [])
         else getProp selectBrowser e p b)\<rparr>"

text \<open>
  A page without select whose only numeric input has the given attribute \<^verbatim>\<open>max\<close>.
\<close>

definition inputBrowser :: "string \<Rightarrow> string list browser" where
  "inputBrowser mx = stillBrowser
     \<lparr>querySelectorAll := (\<lambda>pg sel b. if sel = NUMBER_INPUT then [Elem 2] else []),
      getProp := (\<lambda>e p b. if e = Elem 2 \<and> p = ''max'' then mx else [])\<rparr>"

text \<open>
  The schedule with one row, titled "Dune", whose only button has the given label; the
  same page where the click on the marked button times out, where the page has been closed
  after the click, and where the page has crashed.
\<close>

definition scheduleBrowser :: "string \<Rightarrow> string list browser" where
  "scheduleBrowser label = stillBrowser
     \<lparr>querySelectorAll := (\<lambda>pg sel b. if sel = ''.sd_schedule_film_desc'' then [Elem 2] else []),
      elemQuerySelectorAll := (\<lambda>e sel b.
         if e = Elem 2 \<and> sel = ''h3'' then [Elem 3]
         else if e = Elem 4 \<and> sel = BUTTON_SELECTOR then [Elem 5] else []),
      closest := (\<lambda>e sel b. if e = Elem 2 \<and> sel = ROW_SELECTOR then Some (Elem 4) else None),
      getProp := (\<lambda>e p b.
         if p = ''textContent'' then (if e = Elem 3 then ''Dune'' else if e = Elem 5 then label else [])
         else [])\<rparr>"

definition throwingBrowser :: "string list browser" where
  "throwingBrowser = (scheduleBrowser ''Order tickets'')
     \<lparr>pageClick := (\<lambda>pg sel b. (Inl ''Timeout 30000ms exceeded.'', b))\<rparr>"

definition closedBrowser :: "string list browser" where
  "closedBrowser = (scheduleBrowser ''Order tickets'')
     \<lparr>waitForTimeout :=
        (\<lambda>pg ms b. (Inl ''Target page, context or browser has been closed'', b))\<rparr>"

definition crashedBrowser :: "string list browser" where
  "crashedBrowser = (scheduleBrowser ''Order tickets'')
     \<lparr>evaluateRejects := (\<lambda>pg b. Some ''Execution context was destroyed'')\<rparr>"

text \<open>
  A rule for "Dune" whose screening time is a blank, and two records of a snapshot.
\<close>

definition filmBlank :: film_rule where
  "filmBlank = \<lparr>title = ''Dune'', screeningTime = Some '' '', autoPurchase = True\<rparr>"

definition configBlank :: config where
  "configBlank = \<lparr>enabled = True, films = Some [filmA, filmBlank], csettings = None\<rparr>"

definition dune :: "Status \<Rightarrow> screening_record" where
  "dune st =
     \<lparr>rtitle = ''Dune'', rscreeningTime = ''Jan 25 9PM'', status = st,
      buttonText = (if st = AVAILABLE then ''Order tickets'' else ''Sold out''),
      rurl = ''/my-schedule''\<rparr>"


text \<open>
  A page that shows the elements of the given selectors, a page with an error in its modal,
  and a page with a final-purchase button whose click brings up the texts of the waiting
  room and of the confirmation together.
\<close>

definition hazardBrowser :: "string list \<Rightarrow> string list browser" where
  "hazardBrowser shown = stillBrowser
     \<lparr>isVisible := (\<lambda>l b. case l of Nth (Locator c sel h) i \<Rightarrow> sel \<in> set shown | _ \<Rightarrow> False)\<rparr>"

definition modalBrowser :: "string list browser" where
  "modalBrowser = stillBrowser
     \<lparr>querySelectorAll := (\<lambda>pg sel b. if sel = MODAL_SELECTOR then [Elem 2] else []),
      getProp := (\<lambda>e p b. if e = Elem 2 \<and> p = ''innerText'' then ''Payment failed'' else [])\<rparr>"

definition finalBrowser :: "string list browser" where
  "finalBrowser = stillBrowser
     \<lparr>count := (\<lambda>l b. case l of
                  Locator c sel h \<Rightarrow>
                    if c = CPage (Page 0) \<and> h = Some [Lit ''complete'', Ws1, Lit ''purchase''] \<and> b = []
                    then 1 else 0
                | Nth l' i \<Rightarrow> 0),
      isVisible := (\<lambda>l b. case l of
                  Nth (Locator c sel h) i \<Rightarrow>
                    if h = Some [Lit ''complete'', Ws1, Lit ''purchase'']
                    then c = CPage (Page 0) \<and> b = [] \<and> i = 0
                    else (sel = QUEUE_TEXT \<or> sel = CONFIRMATION_TEXT) \<and> b \<noteq> []
                | _ \<Rightarrow> False),
      innerText := (\<lambda>l b. ''COMPLETE PURCHASE'')\<rparr>"

text \<open>
  Settings with card details, and a page whose payment frame (the second frame) shows every
  input that is asked for.
\<close>

definition cardSettings :: settings where
  "cardSettings = emptySettings
     \<lparr>payment := Some \<lparr>cardNumber = Some ''4242424242424242'', exp = Some ''12/30'',
                        cvc = Some ''123'', name = None, zip = None\<rparr>\<rparr>"

definition cardBrowser :: "string list browser" where
  "cardBrowser = stillBrowser
     \<lparr>frames := (\<lambda>pg b. [Frame 0, Frame 2]),
      count := (\<lambda>l b. case l of
                  Locator c sel h \<Rightarrow> if c = CFrame (Frame 2) \<and> h = None then 1 else 0
                | Nth l' i \<Rightarrow> 0),
      isVisible := (\<lambda>l b. case l of
                  Nth (Locator c sel h) i \<Rightarrow> c = CFrame (Frame 2) \<and> h = None \<and> i = 0
                | _ \<Rightarrow> False)\<rparr>"

text \<open>
  A \<^verbatim>\<open>JSON.parse\<close> that knows the text of \<open>configA\<close>, the same with
  \<^verbatim>\<open>"enabled": false\<close>, and \<^verbatim>\<open>null\<close>; any other text is a syntax error.
\<close>

definition configAText :: string where
  \<open>configAText =
     ''{"enabled": true, "films": [{"title": "Dune", "autoPurchase": true}, '' @
     ''{"title": "Dune", "screeningTime": "Jan 25 9PM", "autoPurchase": true}]}''\<close>

definition configOffText :: string where
  \<open>configOffText =
     ''{"enabled": false, "films": [{"title": "Dune", "autoPurchase": true}, '' @
     ''{"title": "Dune", "screeningTime": "Jan 25 9PM", "autoPurchase": true}]}''\<close>

definition parseDouble :: "string \<Rightarrow> string + config option" where
  "parseDouble txt =
     (if txt = ''null'' then Inr None
      else if txt = configAText then Inr (Some configA)
      else if txt = configOffText then Inr (Some (configA\<lparr>enabled := False\<rparr>))
      else Inl ''Unexpected end of JSON input'')"

section \<open>Auxiliary facts\<close>

lemma stillBrowser_sel [simp]:
  "url stillBrowser = (\<lambda>pg b. ''/cart'')"
  "frames stillBrowser = (\<lambda>pg b. [Frame 0])"
  "mainFrame stillBrowser = (\<lambda>pg b. Frame 0)"
  "count stillBrowser = (\<lambda>l b. 0)"
  "isVisible stillBrowser = (\<lambda>l b. False)"
  "isDisabled stillBrowser = (\<lambda>l b. False)"
  "innerText stillBrowser = (\<lambda>l b. [])"
  "click stillBrowser = (\<lambda>l b. (Inr (), b @ [''click'']))"
  "fill stillBrowser = (\<lambda>l v b. b @ [''fill '' @ v])"
  "waitForTimeout stillBrowser = (\<lambda>pg ms b. (Inr (), b))"
  "waitForLoadState stillBrowser = (\<lambda>pg b. b)"
  "pageClick stillBrowser = (\<lambda>pg sel b. (Inr (), b @ [''click '' @ sel]))"
  "waitForPopup stillBrowser = (\<lambda>pg b. (None, b))"
  "screenshot stillBrowser = (\<lambda>pg path b. (Inr (), b @ [''screenshot '' @ path]))"
  "closePage stillBrowser = (\<lambda>pg b. b @ [''close''])"
  "goto stillBrowser = (\<lambda>pg u b. (Inr (), b @ [''goto '' @ u]))"
  "evaluateRejects stillBrowser = (\<lambda>pg b. None)"
  "querySelectorAll stillBrowser = (\<lambda>pg sel b. [])"
  "elemQuerySelectorAll stillBrowser = (\<lambda>e sel b. [])"
  "closest stillBrowser = (\<lambda>e sel b. None)"
  "parentElement stillBrowser = (\<lambda>e b. None)"
  "selectOptions stillBrowser = (\<lambda>e b. [])"
  "childTextNodes stillBrowser = (\<lambda>e b. [])"
  "childrenLength stillBrowser = (\<lambda>e b. 0)"
  "getProp stillBrowser = (\<lambda>e p b. [])"
  "flag stillBrowser = (\<lambda>e p b. False)"
  "domClick stillBrowser = (\<lambda>e b. b @ [''click''])"
  "setValue stillBrowser = (\<lambda>e v b. b @ [''value '' @ v])"
  "dispatchEvent stillBrowser = (\<lambda>e ev b. b @ [''event '' @ ev])"
  "setAttribute stillBrowser = (\<lambda>e a v b. b @ [''attribute '' @ a])"
  by (simp_all add: stillBrowser_def)

lemma isStepLine_stepLine [simp]: "isStepLine (stepLine step)"
  by (simp add: isStepLine_def stepLine_def)

lemma not_isStepLine_dump [simp]:
  "\<not> isStepLine (CHR '' '' # CHR '' '' # CHR '' '' # CHR ''S'' # rest)"
  by (simp add: isStepLine_def)

lemma bstate_log [simp]: "bstate (log l w) = bstate w"
  by (simp add: log_def)

lemma now_log [simp]: "now (log l w) = now w"
  by (simp add: log_def)

lemma console_log [simp]: "console (log l w) = console w @ [l]"
  by (simp add: log_def)

lemma asciiJs_sel [simp]:
  "toLowerCase asciiJs s = map toLowerChar s"
  "toUpperCase asciiJs s = map toUpperChar s"
  "trim asciiJs s = ascii_trim s"
  "substring asciiJs s i j = take (j - i) (drop i s)"
  "parseInt asciiJs s = ascii_parseInt s"
  "regexTest asciiJs r s = regex_test r s"
  by (simp_all add: asciiJs_def)

lemma regex_test_cart [simp]:
  "\<not> regexTestAny asciiJs [[Lit ''queue''], [Lit ''waiting-room'']] ''/cart''"
  "\<not> regexTestAny asciiJs [[Lit ''login''], [Lit ''sign-in''], [Lit ''signin''], [Lit ''auth'']]
       ''/cart''"
  "\<not> regexTestAny asciiJs [[Lit ''confirmation''], [Lit ''receipt''], [Lit ''thank-you''],
                              [Lit ''order-complete''], [Lit ''purchase-complete'']] ''/cart''"
  by code_simp+

lemma String_digits [simp]:
  "String 0 = ''0''" "String 1 = ''1''" "String 2 = ''2''" "String 3 = ''3''" "String 4 = ''4''"
  "String 5 = ''5''"
  by (simp_all add: String_def string_of_nat.simps)

lemma find_None_iff_all: "find P xs = None \<longleftrightarrow> (\<forall>x\<in>set xs. \<not> P x)"
  by (induction xs) auto

lemma find_SomeD: "find P xs = Some x \<Longrightarrow> P x \<and> x \<in> set xs"
  by (induction xs) (auto split: if_splits)

lemma normalizeTitle_Nil: "normalizeTitle asciiJs [] = []"
  by (simp add: normalizeTitle_def ascii_trim_def)

subsection \<open>The differ and the matcher\<close>

lemma getProperty_own:
  "key \<notin> set Object_prototype \<or> obj key \<noteq> None \<Longrightarrow>
   getProperty obj key = (case obj key of None \<Rightarrow> Undefined | Some v \<Rightarrow> Own v)"
  by (auto simp: getProperty_def split: option.splits)

lemma detectChanges_loop_acc:
  "\<forall>e\<in>set currentState. fst e \<notin> set Object_prototype \<or> previousState (fst e) \<noteq> None \<Longrightarrow>
   detectChanges_loop previousState currentState changes =
     changes @ diff_spec previousState currentState"
proof (induction currentState arbitrary: changes)
  case Nil
  then show ?case by (simp add: diff_spec_def)
next
  case (Cons e rest)
  obtain key current where e: "e = (key, current)" by (cases e)
  have own: "getProperty previousState key =
               (case previousState key of None \<Rightarrow> Undefined | Some v \<Rightarrow> Own v)"
    using Cons.prems e by (intro getProperty_own) auto
  have rest: "\<And>changes. detectChanges_loop previousState rest changes =
                changes @ diff_spec previousState rest"
    using Cons by simp
  show ?case
    by (simp add: e own rest diff_spec_def emitsNew_def emitsNow_def carrying_def
          split: option.splits)
qed

lemma detectChanges_own_keys:
  "\<forall>e\<in>set currentState. fst e \<notin> set Object_prototype \<or> previousState (fst e) \<noteq> None \<Longrightarrow>
   detectChanges previousState currentState = diff_spec previousState currentState"
  by (simp add: detectChanges_def detectChanges_loop_acc)

lemma getFilmSettings_eq:
  "getFilmSettings J t st cfg =
     (case find (exactFor J t st) (rulesOf cfg) of
        Some r \<Rightarrow> Some r
      | None \<Rightarrow> find (titleOnlyFor J t) (rulesOf cfg))"
  by (simp add: getFilmSettings_def rulesOf_def exactFor_def [abs_def] titleOnlyFor_def [abs_def]
        Let_def split: option.splits)

lemma normalizeTitle_examples:
  "normalizeTitle asciiJs ''Dune'' = ''dune''"
  "normalizeTitle asciiJs '' dune '' = ''dune''"
  "normalizeTitle asciiJs ''Jan 25 9PM'' = ''jan 25 9pm''"
  "normalizeTitle asciiJs ''jan 25 9pm'' = ''jan 25 9pm''"
  "normalizeTitle asciiJs ''Jan 26 6PM'' = ''jan 26 6pm''"
  "normalizeTitle asciiJs ''Heat'' = ''heat''"
  "normalizeTitle asciiJs '' '' = []"
  by (simp_all add: normalizeTitle_def ascii_trim_def toLowerChar_def isSpace_def)

lemma getFilmSettings_examples:
  "getFilmSettings asciiJs '' dune '' ''jan 25 9pm'' (Some configA) = Some filmA9"
  "getFilmSettings asciiJs ''Dune'' ''Jan 26 6PM'' (Some configA) = Some filmA"
  "getFilmSettings asciiJs ''Dune'' [] (Some configA) = Some filmA"
  "getFilmSettings asciiJs ''Heat'' ''Jan 25 9PM'' (Some configA) = None"
  "getFilmSettings asciiJs ''Dune'' [] (Some configBlank) = Some filmA"
  by (simp_all add: getFilmSettings_def configA_def configBlank_def filmA_def filmA9_def
        filmBlank_def normalizeTitle_examples orEmpty_def truthy_def normalizeTitle_Nil)

subsection \<open>The quantity selector\<close>

lemma setTicketQuantity_lower_highest:
  assumes "1 \<le> q" and "q \<le> n"
    and "findOption J B sel (String q) b = Some opt"
    and "\<forall>k. q < k \<and> k \<le> n \<longrightarrow> findOption J B sel (String k) b = None"
  shows "setTicketQuantity_lower J B sel n b =
           (\<lparr>qsuccess = True, quantity = Some q\<rparr>, chooseOption B sel opt b)"
  using assms
proof (induction "nat (n - q)" arbitrary: n)
  case 0
  then have "n = q" by simp
  with 0 show ?case
    by (subst setTicketQuantity_lower.simps) simp
next
  case (Suc d)
  then have "q < n" by simp
  with Suc.prems have none: "findOption J B sel (String n) b = None" by simp
  have "setTicketQuantity_lower J B sel (n - 1) b =
           (\<lparr>qsuccess = True, quantity = Some q\<rparr>, chooseOption B sel opt b)"
    using Suc.hyps(1) [of "n - 1"] Suc.hyps(2) Suc.prems \<open>q < n\<close> by simp
  then show ?case
    using none Suc.prems \<open>q < n\<close> by (subst setTicketQuantity_lower.simps) simp
qed

lemma setTicketQuantity_selects_first:
  "find (\<lambda>s. isQuantitySelect J B s b) sels = Some sel \<Longrightarrow>
   setTicketQuantity_selects J B desired sels b =
     Some (case findOption J B sel (String desired) b of
             None \<Rightarrow> setTicketQuantity_lower J B sel (desired - 1) b
           | Some opt \<Rightarrow> (\<lparr>qsuccess = True, quantity = Some desired\<rparr>, chooseOption B sel opt b))"
  by (induction sels) (auto split: if_splits option.splits)

lemma setTicketQuantity_eval_degrades:
  assumes "find (\<lambda>s. isQuantitySelect J B s b) (querySelectorAll B pg ''select'' b) = Some sel"
    and "findOption J B sel (String desired) b = None"
    and "1 \<le> q" and "q < desired"
    and "findOption J B sel (String q) b = Some opt"
    and "\<forall>k. q < k \<and> k < desired \<longrightarrow> findOption J B sel (String k) b = None"
  shows "setTicketQuantity_eval J B pg desired b =
           (\<lparr>qsuccess = True, quantity = Some q\<rparr>, chooseOption B sel opt b)"
proof -
  have "setTicketQuantity_lower J B sel (desired - 1) b =
          (\<lparr>qsuccess = True, quantity = Some q\<rparr>, chooseOption B sel opt b)"
    using assms by (intro setTicketQuantity_lower_highest) auto
  then show ?thesis
    using assms(1,2) by (simp add: setTicketQuantity_eval_def setTicketQuantity_selects_first)
qed

lemma options_1_to_3:
  assumes v: "map (\<lambda>opt. getProp B opt ''value'' b) (selectOptions B sel b) = [''1'', ''2'', ''3'']"
    and t: "map (\<lambda>opt. trim J (getProp B opt ''textContent'' b)) (selectOptions B sel b)
              = [''1'', ''2'', ''3'']"
  shows "findOption J B sel ''4'' b = None"
    and "\<exists>opt. findOption J B sel ''3'' b = Some opt \<and> getProp B opt ''value'' b = ''3''"
proof -
  obtain o1 o2 o3 where os: "selectOptions B sel b = [o1, o2, o3]"
    using v by (auto simp: map_eq_Cons_conv)
  show "findOption J B sel ''4'' b = None"
    using v t by (simp add: findOption_def os)
  show "\<exists>opt. findOption J B sel ''3'' b = Some opt \<and> getProp B opt ''value'' b = ''3''"
    using v t by (simp add: findOption_def os)
qed

lemma isQuantitySelect_double: "isQuantitySelect asciiJs selectBrowser (Elem 1) b"
  by (simp add: isQuantitySelect_def selectBrowser_def toLowerChar_def)

lemma setTicketQuantity_lower_none:
  "(\<forall>k. 1 \<le> k \<and> k \<le> n \<longrightarrow> findOption J B sel (String k) b = None) \<Longrightarrow>
   setTicketQuantity_lower J B sel n b = (\<lparr>qsuccess = False, quantity = None\<rparr>, b)"
proof (induction "nat n" arbitrary: n)
  case 0
  then show ?case
    by (subst setTicketQuantity_lower.simps) (auto split: option.splits)
next
  case (Suc d)
  then have "setTicketQuantity_lower J B sel (n - 1) b = (\<lparr>qsuccess = False, quantity = None\<rparr>, b)"
    by (intro Suc.hyps(1)) auto
  moreover have "findOption J B sel (String n) b = None"
    using Suc.prems Suc.hyps(2) by auto
  ultimately show ?case
    by (subst setTicketQuantity_lower.simps) simp
qed

lemma setTicketQuantity_selects_none:
  "find (\<lambda>s. isQuantitySelect J B s b) sels = None \<Longrightarrow>
   setTicketQuantity_selects J B desired sels b = None"
  by (induction sels) (auto split: if_splits)

lemma setTicketQuantity_inputs_usable:
  "find (usableInput J B desired n b) inputs = Some input \<Longrightarrow>
   inputQuantity J B desired input b = Some q \<Longrightarrow>
   setTicketQuantity_inputs J B desired n inputs b =
     (\<lparr>qsuccess = True, quantity = Some q\<rparr>,
      dispatchEvent B input ''change''
        (dispatchEvent B input ''input'' (setValue B input (String q) b)))"
proof (induction inputs)
  case Nil
  then show ?case by simp
next
  case (Cons i rest)
  show ?case
  proof (cases "usableInput J B desired n b i")
    case True
    then have "i = input" using Cons.prems by simp
    with True Cons.prems(2) show ?thesis
      by (auto simp: usableInput_def inputQuantity_def Let_def split: option.splits if_splits)
  next
    case False
    then have "setTicketQuantity_inputs J B desired n (i # rest) b =
               setTicketQuantity_inputs J B desired n rest b"
      by (auto simp: usableInput_def inputQuantity_def Let_def split: option.splits if_splits)
    with False Cons show ?thesis by simp
  qed
qed

lemma setTicketQuantity_inputs_none:
  "find (usableInput J B desired n b) inputs = None \<Longrightarrow>
   setTicketQuantity_inputs J B desired n inputs b = (\<lparr>qsuccess = False, quantity = None\<rparr>, b)"
proof (induction inputs)
  case Nil
  then show ?case by simp
next
  case (Cons i rest)
  then have "\<not> usableInput J B desired n b i" by (auto split: if_splits)
  then have "setTicketQuantity_inputs J B desired n (i # rest) b =
             setTicketQuantity_inputs J B desired n rest b"
    by (auto simp: usableInput_def inputQuantity_def Let_def split: option.splits if_splits)
  with Cons show ?case by (auto split: if_splits)
qed

subsection \<open>A run on a page where nothing happens\<close>

lemma clickFirstMatchingAnyContext_pass_idle:
  "(\<forall>ctx\<in>set ctxs. clickFirstMatching J B ctx ps label (0 < waitMs) w = (Inr False, w)) \<Longrightarrow>
   clickFirstMatchingAnyContext_pass J B ps label waitMs ctxs w = (Inr False, w)"
  by (induction ctxs) auto

lemma clickFirstMatchingAnyContext_loop_idle:
  assumes idle: "\<And>w. Q (bstate w) \<Longrightarrow> \<forall>ctx\<in>set (contexts B pg (bstate w)).
                    clickFirstMatching J B ctx ps label (0 < waitMs) w = (Inr False, w)"
    and waits: "\<And>b ms. Q b \<Longrightarrow> \<exists>b'. waitForTimeout B pg ms b = (Inr (), b') \<and> Q b'"
  shows "Q (bstate w) \<Longrightarrow>
         \<exists>w'. clickFirstMatchingAnyContext_loop J B pg ps label waitMs deadline w = (Inr False, w') \<and>
              Q (bstate w') \<and> console w' = console w"
proof (induction "nat (deadline - now w)" arbitrary: w rule: less_induct)
  case less
  have pass: "clickFirstMatchingAnyContext_pass J B ps label waitMs (contexts B pg (bstate w)) w
                = (Inr False, w)"
    by (rule clickFirstMatchingAnyContext_pass_idle) (rule idle [OF less.prems])
  show ?case
  proof (cases "deadline \<le> now w")
    case True
    then show ?thesis
      using pass less.prems by (simp add: clickFirstMatchingAnyContext_loop.simps)
  next
    case False
    obtain b' where b': "waitForTimeout B pg 500 (bstate w) = (Inr (), b')" "Q b'"
      using waits [OF less.prems] by blast
    let ?w' = "w\<lparr>bstate := b', now := now w + max 0 500\<rparr>"
    have wait: "pageWaitForTimeout B pg 500 w = (Inr (), ?w')"
      using b' by (simp add: pageWaitForTimeout_def)
    have "\<exists>w''. clickFirstMatchingAnyContext_loop J B pg ps label waitMs deadline ?w'
                  = (Inr False, w'') \<and>
               Q (bstate w'') \<and> console w'' = console ?w'"
      using less.hyps [of ?w'] False b' by simp
    then show ?thesis
      using pass wait False
      by (subst clickFirstMatchingAnyContext_loop.simps) simp
  qed
qed

lemma preludeIdle_waits:
  assumes "preludeIdle J B pg Q" and "Q b"
  shows "\<exists>b'. waitForTimeout B pg ms b = (Inr (), b') \<and> Q b'"
  using assms(1) [unfolded preludeIdle_def, rule_format, of "\<lparr>bstate = b, now = 0, console = []\<rparr>"]
    assms(2)
  by simp

lemma preludeIdle_byText:
  "preludeIdle J B pg Q \<Longrightarrow> Q (bstate w) \<Longrightarrow>
   clickByTextContent J B pg ''buy additional tickets'' ''Buy additional tickets'' w = (Inr False, w)"
  by (simp add: preludeIdle_def)

lemma preludeIdle_buyAdditional:
  "preludeIdle J B pg Q \<Longrightarrow> Q (bstate w) \<Longrightarrow> ctx \<in> set (contexts B pg (bstate w)) \<Longrightarrow>
   clickFirstMatching J B ctx TEXT_PATTERNS_buyAdditional ''Buy additional tickets'' quiet w
     = (Inr False, w)"
  by (simp add: preludeIdle_def)

lemma runCheckoutFlow_prelude:
  assumes p: "preludeIdle J B pg Q" and Q: "Q (bstate w)"
  shows "\<exists>w3. runCheckoutFlow J B env pg s hs w =
                runCheckoutFlow_loop J B pg s hs (orDefault (maxSteps s) 12)
                  (orDefault (stepWaitMs s) 1800) 1 w3 \<and>
              Q (bstate w3) \<and>
              filter isStepLine (console w3) = filter isStepLine (console w)"
proof -
  let ?look = "''   Looking for '' @ quoted ''Buy additional tickets...'' @ '' dropdown...''"
  let ?w0 = "log ?look w"
  have Q0: "Q (bstate ?w0)" using Q by simp
  obtain b1 where b1: "waitForTimeout B pg 1500 (bstate ?w0) = (Inr (), b1)" "Q b1"
    using preludeIdle_waits [OF p, OF Q0, where ms = 1500] by (elim exE conjE)
  let ?w1 = "?w0\<lparr>bstate := b1, now := now ?w0 + max 0 1500\<rparr>"
  have wait: "pageWaitForTimeout B pg 1500 ?w0 = (Inr (), ?w1)"
    using b1 by (simp add: pageWaitForTimeout_def)
  have Q1: "Q (bstate ?w1)" using b1 by simp
  have byText: "clickByTextContent J B pg ''buy additional tickets'' ''Buy additional tickets'' ?w1
                = (Inr False, ?w1)"
    by (rule preludeIdle_byText [OF p, OF Q1])
  let ?waitMs = "orDefault (waitForBuyAdditionalMs s) 15000"
  obtain w2 where buy: "clickFirstMatchingAnyContext J B pg TEXT_PATTERNS_buyAdditional
                          ''Buy additional tickets'' (Some ?waitMs) ?w1 = (Inr False, w2)"
      and Q2: "Q (bstate w2)" and c2: "console w2 = console ?w1"
  proof -
    have "\<exists>w'. clickFirstMatchingAnyContext_loop J B pg TEXT_PATTERNS_buyAdditional
                 ''Buy additional tickets'' ?waitMs (now ?w1 + ?waitMs) ?w1 = (Inr False, w') \<and>
               Q (bstate w') \<and> console w' = console ?w1"
    proof (rule clickFirstMatchingAnyContext_loop_idle [where Q = Q])
      fix w :: "'a world"
      assume "Q (bstate w)"
      then show "\<forall>ctx\<in>set (contexts B pg (bstate w)).
                   clickFirstMatching J B ctx TEXT_PATTERNS_buyAdditional ''Buy additional tickets''
                     (0 < ?waitMs) w = (Inr False, w)"
        using preludeIdle_buyAdditional [OF p] by blast
    next
      fix b ms
      assume "Q b"
      then show "\<exists>b'. waitForTimeout B pg ms b = (Inr (), b') \<and> Q b'"
        by (rule preludeIdle_waits [OF p])
    next
      show "Q (bstate ?w1)" by (rule Q1)
    qed
    then show ?thesis
      using that by (auto simp: clickFirstMatchingAnyContext_def Let_def)
  qed
  let ?miss = "''   Could not find '' @ quoted ''Buy additional tickets...'' @
               '' - may already be in checkout''"
  let ?w3 = "log ?miss w2"
  show ?thesis
  proof (intro exI conjI)
    show "runCheckoutFlow J B env pg s hs w =
            runCheckoutFlow_loop J B pg s hs (orDefault (maxSteps s) 12)
              (orDefault (stepWaitMs s) 1800) 1 ?w3"
      unfolding runCheckoutFlow_def Let_def
      using wait byText buy by (simp add: await_def ret_def quoted_def)
    show "Q (bstate ?w3)"
      using Q2 by simp
    show "filter isStepLine (console ?w3) = filter isStepLine (console w)"
      using c2 by (simp add: isStepLine_def quoted_def)
  qed
qed

lemma evaluate_alive:
  "evaluateRejects B pg (bstate w) = None \<Longrightarrow>
   evaluate B pg f w = (case f (bstate w) of (x, b') \<Rightarrow> (Inr x, w\<lparr>bstate := b'\<rparr>))"
  by (simp add: evaluate_def)

lemma dumpVisibleButtons_frame:
  "evaluateRejects B pg (bstate w) = None \<Longrightarrow>
   \<exists>w'. dumpVisibleButtons J B pg (''Step '' @ l) w = (Inr (), w') \<and> bstate w' = bstate w \<and>
        filter isStepLine (console w') = filter isStepLine (console w)"
  by (simp add: dumpVisibleButtons_def evaluate_alive await_def)

lemma runCheckoutFlow_step_quiescent:
  assumes q: "quiescent J B pg s Q" and Q: "Q (bstate w)"
  shows "\<exists>w'. runCheckoutFlow_step J B pg s hs sw step w = (Inr Continue, w') \<and> Q (bstate w') \<and>
              filter isStepLine (console w') = filter isStepLine (console w) @ [stepLine step]"
proof -
  let ?w0 = "log (stepLine step) w"
  have Q0: "Q (bstate ?w0)" using Q by simp
  have p: "preludeIdle J B pg Q" using q by (simp add: quiescent_def)
  note facts = q [unfolded quiescent_def, THEN conjunct2, rule_format, OF Q0]
  obtain w1 where d: "(if debugScreenshots s \<or> debugButtonDump s
                       then dumpVisibleButtons J B pg (''Step '' @ String step @ '' - no action taken'')
                       else ret ()) ?w0 = (Inr (), w1)"
      and b1: "bstate w1 = bstate ?w0"
      and c1: "filter isStepLine (console w1) = filter isStepLine (console ?w0)"
    using dumpVisibleButtons_frame [of B pg ?w0 J "String step @ '' - no action taken''"] facts
    by (cases "debugScreenshots s \<or> debugButtonDump s") (auto simp: ret_def)
  have Q1: "Q (bstate w1)" using b1 Q0 by simp
  obtain b' where b': "waitForTimeout B pg 1500 (bstate w1) = (Inr (), b')" "Q b'"
    using preludeIdle_waits [OF p, OF Q1, where ms = 1500] by (elim exE conjE)
  have wait: "pageWaitForTimeout B pg 1500 w1
                = (Inr (), w1\<lparr>bstate := b', now := now w1 + max 0 1500\<rparr>)"
    using b' by (simp add: pageWaitForTimeout_def)
  have "runCheckoutFlow_step J B pg s hs sw step w
          = (Inr Continue, w1\<lparr>bstate := b', now := now w1 + max 0 1500\<rparr>)"
    unfolding runCheckoutFlow_step_def Let_def stepLine_def [symmetric]
    using facts d wait by (simp add: await_def ret_def)
  then show ?thesis
    using b' c1 by simp
qed

lemma runCheckoutFlow_loop_quiescent:
  assumes q: "quiescent J B pg s Q"
  shows "Q (bstate w) \<Longrightarrow>
         \<exists>w'. runCheckoutFlow_loop J B pg s hs m sw step w =
                (Inr \<lparr>success = False, reason = ''Checkout flow incomplete'',
                      result_url = Some (url B pg (bstate w'))\<rparr>, w') \<and>
              Q (bstate w') \<and>
              filter isStepLine (console w') =
                filter isStepLine (console w) @ map stepLine [step..m]"
proof (induction "nat (m + 1 - step)" arbitrary: step w rule: less_induct)
  case less
  show ?case
  proof (cases "step \<le> m")
    case False
    then show ?thesis
      using less.prems by (simp add: runCheckoutFlow_loop.simps)
  next
    case True
    obtain w1 where s1: "runCheckoutFlow_step J B pg s hs sw step w = (Inr Continue, w1)"
        and Q1: "Q (bstate w1)"
        and c1: "filter isStepLine (console w1) = filter isStepLine (console w) @ [stepLine step]"
      using runCheckoutFlow_step_quiescent [OF q, OF less.prems] by blast
    obtain w' where "runCheckoutFlow_loop J B pg s hs m sw (step + 1) w1 =
                (Inr \<lparr>success = False, reason = ''Checkout flow incomplete'',
                      result_url = Some (url B pg (bstate w'))\<rparr>, w')"
        and "Q (bstate w')"
        and "filter isStepLine (console w') =
                filter isStepLine (console w1) @ map stepLine [step + 1..m]"
      using less.hyps [of "step + 1" w1] Q1 True by auto
    then show ?thesis
      using s1 c1 True
      by (subst runCheckoutFlow_loop.simps) (simp add: upto_rec1 [of step m])
  qed
qed

lemma runCheckoutFlow_quiescent:
  assumes q: "quiescent J B pg s Q" and Q: "Q (bstate w)"
  shows "\<exists>w'. runCheckoutFlow J B env pg s hs w =
                (Inr \<lparr>success = False, reason = ''Checkout flow incomplete'',
                      result_url = Some (url B pg (bstate w'))\<rparr>, w') \<and>
              Q (bstate w') \<and>
              filter isStepLine (console w') =
                filter isStepLine (console w) @ map stepLine [1..orDefault (maxSteps s) 12]"
proof -
  have p: "preludeIdle J B pg Q" using q by (simp add: quiescent_def)
  obtain w3 where r: "runCheckoutFlow J B env pg s hs w =
                runCheckoutFlow_loop J B pg s hs (orDefault (maxSteps s) 12)
                  (orDefault (stepWaitMs s) 1800) 1 w3"
      and Q3: "Q (bstate w3)"
      and c3: "filter isStepLine (console w3) = filter isStepLine (console w)"
    using runCheckoutFlow_prelude [OF p, OF Q] by blast
  obtain w' where l: "runCheckoutFlow_loop J B pg s hs (orDefault (maxSteps s) 12)
                        (orDefault (stepWaitMs s) 1800) 1 w3 =
                (Inr \<lparr>success = False, reason = ''Checkout flow incomplete'',
                      result_url = Some (url B pg (bstate w'))\<rparr>, w')"
      and Q': "Q (bstate w')"
      and c': "filter isStepLine (console w') =
                filter isStepLine (console w3) @ map stepLine [1..orDefault (maxSteps s) 12]"
    using runCheckoutFlow_loop_quiescent [OF q, OF Q3] by blast
  show ?thesis
  proof (intro exI conjI)
    show "runCheckoutFlow J B env pg s hs w =
                (Inr \<lparr>success = False, reason = ''Checkout flow incomplete'',
                      result_url = Some (url B pg (bstate w'))\<rparr>, w')"
      using r l by simp
    show "Q (bstate w')" by (rule Q')
    show "filter isStepLine (console w') =
                filter isStepLine (console w) @ map stepLine [1..orDefault (maxSteps s) 12]"
      using c' c3 by simp
  qed
qed

lemma preludeIdle_stillBrowser: "preludeIdle J stillBrowser (Page 0) (\<lambda>b. b = [])"
  unfolding preludeIdle_def
  by (simp add: clickByTextContent_def contexts_def TEXT_PATTERNS_buyAdditional_def
        evaluate_def await_def)

lemma setTicketQuantity_stillBrowser:
  "setTicketQuantity J stillBrowser pg qopt w = (Inr False, w)"
  by (simp add: setTicketQuantity_def setTicketQuantity_eval_def evaluate_def await_def
        split: option.splits)

lemma quiescent_stillBrowser: "quiescent asciiJs stillBrowser (Page 0) s (\<lambda>b. b = [])"
  unfolding quiescent_def
  by (simp add: preludeIdle_stillBrowser detectQueue_def detectLogin_def
        detectConfirmation_def detectBlockingError_def detectBlockingError_eval_def
        querySelector_def contexts_def
        TEXT_PATTERNS_final_def TEXT_PATTERNS_continue_def checkTermsCheckboxes_def
        clickFirstMatchingAnyContext_def clickFirstMatchingAnyContext_loop.simps
        setTicketQuantity_stillBrowser selectSavedPayment_def evaluate_def await_def)

lemma upto_1_3: "[1..(3::int)] = [1, 2, 3]"
  by (simp add: upto.simps)

lemma length_upto_1_12: "length [1..(12::int)] = 12"
  by (simp add: upto.simps)

subsection \<open>Hazards\<close>

lemma hazardBrowser_sel [simp]:
  "url (hazardBrowser shown) = url stillBrowser"
  "isVisible (hazardBrowser shown) (Nth (Locator c sel h) i) b \<longleftrightarrow> sel \<in> set shown"
  "evaluateRejects (hazardBrowser shown) = (\<lambda>pg b. None)"
  by (simp_all add: hazardBrowser_def)

lemma hazard_texts:
  "QUEUE_TEXT \<noteq> CONFIRMATION_TEXT" "QUEUE_TEXT \<noteq> LOGIN_TEXT" "QUEUE_TEXT \<noteq> PASSWORD_INPUT"
  "LOGIN_TEXT \<noteq> CONFIRMATION_TEXT" "PASSWORD_INPUT \<noteq> CONFIRMATION_TEXT"
  "PASSWORD_INPUT \<noteq> LOGIN_TEXT"
  by (simp_all add: QUEUE_TEXT_def CONFIRMATION_TEXT_def LOGIN_TEXT_def PASSWORD_INPUT_def)

lemma hazardBrowser_detect:
  "detectQueue asciiJs (hazardBrowser shown) pg b \<longleftrightarrow> QUEUE_TEXT \<in> set shown"
  "detectLogin asciiJs (hazardBrowser shown) pg b \<longleftrightarrow>
     PASSWORD_INPUT \<in> set shown \<or> LOGIN_TEXT \<in> set shown"
  "detectConfirmation asciiJs (hazardBrowser shown) pg b \<longleftrightarrow> CONFIRMATION_TEXT \<in> set shown"
  by (simp_all add: detectQueue_def detectLogin_def detectConfirmation_def)

lemma modalBrowser_detect:
  "\<not> detectQueue asciiJs modalBrowser pg b"
  "\<not> detectLogin asciiJs modalBrowser pg b"
  "\<not> detectConfirmation asciiJs modalBrowser pg b"
  "detectBlockingError asciiJs modalBrowser pg w = (Inr True, w)"
  by (simp_all add: detectQueue_def detectLogin_def detectConfirmation_def modalBrowser_def
        detectBlockingError_def detectBlockingError_eval_def querySelector_def evaluate_def
        toLowerChar_def)

lemma finalBrowser_sel [simp]:
  "url finalBrowser = url stillBrowser"
  "frames finalBrowser = frames stillBrowser"
  "mainFrame finalBrowser = mainFrame stillBrowser"
  "count finalBrowser (Locator c sel h) b =
     (if c = CPage (Page 0) \<and> h = Some [Lit ''complete'', Ws1, Lit ''purchase''] \<and> b = []
      then 1 else 0)"
  "isVisible finalBrowser (Nth (Locator c sel h) i) b =
     (if h = Some [Lit ''complete'', Ws1, Lit ''purchase'']
      then c = CPage (Page 0) \<and> b = [] \<and> i = 0
      else (sel = QUEUE_TEXT \<or> sel = CONFIRMATION_TEXT) \<and> b \<noteq> [])"
  "isDisabled finalBrowser = isDisabled stillBrowser"
  "innerText finalBrowser = (\<lambda>l b. ''COMPLETE PURCHASE'')"
  "click finalBrowser = click stillBrowser"
  "waitForTimeout finalBrowser = waitForTimeout stillBrowser"
  "waitForLoadState finalBrowser = waitForLoadState stillBrowser"
  "evaluateRejects finalBrowser = (\<lambda>pg b. None)"
  "querySelectorAll finalBrowser = (\<lambda>pg sel b. [])"
  by (simp_all add: finalBrowser_def)

lemma preludeIdle_finalBrowser: "preludeIdle J finalBrowser (Page 0) (\<lambda>b. b = [])"
  unfolding preludeIdle_def
  by (simp add: clickByTextContent_def contexts_def TEXT_PATTERNS_buyAdditional_def
        evaluate_def await_def)

lemma finalBrowser_step:
  "runCheckoutFlow_step asciiJs finalBrowser (Page 0) emptySettings None 1800 1
     \<lparr>bstate = [], now = n, console = c\<rparr> =
     (Inr (Return \<lparr>success = True, reason = ''Purchase confirmed'', result_url = Some ''/cart''\<rparr>),
      \<lparr>bstate = [''click''], now = n + 2800,
       console = c @ [''   Checkout step 1...'',
                      ''   Complete purchase: '' @ quoted ''COMPLETE PURCHASE'']\<rparr>)"
proof -
  let ?w0 = "\<lparr>bstate = [], now = n, console = c @ [''   Checkout step 1...'']\<rparr> :: string list world"
  have sold: "\<not> regex_test soldOutPattern ''COMPLETE PURCHASE''"
    by code_simp
  have tr: "ascii_trim ''COMPLETE PURCHASE'' = ''COMPLETE PURCHASE''"
    by (simp add: ascii_trim_def isSpace_def)
  have click: "clickFirstMatchingAnyContext asciiJs finalBrowser (Page 0) TEXT_PATTERNS_final
                 ''Complete purchase'' None ?w0 =
               (Inr True,
                \<lparr>bstate = [''click''], now = n,
                 console = c @ [''   Checkout step 1...'',
                                ''   Complete purchase: '' @ quoted ''COMPLETE PURCHASE'']\<rparr>)"
    by (simp add: clickFirstMatchingAnyContext_def clickFirstMatchingAnyContext_loop.simps
          contexts_def TEXT_PATTERNS_final_def sold tr labelOr_def Let_def log_def
          del: regex_test.simps)
  show ?thesis
    unfolding runCheckoutFlow_step_def Let_def
    using click
    by (simp add: detectQueue_def detectLogin_def detectConfirmation_def detectBlockingError_def
          detectBlockingError_eval_def querySelector_def checkTermsCheckboxes_def evaluate_def
          await_def ret_def waitForPageSettled_def pageWaitForTimeout_def log_def
          QUEUE_TEXT_def LOGIN_TEXT_def CONFIRMATION_TEXT_def PASSWORD_INPUT_def)
qed

lemma detectChanges_examples:
  "detectChanges [''a'' \<mapsto> dune AVAILABLE] [(''a'', dune SOLD_OUT)] = []"
  "detectChanges [''a'' \<mapsto> dune WAITLIST] [(''a'', dune AVAILABLE)] = []"
  "detectChanges [''a'' \<mapsto> dune AVAILABLE] [(''a'', dune AVAILABLE)] = []"
  "detectChanges Map.empty [(''a'', dune SOLD_OUT), (''b'', dune WAITLIST), (''c'', dune UNKNOWN)] = []"
  "map etype (detectChanges [''b'' \<mapsto> dune SOLD_OUT]
                [(''a'', dune AVAILABLE), (''b'', dune AVAILABLE), (''c'', dune SOLD_OUT)]) =
     [NEW_AVAILABLE, NOW_AVAILABLE]"
  by (simp_all add: detectChanges_def getProperty_def Object_prototype_def dune_def)

subsection \<open>The card page\<close>

lemma cardBrowser_sel [simp]:
  "url cardBrowser = url stillBrowser"
  "frames cardBrowser = (\<lambda>pg b. [Frame 0, Frame 2])"
  "mainFrame cardBrowser = (\<lambda>pg b. Frame 0)"
  "count cardBrowser (Locator ctx sel (Some r)) b = 0"
  "count cardBrowser (Locator (CPage pg) sel h) b = 0"
  "count cardBrowser (Locator (CFrame (Frame 0)) sel h) b = 0"
  "count cardBrowser (Locator (CFrame (Frame 2)) sel None) b = 1"
  "isVisible cardBrowser (Nth (Locator (CPage pg) sel h) i) b = False"
  "isVisible cardBrowser (Nth (Locator (CFrame (Frame 2)) sel None) 0) b = True"
  "fill cardBrowser = fill stillBrowser"
  "waitForTimeout cardBrowser = waitForTimeout stillBrowser"
  "evaluateRejects cardBrowser = (\<lambda>pg b. None)"
  "querySelectorAll cardBrowser = (\<lambda>pg sel b. [])"
  by (simp_all add: cardBrowser_def)

lemma preludeIdle_cardBrowser: "preludeIdle J cardBrowser (Page 0) (\<lambda>b. b = [])"
  unfolding preludeIdle_def
  by (simp add: clickByTextContent_def contexts_def TEXT_PATTERNS_buyAdditional_def
        evaluate_def await_def)

lemma quiescent_cardBrowser: "quiescent asciiJs cardBrowser (Page 0) s (\<lambda>b. b = [])"
  unfolding quiescent_def
  by (simp add: preludeIdle_cardBrowser detectQueue_def detectLogin_def
        detectConfirmation_def detectBlockingError_def detectBlockingError_eval_def
        querySelector_def contexts_def
        TEXT_PATTERNS_final_def TEXT_PATTERNS_continue_def checkTermsCheckboxes_def
        clickFirstMatchingAnyContext_def clickFirstMatchingAnyContext_loop.simps
        setTicketQuantity_def setTicketQuantity_eval_def
        selectSavedPayment_def evaluate_def await_def NUMBER_INPUT_def split: option.splits)

lemma payment_cardSettings:
  "getPaymentConfig noEnv cardSettings =
     \<lparr>cardNumber = Some ''4242424242424242'', exp = Some ''12/30'', cvc = Some ''123'',
      name = None, zip = None\<rparr>"
  by (simp add: getPaymentConfig_def cardSettings_def emptySettings_def noEnv_def orElse_def
        truthy_def)

lemma fillCardDetails_cardBrowser:
  "fillCardDetails cardBrowser (Page 0) (getPaymentConfig noEnv cardSettings) world0 =
     (Inr True,
      \<lparr>bstate = [''fill 4242424242424242'', ''fill 12/30'', ''fill 123''], now = 0,
       console = [''   Filled payment fields'']\<rparr>)"
  by (simp add: payment_cardSettings fillCardDetails_def fillIf_def truthy_def orEmpty_def
        cardNumberSelectors_def expSelectors_def cvcSelectors_def world0_def log_def)

subsection \<open>The purchase attempt\<close>

lemma find_None_filter: "find P xs = None \<longleftrightarrow> filter P xs = []"
  by (induction xs) auto


lemma clickOrderTicketsButton_eval_none:
  "entryControlsOf J B t descs b = [] \<Longrightarrow> clickOrderTicketsButton_eval J B t descs b = (False, b)"
  by (induction descs)
     (auto simp: entryControlsOf_def Let_def filter_empty_conv split: option.splits if_splits
           dest!: find_SomeD)


lemma clickOrderTicketsButton_none:
  "evaluateRejects B pg (bstate w) = None \<Longrightarrow> entryControls J B pg t (bstate w) = [] \<Longrightarrow>
   clickOrderTicketsButton J B pg t w = (Inr (OrderFailure ''Order tickets button not found''), w)"
  by (simp add: clickOrderTicketsButton_def entryControls_def clickOrderTicketsButton_eval_none
        evaluate_alive await_def)



lemma bstate_attemptStart [simp]: "bstate (attemptStart t st w) = bstate w"
  by (simp add: attemptStart_def)

lemma now_attemptStart [simp]: "now (attemptStart t st w) = now w"
  by (simp add: attemptStart_def)

lemma attemptPurchase_unfold:
  assumes "getFilmSettings J t st (Some cfg) = Some rule" and "autoPurchase rule"
  shows "attemptPurchase J B env pg t st cfg send w =
     (case clickOrderTicketsButton J B pg t (attemptStart t st w) of
        (Inl e, w2) \<Rightarrow> attemptPurchase_catch B pg (now w) e w2
      | (Inr (OrderFailure why), w2) \<Rightarrow>
          (Inr \<lparr>success = False, reason = why, result_url = None\<rparr>, w2)
      | (Inr (OrderSuccess purchasePage openedNewPage), w2) \<Rightarrow>
          (case attemptPurchase_checkout J B env pg purchasePage openedNewPage t (settingsOf cfg)
                  (slugOf J t) (now w) send w2 of
             (Inl e, w3) \<Rightarrow> attemptPurchase_catch B purchasePage (now w) e w3
           | (Inr r, w3) \<Rightarrow> (Inr r, w3)))"
  using assms
  by (simp add: attemptPurchase_def attemptStart_def settingsOf_def slugOf_def Let_def
        split: prod.splits sum.splits order_result.splits)

lemma scheduleBrowser_sel [simp]:
  "querySelectorAll (scheduleBrowser label) pg ''.sd_schedule_film_desc'' b = [Elem 2]"
  "elemQuerySelector (scheduleBrowser label) (Elem 2) ''h3'' b = Some (Elem 3)"
  "closest (scheduleBrowser label) (Elem 2) ROW_SELECTOR b = Some (Elem 4)"
  "elemQuerySelectorAll (scheduleBrowser label) (Elem 4) BUTTON_SELECTOR b = [Elem 5]"
  "getProp (scheduleBrowser label) (Elem 3) ''textContent'' b = ''Dune''"
  "getProp (scheduleBrowser label) (Elem 5) ''textContent'' b = label"
  "setAttribute (scheduleBrowser label) = setAttribute stillBrowser"
  "screenshot (scheduleBrowser label) = screenshot stillBrowser"
  "evaluateRejects (scheduleBrowser label) = (\<lambda>pg b. None)"
  by (simp_all add: scheduleBrowser_def elemQuerySelector_def)

lemma isOrderButton_examples:
  "\<not> isOrderButton asciiJs (scheduleBrowser ''Sold out'') (Elem 5) b"
  "isOrderButton asciiJs (scheduleBrowser ''Order tickets'') (Elem 5) b"
  by (simp_all add: isOrderButton_def toUpperChar_def ascii_trim_def isSpace_def)

lemma entryControls_soldOut:
  "entryControls asciiJs (scheduleBrowser ''Sold out'') (Page 0) ''Dune'' b = []"
  by (simp add: entryControls_def entryControlsOf_def isOrderButton_examples toLowerChar_def
        ascii_trim_def isSpace_def)




lemma doubles_alive [simp]:
  "evaluateRejects throwingBrowser = (\<lambda>pg b. None)"
  "evaluateRejects closedBrowser = (\<lambda>pg b. None)"
  "evaluateRejects crashedBrowser = (\<lambda>pg b. Some ''Execution context was destroyed'')"
  "screenshot throwingBrowser = screenshot stillBrowser"
  "screenshot closedBrowser = screenshot stillBrowser"
  "screenshot crashedBrowser = screenshot stillBrowser"
  by (simp_all add: throwingBrowser_def closedBrowser_def crashedBrowser_def scheduleBrowser_def)




subsection \<open>The quantity page doubles\<close>

lemma optionFor_findOption: "findOption J B sel (String q) b = optionFor J B sel q b"
  by (simp add: findOption_def optionFor_def)

lemma quantitySelect_find:
  "find (\<lambda>s. isQuantitySelect J B s b) (querySelectorAll B pg ''select'' b) = quantitySelect J B pg b"
  by (simp add: quantitySelect_def isQuantitySelect_def [abs_def])

lemma setTicketQuantity_eval_select:
  assumes "quantitySelect J B pg b = Some sel"
  shows "setTicketQuantity_eval J B pg desired b =
           (case optionFor J B sel desired b of
              None \<Rightarrow> setTicketQuantity_lower J B sel (desired - 1) b
            | Some opt \<Rightarrow> (\<lparr>qsuccess = True, quantity = Some desired\<rparr>, chooseOption B sel opt b))"
  using assms
  by (simp add: setTicketQuantity_eval_def quantitySelect_find [symmetric]
        setTicketQuantity_selects_first optionFor_findOption)

lemma setTicketQuantity_eval_inputs:
  assumes "quantitySelect J B pg b = None"
  shows "setTicketQuantity_eval J B pg desired b =
           setTicketQuantity_inputs J B desired (length (querySelectorAll B pg NUMBER_INPUT b))
             (querySelectorAll B pg NUMBER_INPUT b) b"
  using assms
  by (simp add: setTicketQuantity_eval_def quantitySelect_find [symmetric]
        setTicketQuantity_selects_none Let_def)

lemma String_more [simp]: "String 6 = ''6''" "String 7 = ''7''"
  by (simp_all add: String_def string_of_nat.simps)

lemma alive_doubles [simp]:
  "evaluateRejects selectBrowser = (\<lambda>pg b. None)"
  "evaluateRejects zeroSelectBrowser = (\<lambda>pg b. None)"
  "evaluateRejects twoSelectBrowser = (\<lambda>pg b. None)"
  "evaluateRejects (inputBrowser mx) = (\<lambda>pg b. None)"
  by (simp_all add: selectBrowser_def zeroSelectBrowser_def twoSelectBrowser_def inputBrowser_def)

lemma selectBrowser_facts:
  "quantitySelect asciiJs selectBrowser (Page 0) [] = Some (Elem 1)"
  "selectOptions selectBrowser (Elem 1) [] = [Elem 11, Elem 12, Elem 13]"
  "map (\<lambda>opt. getProp selectBrowser opt ''value'' []) (selectOptions selectBrowser (Elem 1) [])
     = [''1'', ''2'', ''3'']"
  "map (\<lambda>opt. trim asciiJs (getProp selectBrowser opt ''textContent'' []))
     (selectOptions selectBrowser (Elem 1) []) = [''1'', ''2'', ''3'']"
  "dispatchEvent selectBrowser (Elem 1) ''change'' (setValue selectBrowser (Elem 1) ''3'' [])
     = [''value 3'', ''event change'']"
  by (simp_all add: quantitySelect_def selectBrowser_def toLowerChar_def ascii_trim_def isSpace_def)

lemma zeroSelectBrowser_facts:
  "quantitySelect asciiJs zeroSelectBrowser (Page 0) [] = Some (Elem 1)"
  "optionFor asciiJs zeroSelectBrowser (Elem 1) 0 [] = Some (Elem 10)"
  "optionFor asciiJs zeroSelectBrowser (Elem 1) 5 [] = Some (Elem 15)"
  "optionFor asciiJs zeroSelectBrowser (Elem 1) 6 [] = None"
  "optionFor asciiJs zeroSelectBrowser (Elem 1) 7 [] = None"
  "getProp zeroSelectBrowser (Elem 15) ''value'' [] = ''5''"
  "dispatchEvent zeroSelectBrowser (Elem 1) ''change'' (setValue zeroSelectBrowser (Elem 1) ''5'' [])
     = [''value 5'', ''event change'']"
  by (simp_all add: quantitySelect_def optionFor_def zeroSelectBrowser_def selectBrowser_def
        toLowerChar_def ascii_trim_def isSpace_def)

lemma zeroSelectBrowser_none:
  "1 \<le> k \<and> k \<le> 4 \<longrightarrow> optionFor asciiJs zeroSelectBrowser (Elem 1) k [] = None"
proof
  assume "1 \<le> k \<and> k \<le> 4"
  then have "k = 1 \<or> k = 2 \<or> k = 3 \<or> k = 4" by arith
  then show "optionFor asciiJs zeroSelectBrowser (Elem 1) k [] = None"
    by (auto simp: optionFor_def zeroSelectBrowser_def selectBrowser_def ascii_trim_def isSpace_def)
qed

lemma zeroSelectBrowser_between:
  "5 < k \<and> k < 7 \<longrightarrow> optionFor asciiJs zeroSelectBrowser (Elem 1) k [] = None"
proof
  assume "5 < k \<and> k < 7"
  then have "k = 6" by arith
  then show "optionFor asciiJs zeroSelectBrowser (Elem 1) k [] = None"
    using zeroSelectBrowser_facts(4) by simp
qed

lemma inputBrowser_facts:
  "quantitySelect asciiJs (inputBrowser mx) (Page 0) [] = None"
  "querySelectorAll (inputBrowser mx) (Page 0) NUMBER_INPUT [] = [Elem 2]"
  "inputQuantity asciiJs (inputBrowser ''3'') 4 (Elem 2) [] = Some 3"
  "inputQuantity asciiJs (inputBrowser ''0x10'') 4 (Elem 2) [] = Some 4"
  "inputQuantity asciiJs (inputBrowser ''0'') 4 (Elem 2) [] = Some 0"
  "flag (inputBrowser mx) = (\<lambda>e p b. False)"
  "setValue (inputBrowser mx) = setValue stillBrowser"
  "dispatchEvent (inputBrowser mx) = dispatchEvent stillBrowser"
  by (simp_all add: quantitySelect_def inputBrowser_def NUMBER_INPUT_def inputQuantity_def
        ascii_parseInt_def isSpace_def isDigit_def digitVal_def digitsVal_def Let_def)

lemma inputBrowser_usable:
  "find (usableInput asciiJs (inputBrowser ''3'') 4 (length [Elem 2]) []) [Elem 2] = Some (Elem 2)"
  "find (usableInput asciiJs (inputBrowser ''0x10'') 4 (length [Elem 2]) []) [Elem 2] = Some (Elem 2)"
  "find (usableInput asciiJs (inputBrowser ''0'') 4 (length [Elem 2]) []) [Elem 2] = None"
  by (simp_all add: usableInput_def inputBrowser_facts)

lemma twoSelectBrowser_facts:
  "querySelectorAll twoSelectBrowser (Page 0) ''select'' [] = [Elem 2, Elem 1]"
  "isQuantitySelect asciiJs twoSelectBrowser (Elem 2) []"
  "isQuantitySelect asciiJs twoSelectBrowser (Elem 1) []"
  "selectOptions twoSelectBrowser (Elem 2) [] = []"
  "map (\<lambda>opt. getProp twoSelectBrowser opt ''value'' []) (selectOptions twoSelectBrowser (Elem 1) [])
     = [''1'', ''2'', ''3'']"
  "map (\<lambda>opt. trim asciiJs (getProp twoSelectBrowser opt ''textContent'' []))
     (selectOptions twoSelectBrowser (Elem 1) []) = [''1'', ''2'', ''3'']"
  by (simp_all add: isQuantitySelect_def twoSelectBrowser_def selectBrowser_def toLowerChar_def
        ascii_trim_def isSpace_def)

section \<open>Claims\<close>

text \<open>
  C1. For every settings object and every page on which no hazard detector ever fires and
  no action ever has an effect, \<^verbatim>\<open>runCheckoutFlow\<close> makes exactly
  \<^verbatim>\<open>settings.maxSteps\<close> passes of its loop when that is a positive integer, 12 passes when it
  is absent or 0, and none when it is negative; then it returns the result with
  \<^verbatim>\<open>success = false\<close> and the reason "Checkout flow incomplete". It never goes beyond that
  bound and never loops for ever. The passes of a run are the step lines on its console.
\<close>

theorem runCheckoutFlow_exhausts_maxSteps:
  assumes "quiescent J B pg s Q" and "Q (bstate w)"
  shows "\<exists>w'. runCheckoutFlow J B env pg s hs w =
                (Inr \<lparr>success = False, reason = ''Checkout flow incomplete'',
                      result_url = Some (url B pg (bstate w'))\<rparr>, w') \<and>
              Q (bstate w') \<and>
              (maxSteps s = None \<or> maxSteps s = Some 0 \<longrightarrow>
                 filter isStepLine (console w') =
                   filter isStepLine (console w) @ map stepLine [1..12]) \<and>
              (\<forall>n. maxSteps s = Some n \<and> 1 \<le> n \<longrightarrow>
                 filter isStepLine (console w') =
                   filter isStepLine (console w) @ map stepLine [1..n]) \<and>
              (\<forall>n. maxSteps s = Some n \<and> n < 0 \<longrightarrow>
                 filter isStepLine (console w') = filter isStepLine (console w))"
proof -
  obtain w' where r: "runCheckoutFlow J B env pg s hs w =
                (Inr \<lparr>success = False, reason = ''Checkout flow incomplete'',
                      result_url = Some (url B pg (bstate w'))\<rparr>, w')"
      and Q': "Q (bstate w')"
      and c: "filter isStepLine (console w') =
                filter isStepLine (console w) @ map stepLine [1..orDefault (maxSteps s) 12]"
    using runCheckoutFlow_quiescent [OF assms(1), OF assms(2)] by blast
  show ?thesis
  proof (intro exI conjI impI allI)
    show "runCheckoutFlow J B env pg s hs w =
                (Inr \<lparr>success = False, reason = ''Checkout flow incomplete'',
                      result_url = Some (url B pg (bstate w'))\<rparr>, w')"
      by (rule r)
    show "Q (bstate w')" by (rule Q')
    show "filter isStepLine (console w') = filter isStepLine (console w) @ map stepLine [1..12]"
      if "maxSteps s = None \<or> maxSteps s = Some 0"
      using that c by (auto simp: orDefault_def)
    show "filter isStepLine (console w') = filter isStepLine (console w) @ map stepLine [1..n]"
      if "maxSteps s = Some n \<and> 1 \<le> n" for n
      using that c by (auto simp: orDefault_def)
    show "filter isStepLine (console w') = filter isStepLine (console w)"
      if "maxSteps s = Some n \<and> n < 0" for n
      using that c by (auto simp: orDefault_def)
  qed
qed

theorem runCheckoutFlow_exhausts_maxSteps_witness:
  "quiescent asciiJs stillBrowser (Page 0) (emptySettings\<lparr>maxSteps := Some 3\<rparr>) (\<lambda>b. b = []) \<and>
   quiescent asciiJs stillBrowser (Page 0) emptySettings (\<lambda>b. b = []) \<and>
   bstate world0 = [] \<and>
   fst (runCheckoutFlow asciiJs stillBrowser noEnv (Page 0) (emptySettings\<lparr>maxSteps := Some 3\<rparr>)
          None world0) =
     Inr \<lparr>success = False, reason = ''Checkout flow incomplete'', result_url = Some ''/cart''\<rparr> \<and>
   filter isStepLine
     (console (snd (runCheckoutFlow asciiJs stillBrowser noEnv (Page 0)
                      (emptySettings\<lparr>maxSteps := Some 3\<rparr>) None world0))) =
     [''   Checkout step 1...'', ''   Checkout step 2...'', ''   Checkout step 3...''] \<and>
   fst (runCheckoutFlow asciiJs stillBrowser noEnv (Page 0) emptySettings None world0) =
     Inr \<lparr>success = False, reason = ''Checkout flow incomplete'', result_url = Some ''/cart''\<rparr> \<and>
   length (filter isStepLine
             (console (snd (runCheckoutFlow asciiJs stillBrowser noEnv (Page 0) emptySettings None
                              world0)))) = 12"
proof -
  let ?s3 = "emptySettings\<lparr>maxSteps := Some 3\<rparr>"
  have q3: "quiescent asciiJs stillBrowser (Page 0) ?s3 (\<lambda>b. b = [])"
    and q: "quiescent asciiJs stillBrowser (Page 0) emptySettings (\<lambda>b. b = [])"
    by (rule quiescent_stillBrowser)+
  have b: "bstate world0 = []" and c0: "console world0 = []" by (simp_all add: world0_def)
  have m3: "maxSteps ?s3 = Some 3" and m: "maxSteps emptySettings = None"
    by (simp_all add: emptySettings_def)
  obtain w3 where r3: "runCheckoutFlow asciiJs stillBrowser noEnv (Page 0) ?s3 None world0 =
            (Inr \<lparr>success = False, reason = ''Checkout flow incomplete'',
                  result_url = Some (url stillBrowser (Page 0) (bstate w3))\<rparr>, w3)"
     and c3: "\<forall>n. maxSteps ?s3 = Some n \<and> 1 \<le> n \<longrightarrow>
            filter isStepLine (console w3) = filter isStepLine (console world0) @ map stepLine [1..n]"
    using runCheckoutFlow_exhausts_maxSteps [OF q3, OF b, of noEnv None] by blast
  obtain w' where r: "runCheckoutFlow asciiJs stillBrowser noEnv (Page 0) emptySettings None world0 =
            (Inr \<lparr>success = False, reason = ''Checkout flow incomplete'',
                  result_url = Some (url stillBrowser (Page 0) (bstate w'))\<rparr>, w')"
     and c: "maxSteps emptySettings = None \<or> maxSteps emptySettings = Some 0 \<longrightarrow>
            filter isStepLine (console w') = filter isStepLine (console world0) @ map stepLine [1..12]"
    using runCheckoutFlow_exhausts_maxSteps [OF q, OF b, of noEnv None] by blast
  have l3: "filter isStepLine (console w3) =
              [''   Checkout step 1...'', ''   Checkout step 2...'', ''   Checkout step 3...'']"
    using c3 m3 c0 by (simp add: upto_1_3 stepLine_def)
  have l: "length (filter isStepLine (console w')) = 12"
    using c m c0 by (simp add: length_upto_1_12)
  show ?thesis
    using q3 q b r3 r l3 l by simp
qed

theorem runCheckoutFlow_maxSteps_zero:
  "quiescent asciiJs stillBrowser (Page 0) (emptySettings\<lparr>maxSteps := Some 0\<rparr>) (\<lambda>b. b = []) \<and>
   maxSteps (emptySettings\<lparr>maxSteps := Some 0\<rparr>) = Some 0 \<and>
   length (filter isStepLine
             (console (snd (runCheckoutFlow asciiJs stillBrowser noEnv (Page 0)
                              (emptySettings\<lparr>maxSteps := Some 0\<rparr>) None world0)))) = 12"
proof -
  let ?s0 = "emptySettings\<lparr>maxSteps := Some 0\<rparr>"
  have q: "quiescent asciiJs stillBrowser (Page 0) ?s0 (\<lambda>b. b = [])"
    by (rule quiescent_stillBrowser)
  have b: "bstate world0 = []" and c0: "console world0 = []" by (simp_all add: world0_def)
  obtain w' where r: "runCheckoutFlow asciiJs stillBrowser noEnv (Page 0) ?s0 None world0 =
            (Inr \<lparr>success = False, reason = ''Checkout flow incomplete'',
                  result_url = Some (url stillBrowser (Page 0) (bstate w'))\<rparr>, w')"
     and c: "filter isStepLine (console w') =
               filter isStepLine (console world0) @ map stepLine [1..orDefault (maxSteps ?s0) 12]"
    using runCheckoutFlow_quiescent [OF q, OF b, of noEnv None] by blast
  have "orDefault (maxSteps ?s0) 12 = 12" by (simp add: orDefault_def)
  then have "length (filter isStepLine (console w')) = 12"
    using c c0 by (simp add: length_upto_1_12)
  then show ?thesis
    using q r by simp
qed

text \<open>
  C2. In every pass of the loop of \<^verbatim>\<open>runCheckoutFlow\<close> the hazard checks are evaluated at
  the start of the pass in the order queue, login, confirmation, blocking error in a modal,
  and the first that holds gives the result of the attempt; in particular a pass that starts
  on a page state where the queue detector holds returns the failure with the queue reason,
  whether the confirmation detector holds there or not. This is all that holds: after a click
  on the final-purchase control the confirmation detector alone is consulted once more, so an
  attempt can return "Purchase confirmed" on a state where the queue detector holds as well.
\<close>

theorem runCheckoutFlow_hazard_order:
  "(detectQueue J B pg (bstate w) \<longrightarrow>
      runCheckoutFlow_step J B pg s hs sw step w =
        (Inr (Return \<lparr>success = False, reason = ''Queue/waiting room encountered'',
                       result_url = Some (url B pg (bstate w))\<rparr>), log (stepLine step) w)) \<and>
   (\<not> detectQueue J B pg (bstate w) \<and> detectLogin J B pg (bstate w) \<longrightarrow>
      runCheckoutFlow_step J B pg s hs sw step w =
        (Inr (Return \<lparr>success = False, reason = ''Login required during checkout'',
                       result_url = Some (url B pg (bstate w))\<rparr>), log (stepLine step) w)) \<and>
   (\<not> detectQueue J B pg (bstate w) \<and> \<not> detectLogin J B pg (bstate w) \<and>
    detectConfirmation J B pg (bstate w) \<longrightarrow>
      runCheckoutFlow_step J B pg s hs sw step w =
        (Inr (Return \<lparr>success = True, reason = ''Purchase confirmed'',
                       result_url = Some (url B pg (bstate w))\<rparr>), log (stepLine step) w)) \<and>
   (\<not> detectQueue J B pg (bstate w) \<and> \<not> detectLogin J B pg (bstate w) \<and>
    \<not> detectConfirmation J B pg (bstate w) \<and>
    detectBlockingError J B pg (log (stepLine step) w) = (Inr True, w1) \<longrightarrow>
      runCheckoutFlow_step J B pg s hs sw step w =
        (Inr (Return \<lparr>success = False, reason = ''Checkout error in modal'',
                       result_url = Some (url B pg (bstate w1))\<rparr>), w1)) \<and>
   (step \<le> m \<and> detectQueue J B pg (bstate w) \<longrightarrow>
      runCheckoutFlow_loop J B pg s hs m sw step w =
        (Inr \<lparr>success = False, reason = ''Queue/waiting room encountered'',
              result_url = Some (url B pg (bstate w))\<rparr>, log (stepLine step) w))"
proof -
  have q: "runCheckoutFlow_step J B pg s hs sw step w =
        (Inr (Return \<lparr>success = False, reason = ''Queue/waiting room encountered'',
                       result_url = Some (url B pg (bstate w))\<rparr>), log (stepLine step) w)"
    if "detectQueue J B pg (bstate w)"
    using that by (simp add: runCheckoutFlow_step_def Let_def stepLine_def)
  show ?thesis
  proof (intro conjI impI)
    show "runCheckoutFlow_step J B pg s hs sw step w =
        (Inr (Return \<lparr>success = False, reason = ''Queue/waiting room encountered'',
                       result_url = Some (url B pg (bstate w))\<rparr>), log (stepLine step) w)"
      if "detectQueue J B pg (bstate w)"
      using that by (rule q)
    show "runCheckoutFlow_step J B pg s hs sw step w =
        (Inr (Return \<lparr>success = False, reason = ''Login required during checkout'',
                       result_url = Some (url B pg (bstate w))\<rparr>), log (stepLine step) w)"
      if "\<not> detectQueue J B pg (bstate w) \<and> detectLogin J B pg (bstate w)"
      using that by (simp add: runCheckoutFlow_step_def Let_def stepLine_def)
    show "runCheckoutFlow_step J B pg s hs sw step w =
        (Inr (Return \<lparr>success = True, reason = ''Purchase confirmed'',
                       result_url = Some (url B pg (bstate w))\<rparr>), log (stepLine step) w)"
      if "\<not> detectQueue J B pg (bstate w) \<and> \<not> detectLogin J B pg (bstate w) \<and>
          detectConfirmation J B pg (bstate w)"
      using that by (simp add: runCheckoutFlow_step_def Let_def stepLine_def)
    show "runCheckoutFlow_step J B pg s hs sw step w =
        (Inr (Return \<lparr>success = False, reason = ''Checkout error in modal'',
                       result_url = Some (url B pg (bstate w1))\<rparr>), w1)"
      if "\<not> detectQueue J B pg (bstate w) \<and> \<not> detectLogin J B pg (bstate w) \<and>
          \<not> detectConfirmation J B pg (bstate w) \<and>
          detectBlockingError J B pg (log (stepLine step) w) = (Inr True, w1)"
      using that by (simp add: runCheckoutFlow_step_def Let_def stepLine_def await_def)
    show "runCheckoutFlow_loop J B pg s hs m sw step w =
        (Inr \<lparr>success = False, reason = ''Queue/waiting room encountered'',
              result_url = Some (url B pg (bstate w))\<rparr>, log (stepLine step) w)"
      if "step \<le> m \<and> detectQueue J B pg (bstate w)"
      using that q by (subst runCheckoutFlow_loop.simps) simp
  qed
qed

theorem runCheckoutFlow_hazard_order_witness:
  "detectQueue asciiJs (hazardBrowser [QUEUE_TEXT, CONFIRMATION_TEXT]) (Page 0) (bstate world0) \<and>
   detectConfirmation asciiJs (hazardBrowser [QUEUE_TEXT, CONFIRMATION_TEXT]) (Page 0)
     (bstate world0) \<and>
   runCheckoutFlow_step asciiJs (hazardBrowser [QUEUE_TEXT, CONFIRMATION_TEXT]) (Page 0)
       emptySettings None 1800 1 world0 =
     (Inr (Return \<lparr>success = False, reason = ''Queue/waiting room encountered'',
                    result_url = Some ''/cart''\<rparr>),
      \<lparr>bstate = [], now = 0, console = [''   Checkout step 1...'']\<rparr>) \<and>
   runCheckoutFlow_loop asciiJs (hazardBrowser [QUEUE_TEXT, CONFIRMATION_TEXT]) (Page 0)
       emptySettings None 12 1800 1 world0 =
     (Inr \<lparr>success = False, reason = ''Queue/waiting room encountered'',
           result_url = Some ''/cart''\<rparr>,
      \<lparr>bstate = [], now = 0, console = [''   Checkout step 1...'']\<rparr>) \<and>
   \<not> detectQueue asciiJs (hazardBrowser [LOGIN_TEXT, CONFIRMATION_TEXT]) (Page 0) (bstate world0) \<and>
   detectLogin asciiJs (hazardBrowser [LOGIN_TEXT, CONFIRMATION_TEXT]) (Page 0) (bstate world0) \<and>
   runCheckoutFlow_step asciiJs (hazardBrowser [LOGIN_TEXT, CONFIRMATION_TEXT]) (Page 0)
       emptySettings None 1800 1 world0 =
     (Inr (Return \<lparr>success = False, reason = ''Login required during checkout'',
                    result_url = Some ''/cart''\<rparr>),
      \<lparr>bstate = [], now = 0, console = [''   Checkout step 1...'']\<rparr>) \<and>
   runCheckoutFlow_step asciiJs (hazardBrowser [CONFIRMATION_TEXT]) (Page 0)
       emptySettings None 1800 1 world0 =
     (Inr (Return \<lparr>success = True, reason = ''Purchase confirmed'',
                    result_url = Some ''/cart''\<rparr>),
      \<lparr>bstate = [], now = 0, console = [''   Checkout step 1...'']\<rparr>) \<and>
   runCheckoutFlow_step asciiJs modalBrowser (Page 0) emptySettings None 1800 1 world0 =
     (Inr (Return \<lparr>success = False, reason = ''Checkout error in modal'',
                    result_url = Some ''/cart''\<rparr>),
      \<lparr>bstate = [], now = 0, console = [''   Checkout step 1...'']\<rparr>)"
proof -
  note h = hazardBrowser_detect hazard_texts
  let ?w1 = "\<lparr>bstate = [], now = 0, console = [''   Checkout step 1...'']\<rparr> :: string list world"
  have l: "log (stepLine 1) world0 = ?w1"
    by (simp add: log_def stepLine_def world0_def)
  have u: "url modalBrowser = url stillBrowser"
    by (simp add: modalBrowser_def)
  have a: "runCheckoutFlow_step asciiJs (hazardBrowser [QUEUE_TEXT, CONFIRMATION_TEXT]) (Page 0)
       emptySettings None 1800 1 world0 =
     (Inr (Return \<lparr>success = False, reason = ''Queue/waiting room encountered'',
                    result_url = Some ''/cart''\<rparr>), ?w1)"
    using runCheckoutFlow_hazard_order [where J = asciiJs
        and B = "hazardBrowser [QUEUE_TEXT, CONFIRMATION_TEXT]" and pg = "Page 0" and w = world0
        and s = emptySettings and hs = None and sw = 1800 and step = 1, THEN conjunct1]
    by (simp add: h l)
  have b: "runCheckoutFlow_loop asciiJs (hazardBrowser [QUEUE_TEXT, CONFIRMATION_TEXT]) (Page 0)
       emptySettings None 12 1800 1 world0 =
     (Inr \<lparr>success = False, reason = ''Queue/waiting room encountered'',
           result_url = Some ''/cart''\<rparr>, ?w1)"
    using runCheckoutFlow_hazard_order [where J = asciiJs
        and B = "hazardBrowser [QUEUE_TEXT, CONFIRMATION_TEXT]" and pg = "Page 0" and w = world0
        and s = emptySettings and hs = None and sw = 1800 and step = 1 and m = 12,
        THEN conjunct2, THEN conjunct2, THEN conjunct2, THEN conjunct2]
    by (simp add: h l)
  have c: "runCheckoutFlow_step asciiJs (hazardBrowser [LOGIN_TEXT, CONFIRMATION_TEXT]) (Page 0)
       emptySettings None 1800 1 world0 =
     (Inr (Return \<lparr>success = False, reason = ''Login required during checkout'',
                    result_url = Some ''/cart''\<rparr>), ?w1)"
    using runCheckoutFlow_hazard_order [where J = asciiJs
        and B = "hazardBrowser [LOGIN_TEXT, CONFIRMATION_TEXT]" and pg = "Page 0" and w = world0
        and s = emptySettings and hs = None and sw = 1800 and step = 1,
        THEN conjunct2, THEN conjunct1]
    by (simp add: h l)
  have d: "runCheckoutFlow_step asciiJs (hazardBrowser [CONFIRMATION_TEXT]) (Page 0)
       emptySettings None 1800 1 world0 =
     (Inr (Return \<lparr>success = True, reason = ''Purchase confirmed'',
                    result_url = Some ''/cart''\<rparr>), ?w1)"
    using runCheckoutFlow_hazard_order [where J = asciiJs
        and B = "hazardBrowser [CONFIRMATION_TEXT]" and pg = "Page 0" and w = world0
        and s = emptySettings and hs = None and sw = 1800 and step = 1,
        THEN conjunct2, THEN conjunct2, THEN conjunct1]
    by (simp add: h l)
  have e: "runCheckoutFlow_step asciiJs modalBrowser (Page 0) emptySettings None 1800 1 world0 =
     (Inr (Return \<lparr>success = False, reason = ''Checkout error in modal'',
                    result_url = Some ''/cart''\<rparr>), ?w1)"
    using runCheckoutFlow_hazard_order [where J = asciiJs
        and B = modalBrowser and pg = "Page 0" and w = world0 and ?w1.0 = ?w1
        and s = emptySettings and hs = None and sw = 1800 and step = 1,
        THEN conjunct2, THEN conjunct2, THEN conjunct2, THEN conjunct1]
    by (simp add: modalBrowser_detect l u)
  show ?thesis
    using a b c d e by (simp add: h)
qed

theorem confirmation_after_final_click_counterexample:
  "fst (runCheckoutFlow asciiJs finalBrowser noEnv (Page 0) emptySettings None world0) =
     Inr \<lparr>success = True, reason = ''Purchase confirmed'', result_url = Some ''/cart''\<rparr> \<and>
   detectQueue asciiJs finalBrowser (Page 0)
     (bstate (snd (runCheckoutFlow asciiJs finalBrowser noEnv (Page 0) emptySettings None world0))) \<and>
   detectConfirmation asciiJs finalBrowser (Page 0)
     (bstate (snd (runCheckoutFlow asciiJs finalBrowser noEnv (Page 0) emptySettings None world0)))"
proof -
  have b: "bstate world0 = []" by (simp add: world0_def)
  obtain w3 where r: "runCheckoutFlow asciiJs finalBrowser noEnv (Page 0) emptySettings None world0 =
                runCheckoutFlow_loop asciiJs finalBrowser (Page 0) emptySettings None
                  (orDefault (maxSteps emptySettings) 12)
                  (orDefault (stepWaitMs emptySettings) 1800) 1 w3"
      and Q3: "bstate w3 = []"
    using runCheckoutFlow_prelude [OF preludeIdle_finalBrowser, OF b, of asciiJs noEnv emptySettings
        None]
    by blast
  have d: "orDefault (maxSteps emptySettings) 12 = 12" "orDefault (stepWaitMs emptySettings) 1800 = 1800"
    by (simp_all add: orDefault_def emptySettings_def)
  obtain n c where w3: "w3 = \<lparr>bstate = [], now = n, console = c\<rparr>"
    using Q3 by (cases w3) simp
  have "runCheckoutFlow asciiJs finalBrowser noEnv (Page 0) emptySettings None world0 =
     (Inr \<lparr>success = True, reason = ''Purchase confirmed'', result_url = Some ''/cart''\<rparr>,
      \<lparr>bstate = [''click''], now = n + 2800,
       console = c @ [''   Checkout step 1...'',
                      ''   Complete purchase: '' @ quoted ''COMPLETE PURCHASE'']\<rparr>)"
    unfolding r d w3
    by (subst runCheckoutFlow_loop.simps) (simp add: finalBrowser_step)
  then show ?thesis
    by (simp add: detectQueue_def detectConfirmation_def QUEUE_TEXT_def CONFIRMATION_TEXT_def)
qed

text \<open>
  C3. For every configuration and every query (title, screening time), \<^verbatim>\<open>getFilmSettings\<close>
  returns a rule that carries a screening time only when the normalized title and the
  normalized screening time of the query equal those of the rule, so never for the same title
  at another time; it returns a rule without screening time only when the title matches and
  no rule with a non-blank screening time matches both the title and the time of the query
  (a rule of that title for another time does not prevent it); it returns null exactly when no
  rule matches exactly and no rule without screening time has the title. The normalization
  is the one of the source, for any \<^verbatim>\<open>toLowerCase\<close> and \<^verbatim>\<open>trim\<close> that send the empty
  string to itself.
\<close>

theorem getFilmSettings_matcher:
  assumes blank: "normalizeTitle J [] = []"
  shows
  "(getFilmSettings J t st cfg = Some r \<and> truthy (screeningTime r) \<longrightarrow> exactFor J t st r) \<and>
   (getFilmSettings J t st cfg = Some r \<and> \<not> truthy (screeningTime r) \<longrightarrow>
      normalizeTitle J (title r) = normalizeTitle J t \<and>
      \<not> list_ex (\<lambda>r'. hasExactTime J r' \<and> exactFor J t st r') (rulesOf cfg)) \<and>
   (getFilmSettings J t st cfg = None \<longleftrightarrow>
      \<not> list_ex (exactFor J t st) (rulesOf cfg) \<and> \<not> list_ex (titleOnlyFor J t) (rulesOf cfg))"
proof (intro conjI impI)
  assume a: "getFilmSettings J t st cfg = Some r \<and> truthy (screeningTime r)"
  then show "exactFor J t st r"
    by (auto simp: getFilmSettings_eq titleOnlyFor_def split: option.splits dest!: find_SomeD)
next
  assume a: "getFilmSettings J t st cfg = Some r \<and> \<not> truthy (screeningTime r)"
  then show "normalizeTitle J (title r) = normalizeTitle J t"
    by (auto simp: getFilmSettings_eq titleOnlyFor_def exactFor_def split: option.splits
             dest!: find_SomeD)
  show "\<not> list_ex (\<lambda>r'. hasExactTime J r' \<and> exactFor J t st r') (rulesOf cfg)"
  proof
    assume "list_ex (\<lambda>r'. hasExactTime J r' \<and> exactFor J t st r') (rulesOf cfg)"
    then obtain r' where r': "r' \<in> set (rulesOf cfg)" "hasExactTime J r'" "exactFor J t st r'"
      by (auto simp: list_ex_iff)
    then have nonblank: "normalizeTitle J st \<noteq> []"
      by (auto simp: hasExactTime_def exactFor_def)
    from r' have "find (exactFor J t st) (rulesOf cfg) \<noteq> None"
      by (auto simp: find_None_iff_all)
    with a have "exactFor J t st r"
      by (auto simp: getFilmSettings_eq split: option.splits dest!: find_SomeD)
    with nonblank have "normalizeTitle J (orEmpty (screeningTime r)) \<noteq> []"
      by (simp add: exactFor_def)
    with a show False
      by (auto simp: truthy_def orEmpty_def blank split: option.splits)
  qed
next
  show "getFilmSettings J t st cfg = None \<longleftrightarrow>
      \<not> list_ex (exactFor J t st) (rulesOf cfg) \<and> \<not> list_ex (titleOnlyFor J t) (rulesOf cfg)"
    by (auto simp: getFilmSettings_eq list_ex_iff find_None_iff_all split: option.splits
             dest!: find_SomeD)
qed

theorem getFilmSettings_matcher_witness:
  "normalizeTitle asciiJs [] = [] \<and>
   getFilmSettings asciiJs '' dune '' ''jan 25 9pm'' (Some configA) = Some filmA9 \<and>
   truthy (screeningTime filmA9) \<and> exactFor asciiJs '' dune '' ''jan 25 9pm'' filmA9 \<and>
   getFilmSettings asciiJs ''Dune'' ''Jan 26 6PM'' (Some configA) = Some filmA \<and>
   \<not> truthy (screeningTime filmA) \<and>
   normalizeTitle asciiJs (title filmA) = normalizeTitle asciiJs ''Dune'' \<and>
   \<not> list_ex (\<lambda>r'. hasExactTime asciiJs r' \<and> exactFor asciiJs ''Dune'' ''Jan 26 6PM'' r')
        (rulesOf (Some configA)) \<and>
   getFilmSettings asciiJs ''Heat'' ''Jan 25 9PM'' (Some configA) = None \<and>
   \<not> list_ex (exactFor asciiJs ''Heat'' ''Jan 25 9PM'') (rulesOf (Some configA)) \<and>
   \<not> list_ex (titleOnlyFor asciiJs ''Heat'') (rulesOf (Some configA))"
proof -
  have t1: "truthy (screeningTime filmA9)" "\<not> truthy (screeningTime filmA)"
    by (simp_all add: filmA_def filmA9_def truthy_def)
  show ?thesis
    using getFilmSettings_examples t1 normalizeTitle_Nil
      getFilmSettings_matcher [OF normalizeTitle_Nil, of "'' dune ''" "''jan 25 9pm''"
        "Some configA" filmA9]
      getFilmSettings_matcher [OF normalizeTitle_Nil, of "''Dune''" "''Jan 26 6PM''"
        "Some configA" filmA]
      getFilmSettings_matcher [OF normalizeTitle_Nil, of "''Heat''" "''Jan 25 9PM''"
        "Some configA" filmA]
    by simp
qed

theorem getFilmSettings_fallback_counterexample:
  "getFilmSettings asciiJs ''Dune'' ''Jan 26 6PM'' (Some configA) = Some filmA \<and>
   screeningTime filmA = None \<and>
   filmA9 \<in> set (rulesOf (Some configA)) \<and>
   screeningTime filmA9 = Some ''Jan 25 9PM'' \<and>
   normalizeTitle asciiJs (title filmA9) = normalizeTitle asciiJs ''Dune'' \<and>
   getFilmSettings asciiJs ''Dune'' [] (Some configBlank) = Some filmA \<and>
   filmBlank \<in> set (rulesOf (Some configBlank)) \<and>
   screeningTime filmBlank = Some '' '' \<and>
   exactFor asciiJs ''Dune'' [] filmBlank"
  using getFilmSettings_examples
  by (simp add: rulesOf_def configA_def configBlank_def filmA_def filmA9_def filmBlank_def
        exactFor_def orEmpty_def normalizeTitle_examples normalizeTitle_Nil)


text \<open>
  C5. A pass of the loop of \<^verbatim>\<open>runCheckoutFlow\<close> tries the terms checkboxes, the
  final-purchase control, the ticket quantity, the saved payment method and the continue
  control; it never calls \<^verbatim>\<open>fillCardDetails\<close>, and the payment values it has computed from
  the settings and the environment are not used. On a page whose payment frame shows the card
  fields, with card number, expiry and CVC configured, \<^verbatim>\<open>fillCardDetails\<close> would fill the
  three fields; the run makes its 12 passes, fills nothing and returns "Checkout flow
  incomplete".
\<close>

theorem runCheckoutFlow_never_fills_card:
  "fillCardDetails cardBrowser (Page 0) (getPaymentConfig noEnv cardSettings) world0 =
     (Inr True,
      \<lparr>bstate = [''fill 4242424242424242'', ''fill 12/30'', ''fill 123''], now = 0,
       console = [''   Filled payment fields'']\<rparr>) \<and>
   fst (runCheckoutFlow asciiJs cardBrowser noEnv (Page 0) cardSettings None world0) =
     Inr \<lparr>success = False, reason = ''Checkout flow incomplete'', result_url = Some ''/cart''\<rparr> \<and>
   bstate (snd (runCheckoutFlow asciiJs cardBrowser noEnv (Page 0) cardSettings None world0)) = [] \<and>
   length (filter isStepLine
             (console (snd (runCheckoutFlow asciiJs cardBrowser noEnv (Page 0) cardSettings None
                              world0)))) = 12"
proof -
  have q: "quiescent asciiJs cardBrowser (Page 0) cardSettings (\<lambda>b. b = [])"
    by (rule quiescent_cardBrowser)
  have b: "bstate world0 = []" and c0: "console world0 = []" by (simp_all add: world0_def)
  obtain w' where r: "runCheckoutFlow asciiJs cardBrowser noEnv (Page 0) cardSettings None world0 =
            (Inr \<lparr>success = False, reason = ''Checkout flow incomplete'',
                  result_url = Some (url cardBrowser (Page 0) (bstate w'))\<rparr>, w')"
     and e: "bstate w' = []"
     and c: "filter isStepLine (console w') =
               filter isStepLine (console world0) @
                 map stepLine [1..orDefault (maxSteps cardSettings) 12]"
    using runCheckoutFlow_quiescent [OF q, OF b, of noEnv None] by blast
  have "orDefault (maxSteps cardSettings) 12 = 12"
    by (simp add: orDefault_def cardSettings_def emptySettings_def)
  then have l: "length (filter isStepLine (console w')) = 12"
    using c c0 by (simp add: upto.simps)
  show ?thesis
    using fillCardDetails_cardBrowser r e l by simp
qed



text \<open>
  C7. For every purchase attempt for a screening that has a rule with \<^verbatim>\<open>autoPurchase\<close>,
  on a page that can be evaluated and where no row whose title contains the title of the film
  has a control labelled with the order vocabulary ("ORDER", "GET", or "BUY" with "TICKET"),
  the attempt fails at once with \<^verbatim>\<open>success = false\<close> and the reason "Order tickets button
  not found": nothing is clicked or retried and the checkout loop is not entered, the page is
  left as it was and the console has the opening lines of the attempt only.
\<close>

theorem attemptPurchase_without_entry_control:
  assumes "getFilmSettings J t st (Some cfg) = Some rule" and "autoPurchase rule"
    and "evaluateRejects B pg (bstate w) = None"
    and "entryControls J B pg t (bstate w) = []"
  shows "attemptPurchase J B env pg t st cfg send w =
           (Inr \<lparr>success = False, reason = ''Order tickets button not found'', result_url = None\<rparr>,
            attemptStart t st w)"
  using assms by (simp add: attemptPurchase_unfold clickOrderTicketsButton_none)

theorem attemptPurchase_without_entry_control_witness:
  "getFilmSettings asciiJs ''Dune'' [] (Some configA) = Some filmA \<and> autoPurchase filmA \<and>
   evaluateRejects (scheduleBrowser ''Sold out'') (Page 0) (bstate world0) = None \<and>
   entryControls asciiJs (scheduleBrowser ''Sold out'') (Page 0) ''Dune'' (bstate world0) = [] \<and>
   attemptPurchase asciiJs (scheduleBrowser ''Sold out'') noEnv (Page 0) ''Dune'' [] configA None
     world0 =
     (Inr \<lparr>success = False, reason = ''Order tickets button not found'', result_url = None\<rparr>,
      \<lparr>bstate = [], now = 0,
       console = [''AUTO-PURCHASE: Starting purchase flow for '' @ quoted ''Dune'',
                  ''   Step 1: Finding Order tickets button...'']\<rparr>)"
proof -
  have a: "getFilmSettings asciiJs ''Dune'' [] (Some configA) = Some filmA"
    by (rule getFilmSettings_examples)
  have b: "autoPurchase filmA" by (simp add: filmA_def)
  have l: "evaluateRejects (scheduleBrowser ''Sold out'') (Page 0) (bstate world0) = None"
    by simp
  have c: "entryControls asciiJs (scheduleBrowser ''Sold out'') (Page 0) ''Dune'' (bstate world0) = []"
    by (rule entryControls_soldOut)
  show ?thesis
    using a b l c attemptPurchase_without_entry_control [OF a b l c, of noEnv None]
    by (simp add: attemptStart_def world0_def log_def)
qed

theorem entry_control_reason_counterexample:
  "entryControls asciiJs (scheduleBrowser ''Sold out'') (Page 0) ''Dune'' (bstate world0) = [] \<and>
   fst (attemptPurchase asciiJs (scheduleBrowser ''Sold out'') noEnv (Page 0) ''Dune'' [] configA
          None world0) =
     Inr \<lparr>success = False, reason = ''Order tickets button not found'', result_url = None\<rparr> \<and>
   ''Order tickets button not found'' \<noteq> ''entry control not found'' \<and>
   entryControls asciiJs (scheduleBrowser ''Sold out'') (Page 0) ''Heat'' (bstate world0) = [] \<and>
   fst (attemptPurchase asciiJs (scheduleBrowser ''Sold out'') noEnv (Page 0) ''Heat'' [] configA
          None world0) =
     Inr \<lparr>success = False, reason = ''Film screening not found in auto-purchase list'',
          result_url = None\<rparr>"
proof -
  have "clickOrderTicketsButton asciiJs (scheduleBrowser ''Sold out'') (Page 0) ''Dune''
          (attemptStart ''Dune'' [] world0) =
        (Inr (OrderFailure ''Order tickets button not found''), attemptStart ''Dune'' [] world0)"
    by (rule clickOrderTicketsButton_none) (simp_all add: entryControls_soldOut)
  then have "fst (attemptPurchase asciiJs (scheduleBrowser ''Sold out'') noEnv (Page 0) ''Dune'' []
                    configA None world0) =
     Inr \<lparr>success = False, reason = ''Order tickets button not found'', result_url = None\<rparr>"
    using getFilmSettings_examples(3)
    by (simp add: attemptPurchase_unfold [where rule = filmA] filmA_def)
  moreover have "getFilmSettings asciiJs ''Heat'' [] (Some configA) = None"
    by (simp add: getFilmSettings_def configA_def filmA_def filmA9_def normalizeTitle_examples
          orEmpty_def truthy_def normalizeTitle_Nil)
  then have "fst (attemptPurchase asciiJs (scheduleBrowser ''Sold out'') noEnv (Page 0) ''Heat'' []
                    configA None world0) =
     Inr \<lparr>success = False, reason = ''Film screening not found in auto-purchase list'',
          result_url = None\<rparr>"
    by (simp add: attemptPurchase_def Let_def)
  moreover have "entryControls asciiJs (scheduleBrowser ''Sold out'') (Page 0) ''Heat'' (bstate world0)
                   = []"
    by (simp add: entryControls_def entryControlsOf_def toLowerChar_def ascii_trim_def isSpace_def)
  ultimately show ?thesis
    by (simp add: entryControls_soldOut)
qed

text \<open>
  C8. On a page whose quantity select, the first \<^verbatim>\<open>select\<close> whose id, name or class contains
  "quantity", offers exactly the options 1 to 3, \<^verbatim>\<open>setTicketQuantity\<close> with the desired
  quantity 4 succeeds with the degraded value 3: the function evaluated in the page returns
  \<^verbatim>\<open>{ success: true, quantity: 3 }\<close> after choosing the option 3, and \<^verbatim>\<open>setTicketQuantity\<close>
  returns true and reports 3. In general, when the desired quantity is not offered by the
  quantity select, the highest quantity below it that is offered, down to 1, is chosen and
  reported; when none from 1 to the desired quantity is offered the call fails and changes
  nothing, also where other selects or a quantity 0 are there. On a page without quantity
  select the first usable numeric input takes the desired quantity capped by its \<^verbatim>\<open>max\<close>,
  and the call fails when there is no usable input.
\<close>

theorem setTicketQuantity_degrades:
  "(quantitySelect J B pg b = Some sel \<and>
    map (\<lambda>opt. getProp B opt ''value'' b) (selectOptions B sel b) = [''1'', ''2'', ''3''] \<and>
    map (\<lambda>opt. trim J (getProp B opt ''textContent'' b)) (selectOptions B sel b)
      = [''1'', ''2'', ''3''] \<longrightarrow>
      setTicketQuantity_eval J B pg 4 b =
        (\<lparr>qsuccess = True, quantity = Some 3\<rparr>,
         dispatchEvent B sel ''change'' (setValue B sel ''3'' b)) \<and>
      (bstate w = b \<and> evaluateRejects B pg b = None \<longrightarrow>
         setTicketQuantity J B pg (Some 4) w =
           (Inr True,
            log ''   Set ticket quantity to 3''
              (log ''   Only 3 ticket(s) available (requested 4)''
                 (w\<lparr>bstate := dispatchEvent B sel ''change'' (setValue B sel ''3'' b)\<rparr>))))) \<and>
   (quantitySelect J B pg b = Some sel \<and> optionFor J B sel desired b = None \<and>
    1 \<le> q \<and> q < desired \<and> optionFor J B sel q b = Some opt \<and>
    (\<forall>k. q < k \<and> k < desired \<longrightarrow> optionFor J B sel k b = None) \<longrightarrow>
      setTicketQuantity_eval J B pg desired b =
        (\<lparr>qsuccess = True, quantity = Some q\<rparr>,
         dispatchEvent B sel ''change'' (setValue B sel (getProp B opt ''value'' b) b))) \<and>
   (quantitySelect J B pg b = Some sel \<and> 1 \<le> desired \<and>
    (\<forall>k. 1 \<le> k \<and> k \<le> desired \<longrightarrow> optionFor J B sel k b = None) \<longrightarrow>
      setTicketQuantity_eval J B pg desired b = (\<lparr>qsuccess = False, quantity = None\<rparr>, b)) \<and>
   (quantitySelect J B pg b = None \<and>
    find (usableInput J B desired (length (querySelectorAll B pg NUMBER_INPUT b)) b)
      (querySelectorAll B pg NUMBER_INPUT b) = Some input \<and>
    inputQuantity J B desired input b = Some q \<longrightarrow>
      setTicketQuantity_eval J B pg desired b =
        (\<lparr>qsuccess = True, quantity = Some q\<rparr>,
         dispatchEvent B input ''change''
           (dispatchEvent B input ''input'' (setValue B input (String q) b)))) \<and>
   (quantitySelect J B pg b = None \<and>
    find (usableInput J B desired (length (querySelectorAll B pg NUMBER_INPUT b)) b)
      (querySelectorAll B pg NUMBER_INPUT b) = None \<longrightarrow>
      setTicketQuantity_eval J B pg desired b = (\<lparr>qsuccess = False, quantity = None\<rparr>, b)) \<and>
   (1 < desired \<and> q < desired \<and> evaluateRejects B pg (bstate w) = None \<and>
    setTicketQuantity_eval J B pg desired (bstate w) = (\<lparr>qsuccess = True, quantity = Some q\<rparr>, b') \<longrightarrow>
      setTicketQuantity J B pg (Some desired) w =
        (Inr True,
         log (''   Set ticket quantity to '' @ String q)
           (log (''   Only '' @ String q @ '' ticket(s) available (requested '' @ String desired @ '')'')
              (w\<lparr>bstate := b'\<rparr>)))) \<and>
   (1 < desired \<and> evaluateRejects B pg (bstate w) = None \<and>
    setTicketQuantity_eval J B pg desired (bstate w) = (\<lparr>qsuccess = False, quantity = None\<rparr>, b') \<longrightarrow>
      setTicketQuantity J B pg (Some desired) w = (Inr False, w\<lparr>bstate := b'\<rparr>))"
proof (intro conjI impI)
  assume a: "quantitySelect J B pg b = Some sel \<and>
    map (\<lambda>opt. getProp B opt ''value'' b) (selectOptions B sel b) = [''1'', ''2'', ''3''] \<and>
    map (\<lambda>opt. trim J (getProp B opt ''textContent'' b)) (selectOptions B sel b)
      = [''1'', ''2'', ''3'']"
  then have sel: "find (\<lambda>s. isQuantitySelect J B s b) (querySelectorAll B pg ''select'' b) = Some sel"
    by (simp add: quantitySelect_find)
  have none: "findOption J B sel (String 4) b = None"
    using a by (simp add: options_1_to_3(1))
  obtain o3 where o3: "findOption J B sel (String 3) b = Some o3" "getProp B o3 ''value'' b = ''3''"
    using options_1_to_3(2) [of B b sel J] a by auto
  have "\<forall>k. (3::int) < k \<and> k < 4 \<longrightarrow> findOption J B sel (String k) b = None" by auto
  then have "setTicketQuantity_eval J B pg 4 b =
          (\<lparr>qsuccess = True, quantity = Some 3\<rparr>, chooseOption B sel o3 b)"
    using setTicketQuantity_eval_degrades [OF sel none _ _ o3(1)] by simp
  then show e: "setTicketQuantity_eval J B pg 4 b =
              (\<lparr>qsuccess = True, quantity = Some 3\<rparr>,
               dispatchEvent B sel ''change'' (setValue B sel ''3'' b))"
    using o3 by (simp add: chooseOption_def)
  show "setTicketQuantity J B pg (Some 4) w =
                 (Inr True,
                  log ''   Set ticket quantity to 3''
                    (log ''   Only 3 ticket(s) available (requested 4)''
                       (w\<lparr>bstate := dispatchEvent B sel ''change'' (setValue B sel ''3'' b)\<rparr>)))"
    if "bstate w = b \<and> evaluateRejects B pg b = None"
    using e that by (simp add: setTicketQuantity_def evaluate_alive await_def)
next
  assume a: "quantitySelect J B pg b = Some sel \<and> optionFor J B sel desired b = None \<and>
    1 \<le> q \<and> q < desired \<and> optionFor J B sel q b = Some opt \<and>
    (\<forall>k. q < k \<and> k < desired \<longrightarrow> optionFor J B sel k b = None)"
  then have "setTicketQuantity_lower J B sel (desired - 1) b =
          (\<lparr>qsuccess = True, quantity = Some q\<rparr>, chooseOption B sel opt b)"
    by (intro setTicketQuantity_lower_highest) (auto simp: optionFor_findOption)
  with a show "setTicketQuantity_eval J B pg desired b =
        (\<lparr>qsuccess = True, quantity = Some q\<rparr>,
         dispatchEvent B sel ''change'' (setValue B sel (getProp B opt ''value'' b) b))"
    by (simp add: setTicketQuantity_eval_select chooseOption_def)
next
  assume a: "quantitySelect J B pg b = Some sel \<and> 1 \<le> desired \<and>
    (\<forall>k. 1 \<le> k \<and> k \<le> desired \<longrightarrow> optionFor J B sel k b = None)"
  then have "setTicketQuantity_lower J B sel (desired - 1) b =
               (\<lparr>qsuccess = False, quantity = None\<rparr>, b)"
    by (intro setTicketQuantity_lower_none) (auto simp: optionFor_findOption)
  moreover have "optionFor J B sel desired b = None"
    using a by auto
  ultimately show "setTicketQuantity_eval J B pg desired b =
                     (\<lparr>qsuccess = False, quantity = None\<rparr>, b)"
    using a by (simp add: setTicketQuantity_eval_select)
next
  assume "quantitySelect J B pg b = None \<and>
    find (usableInput J B desired (length (querySelectorAll B pg NUMBER_INPUT b)) b)
      (querySelectorAll B pg NUMBER_INPUT b) = Some input \<and>
    inputQuantity J B desired input b = Some q"
  then show "setTicketQuantity_eval J B pg desired b =
        (\<lparr>qsuccess = True, quantity = Some q\<rparr>,
         dispatchEvent B input ''change''
           (dispatchEvent B input ''input'' (setValue B input (String q) b)))"
    by (simp add: setTicketQuantity_eval_inputs setTicketQuantity_inputs_usable)
next
  assume "quantitySelect J B pg b = None \<and>
    find (usableInput J B desired (length (querySelectorAll B pg NUMBER_INPUT b)) b)
      (querySelectorAll B pg NUMBER_INPUT b) = None"
  then show "setTicketQuantity_eval J B pg desired b = (\<lparr>qsuccess = False, quantity = None\<rparr>, b)"
    by (simp add: setTicketQuantity_eval_inputs setTicketQuantity_inputs_none)
next
  assume "1 < desired \<and> q < desired \<and> evaluateRejects B pg (bstate w) = None \<and>
    setTicketQuantity_eval J B pg desired (bstate w) = (\<lparr>qsuccess = True, quantity = Some q\<rparr>, b')"
  then show "setTicketQuantity J B pg (Some desired) w =
        (Inr True,
         log (''   Set ticket quantity to '' @ String q)
           (log (''   Only '' @ String q @ '' ticket(s) available (requested '' @ String desired @ '')'')
              (w\<lparr>bstate := b'\<rparr>)))"
    by (simp add: setTicketQuantity_def evaluate_alive await_def)
next
  assume "1 < desired \<and> evaluateRejects B pg (bstate w) = None \<and>
    setTicketQuantity_eval J B pg desired (bstate w) = (\<lparr>qsuccess = False, quantity = None\<rparr>, b')"
  then show "setTicketQuantity J B pg (Some desired) w = (Inr False, w\<lparr>bstate := b'\<rparr>)"
    by (simp add: setTicketQuantity_def evaluate_alive await_def)
qed

theorem setTicketQuantity_degrades_witness:
  "quantitySelect asciiJs selectBrowser (Page 0) [] = Some (Elem 1) \<and>
   map (\<lambda>opt. getProp selectBrowser opt ''value'' []) (selectOptions selectBrowser (Elem 1) [])
     = [''1'', ''2'', ''3''] \<and>
   setTicketQuantity_eval asciiJs selectBrowser (Page 0) 4 [] =
     (\<lparr>qsuccess = True, quantity = Some 3\<rparr>, [''value 3'', ''event change'']) \<and>
   setTicketQuantity asciiJs selectBrowser (Page 0) (Some 4) world0 =
     (Inr True,
      \<lparr>bstate = [''value 3'', ''event change''], now = 0,
       console = [''   Only 3 ticket(s) available (requested 4)'', ''   Set ticket quantity to 3'']\<rparr>) \<and>
   quantitySelect asciiJs zeroSelectBrowser (Page 0) [] = Some (Elem 1) \<and>
   optionFor asciiJs zeroSelectBrowser (Elem 1) 0 [] = Some (Elem 10) \<and>
   list_all (\<lambda>k. optionFor asciiJs zeroSelectBrowser (Elem 1) k [] = None) [1, 2, 3, 4] \<and>
   setTicketQuantity_eval asciiJs zeroSelectBrowser (Page 0) 4 [] =
     (\<lparr>qsuccess = False, quantity = None\<rparr>, []) \<and>
   setTicketQuantity asciiJs zeroSelectBrowser (Page 0) (Some 4) world0 = (Inr False, world0) \<and>
   setTicketQuantity_eval asciiJs zeroSelectBrowser (Page 0) 7 [] =
     (\<lparr>qsuccess = True, quantity = Some 5\<rparr>, [''value 5'', ''event change'']) \<and>
   setTicketQuantity asciiJs zeroSelectBrowser (Page 0) (Some 7) world0 =
     (Inr True,
      \<lparr>bstate = [''value 5'', ''event change''], now = 0,
       console = [''   Only 5 ticket(s) available (requested 7)'', ''   Set ticket quantity to 5'']\<rparr>) \<and>
   quantitySelect asciiJs (inputBrowser ''3'') (Page 0) [] = None \<and>
   setTicketQuantity_eval asciiJs (inputBrowser ''3'') (Page 0) 4 [] =
     (\<lparr>qsuccess = True, quantity = Some 3\<rparr>, [''value 3'', ''event input'', ''event change'']) \<and>
   setTicketQuantity_eval asciiJs (inputBrowser ''0x10'') (Page 0) 4 [] =
     (\<lparr>qsuccess = True, quantity = Some 4\<rparr>, [''value 4'', ''event input'', ''event change'']) \<and>
   setTicketQuantity_eval asciiJs (inputBrowser ''0'') (Page 0) 4 [] =
     (\<lparr>qsuccess = False, quantity = None\<rparr>, [])"
proof -
  note sel = selectBrowser_facts
  note zero = zeroSelectBrowser_facts
  note inp = inputBrowser_facts
  have b0: "bstate world0 = []" by (simp add: world0_def)
  have e1: "setTicketQuantity_eval asciiJs selectBrowser (Page 0) 4 [] =
              (\<lparr>qsuccess = True, quantity = Some 3\<rparr>, [''value 3'', ''event change''])"
    and r1: "setTicketQuantity asciiJs selectBrowser (Page 0) (Some 4) world0 =
     (Inr True,
      \<lparr>bstate = [''value 3'', ''event change''], now = 0,
       console = [''   Only 3 ticket(s) available (requested 4)'', ''   Set ticket quantity to 3'']\<rparr>)"
    using setTicketQuantity_degrades [where J = asciiJs and B = selectBrowser and pg = "Page 0"
        and b = "[]" and sel = "Elem 1" and w = world0, THEN conjunct1]
      sel(1,3,4,5) b0
    by (simp_all add: world0_def log_def)
  have all0: "\<forall>k. 1 \<le> k \<and> k \<le> 4 \<longrightarrow> optionFor asciiJs zeroSelectBrowser (Elem 1) k [] = None"
    using zeroSelectBrowser_none by blast
  have e2: "setTicketQuantity_eval asciiJs zeroSelectBrowser (Page 0) 4 [] =
              (\<lparr>qsuccess = False, quantity = None\<rparr>, [])"
    using setTicketQuantity_degrades [where J = asciiJs and B = zeroSelectBrowser and pg = "Page 0"
        and b = "[]" and sel = "Elem 1" and desired = 4,
        THEN conjunct2, THEN conjunct2, THEN conjunct1]
      zero(1) all0
    by simp
  have r2: "setTicketQuantity asciiJs zeroSelectBrowser (Page 0) (Some 4) world0 = (Inr False, world0)"
    using setTicketQuantity_degrades [where J = asciiJs and B = zeroSelectBrowser and pg = "Page 0"
        and w = world0 and desired = 4 and b' = "[]",
        THEN conjunct2, THEN conjunct2, THEN conjunct2, THEN conjunct2, THEN conjunct2,
        THEN conjunct2]
      e2 b0
    by (simp add: world0_def)
  have btw: "\<forall>k. 5 < k \<and> k < 7 \<longrightarrow> optionFor asciiJs zeroSelectBrowser (Elem 1) k [] = None"
    using zeroSelectBrowser_between by blast
  have e3: "setTicketQuantity_eval asciiJs zeroSelectBrowser (Page 0) 7 [] =
              (\<lparr>qsuccess = True, quantity = Some 5\<rparr>, [''value 5'', ''event change''])"
    using setTicketQuantity_degrades [where J = asciiJs and B = zeroSelectBrowser and pg = "Page 0"
        and b = "[]" and sel = "Elem 1" and desired = 7 and q = 5 and opt = "Elem 15",
        THEN conjunct2, THEN conjunct1]
      zero btw
    by simp
  have r3: "setTicketQuantity asciiJs zeroSelectBrowser (Page 0) (Some 7) world0 =
     (Inr True,
      \<lparr>bstate = [''value 5'', ''event change''], now = 0,
       console = [''   Only 5 ticket(s) available (requested 7)'', ''   Set ticket quantity to 5'']\<rparr>)"
    using setTicketQuantity_degrades [where J = asciiJs and B = zeroSelectBrowser and pg = "Page 0"
        and w = world0 and desired = 7 and q = 5 and b' = "[''value 5'', ''event change'']",
        THEN conjunct2, THEN conjunct2, THEN conjunct2, THEN conjunct2, THEN conjunct2,
        THEN conjunct1]
      e3 b0
    by (simp add: world0_def log_def)
  have e4: "setTicketQuantity_eval asciiJs (inputBrowser ''3'') (Page 0) 4 [] =
     (\<lparr>qsuccess = True, quantity = Some 3\<rparr>, [''value 3'', ''event input'', ''event change''])"
    using setTicketQuantity_degrades [where J = asciiJs and B = "inputBrowser ''3''" and pg = "Page 0"
        and b = "[]" and desired = 4 and q = 3 and input = "Elem 2",
        THEN conjunct2, THEN conjunct2, THEN conjunct2, THEN conjunct1]
      inp inputBrowser_usable
    by simp
  have e5: "setTicketQuantity_eval asciiJs (inputBrowser ''0x10'') (Page 0) 4 [] =
     (\<lparr>qsuccess = True, quantity = Some 4\<rparr>, [''value 4'', ''event input'', ''event change''])"
    using setTicketQuantity_degrades [where J = asciiJs and B = "inputBrowser ''0x10''"
        and pg = "Page 0" and b = "[]" and desired = 4 and q = 4 and input = "Elem 2",
        THEN conjunct2, THEN conjunct2, THEN conjunct2, THEN conjunct1]
      inp inputBrowser_usable
    by simp
  have e6: "setTicketQuantity_eval asciiJs (inputBrowser ''0'') (Page 0) 4 [] =
     (\<lparr>qsuccess = False, quantity = None\<rparr>, [])"
    using setTicketQuantity_degrades [where J = asciiJs and B = "inputBrowser ''0''"
        and pg = "Page 0" and b = "[]" and desired = 4,
        THEN conjunct2, THEN conjunct2, THEN conjunct2, THEN conjunct2, THEN conjunct1]
      inp inputBrowser_usable
    by simp
  have l0: "list_all (\<lambda>k. optionFor asciiJs zeroSelectBrowser (Elem 1) k [] = None) [1, 2, 3, 4]"
    using zeroSelectBrowser_none by simp
  show ?thesis
    using sel(1,3) zero(1,2) inp(1) e1 r1 e2 r2 e3 r3 e4 e5 e6 l0 by simp
qed

theorem setTicketQuantity_second_select_counterexample:
  "querySelectorAll twoSelectBrowser (Page 0) ''select'' [] = [Elem 2, Elem 1] \<and>
   isQuantitySelect asciiJs twoSelectBrowser (Elem 1) [] \<and>
   map (\<lambda>opt. getProp twoSelectBrowser opt ''value'' []) (selectOptions twoSelectBrowser (Elem 1) [])
     = [''1'', ''2'', ''3''] \<and>
   map (\<lambda>opt. trim asciiJs (getProp twoSelectBrowser opt ''textContent'' []))
     (selectOptions twoSelectBrowser (Elem 1) []) = [''1'', ''2'', ''3''] \<and>
   setTicketQuantity_eval asciiJs twoSelectBrowser (Page 0) 4 [] =
     (\<lparr>qsuccess = False, quantity = None\<rparr>, []) \<and>
   setTicketQuantity asciiJs twoSelectBrowser (Page 0) (Some 4) world0 = (Inr False, world0)"
proof -
  have none: "findOption asciiJs twoSelectBrowser (Elem 2) v [] = None" for v
    by (simp add: findOption_def twoSelectBrowser_facts)
  have "setTicketQuantity_lower asciiJs twoSelectBrowser (Elem 2) 3 [] =
          (\<lparr>qsuccess = False, quantity = None\<rparr>, [])"
    by (rule setTicketQuantity_lower_none) (simp add: none)
  then have e: "setTicketQuantity_eval asciiJs twoSelectBrowser (Page 0) 4 [] =
                  (\<lparr>qsuccess = False, quantity = None\<rparr>, [])"
    by (simp add: setTicketQuantity_eval_def twoSelectBrowser_facts none)
  then have "setTicketQuantity asciiJs twoSelectBrowser (Page 0) (Some 4) world0 = (Inr False, world0)"
    by (simp add: setTicketQuantity_def world0_def evaluate_def await_def)
  with e show ?thesis
    using twoSelectBrowser_facts by simp
qed

text \<open>
  C9. Whenever the configured quantity is absent, zero or one, \<^verbatim>\<open>setTicketQuantity\<close>
  returns false and leaves the page, the clock and the console as they are: the engine never
  sets a quantity of 1, also where a quantity selector is present.
\<close>

theorem setTicketQuantity_leaves_one_alone:
  "qopt = None \<or> qopt = Some 0 \<or> qopt = Some 1 \<Longrightarrow>
   setTicketQuantity J B pg qopt w = (Inr False, w)"
  by (auto simp: setTicketQuantity_def)

theorem setTicketQuantity_leaves_one_alone_witness:
  "find (\<lambda>s. isQuantitySelect asciiJs selectBrowser s []) (querySelectorAll selectBrowser (Page 0) ''select'' [])
     = Some (Elem 1) \<and>
   setTicketQuantity asciiJs selectBrowser (Page 0) (Some 1) world0 = (Inr False, world0) \<and>
   setTicketQuantity asciiJs selectBrowser (Page 0) (Some 0) world0 = (Inr False, world0) \<and>
   setTicketQuantity asciiJs selectBrowser (Page 0) None world0 = (Inr False, world0)"
proof -
  have "find (\<lambda>s. isQuantitySelect asciiJs selectBrowser s [])
          (querySelectorAll selectBrowser (Page 0) ''select'' []) = Some (Elem 1)"
    using isQuantitySelect_double by (simp add: selectBrowser_def)
  then show ?thesis
    using setTicketQuantity_leaves_one_alone [of "Some 1" asciiJs selectBrowser "Page 0" world0]
      setTicketQuantity_leaves_one_alone [of "Some 0" asciiJs selectBrowser "Page 0" world0]
      setTicketQuantity_leaves_one_alone [of None asciiJs selectBrowser "Page 0" world0]
    by simp
qed

text \<open>
  C10. \<^verbatim>\<open>loadAutoPurchaseConfig\<close> never throws: it returns null when the file is absent,
  when it cannot be read, when its contents are not JSON, when they are the JSON \<^verbatim>\<open>null\<close>
  and when the field \<^verbatim>\<open>enabled\<close> of the parsed value is falsy, and the parsed configuration
  otherwise. The monitoring loop goes through the changes with the matcher and the engine only
  when the result is not null. A malformed file disables the purchase logic without an
  exception but not silently: with a null result the auto-purchase block does nothing but
  write the error line of the loader, if there is one.
\<close>

theorem loadAutoPurchaseConfig_total:
  "(file = Absent \<longrightarrow> fst (loadAutoPurchaseConfig JSON_parse file) = None) \<and>
   (file = Unreadable msg \<longrightarrow> fst (loadAutoPurchaseConfig JSON_parse file) = None) \<and>
   (file = Contents txt \<and> JSON_parse txt = Inl msg \<longrightarrow>
      fst (loadAutoPurchaseConfig JSON_parse file) = None) \<and>
   (file = Contents txt \<and> JSON_parse txt = Inr None \<longrightarrow>
      fst (loadAutoPurchaseConfig JSON_parse file) = None) \<and>
   (file = Contents txt \<and> JSON_parse txt = Inr (Some c) \<and> \<not> enabled c \<longrightarrow>
      fst (loadAutoPurchaseConfig JSON_parse file) = None) \<and>
   (file = Contents txt \<and> JSON_parse txt = Inr (Some c) \<and> enabled c \<longrightarrow>
      fst (loadAutoPurchaseConfig JSON_parse file) = Some c) \<and>
   (fst (loadAutoPurchaseConfig JSON_parse file) = None \<longrightarrow>
      monitorSchedule_autoPurchase J B env JSON_parse file pg sendEmailNotification changes w =
        (Inr (), w\<lparr>console := console w @ snd (loadAutoPurchaseConfig JSON_parse file)\<rparr>)) \<and>
   (fst (loadAutoPurchaseConfig JSON_parse file) = Some c \<longrightarrow>
      monitorSchedule_autoPurchase J B env JSON_parse file pg sendEmailNotification changes w =
        monitorSchedule_purchases J B env pg c sendEmailNotification changes w)"
  by (auto simp: loadAutoPurchaseConfig_def monitorSchedule_autoPurchase_def
           split: file_state.splits sum.splits option.splits prod.splits)

theorem loadAutoPurchaseConfig_total_witness:
  "fst (loadAutoPurchaseConfig parseDouble Absent) = None \<and>
   fst (loadAutoPurchaseConfig parseDouble (Unreadable ''EISDIR: illegal operation on a directory, read'')) = None \<and>
   parseDouble ''{'' = Inl ''Unexpected end of JSON input'' \<and>
   fst (loadAutoPurchaseConfig parseDouble (Contents ''{'')) = None \<and>
   parseDouble ''null'' = Inr None \<and>
   fst (loadAutoPurchaseConfig parseDouble (Contents ''null'')) = None \<and>
   parseDouble configOffText = Inr (Some (configA\<lparr>enabled := False\<rparr>)) \<and>
   fst (loadAutoPurchaseConfig parseDouble (Contents configOffText)) = None \<and>
   parseDouble configAText = Inr (Some configA) \<and> enabled configA \<and>
   fst (loadAutoPurchaseConfig parseDouble (Contents configAText)) = Some configA \<and>
   monitorSchedule_autoPurchase asciiJs stillBrowser noEnv parseDouble (Contents ''{'') (Page 0)
       (\<lambda>changes. ret ())
       [\<lparr>etype = NOW_AVAILABLE, etitle = ''Dune'', escreeningTime = ''Jan 25 9PM'',
         estatus = Some AVAILABLE, ebuttonText = ''Order tickets'', eurl = ''/schedule''\<rparr>] world0 =
     (Inr (), world0\<lparr>console := [''Error loading auto-purchase.json: Unexpected end of JSON input'']\<rparr>)"
proof -
  have texts: "configAText \<noteq> ''null''" "configOffText \<noteq> ''null''" "configOffText \<noteq> configAText"
    "''{'' \<noteq> configAText" "''{'' \<noteq> configOffText"
    by (simp_all add: configAText_def configOffText_def)
  have p: "parseDouble ''{'' = Inl ''Unexpected end of JSON input''"
    "parseDouble ''null'' = Inr None"
    "parseDouble configOffText = Inr (Some (configA\<lparr>enabled := False\<rparr>))"
    "parseDouble configAText = Inr (Some configA)"
    using texts by (simp_all add: parseDouble_def)
  have e: "enabled configA" "\<not> enabled (configA\<lparr>enabled := False\<rparr>)"
    by (simp_all add: configA_def)
  let ?c = "\<lparr>etype = NOW_AVAILABLE, etitle = ''Dune'', escreeningTime = ''Jan 25 9PM'',
         estatus = Some AVAILABLE, ebuttonText = ''Order tickets'', eurl = ''/schedule''\<rparr>"
  have l: "loadAutoPurchaseConfig parseDouble (Contents ''{'')
             = (None, [''Error loading auto-purchase.json: Unexpected end of JSON input''])"
    using p by (simp add: loadAutoPurchaseConfig_def)
  show ?thesis
    using p e l
      loadAutoPurchaseConfig_total [of Absent parseDouble "[]" "[]" configA asciiJs stillBrowser noEnv
        "Page 0" "\<lambda>changes. ret ()" "[?c]" world0]
      loadAutoPurchaseConfig_total [of "Unreadable ''EISDIR: illegal operation on a directory, read''"
        parseDouble "''EISDIR: illegal operation on a directory, read''" "[]" configA asciiJs stillBrowser noEnv
        "Page 0" "\<lambda>changes. ret ()" "[?c]" world0]
      loadAutoPurchaseConfig_total [of "Contents ''{''" parseDouble "''Unexpected end of JSON input''"
        "''{''" configA asciiJs stillBrowser noEnv "Page 0" "\<lambda>changes. ret ()" "[?c]" world0]
      loadAutoPurchaseConfig_total [of "Contents ''null''" parseDouble "[]"
        "''null''" configA asciiJs stillBrowser noEnv "Page 0" "\<lambda>changes. ret ()" "[?c]" world0]
      loadAutoPurchaseConfig_total [of "Contents configOffText" parseDouble "[]"
        configOffText "configA\<lparr>enabled := False\<rparr>" asciiJs stillBrowser noEnv "Page 0" "\<lambda>changes. ret ()" "[?c]" world0]
      loadAutoPurchaseConfig_total [of "Contents configAText" parseDouble "[]"
        configAText configA asciiJs stillBrowser noEnv "Page 0" "\<lambda>changes. ret ()" "[?c]" world0]
    by (simp add: world0_def)
qed

theorem loadAutoPurchaseConfig_logs_counterexample:
  "parseDouble ''{'' = Inl ''Unexpected end of JSON input'' \<and>
   loadAutoPurchaseConfig parseDouble (Contents ''{'') =
     (None, [''Error loading auto-purchase.json: Unexpected end of JSON input'']) \<and>
   console (snd (monitorSchedule_autoPurchase asciiJs stillBrowser noEnv parseDouble (Contents ''{'')
                   (Page 0) (\<lambda>changes. ret ())
                   [\<lparr>etype = NOW_AVAILABLE, etitle = ''Dune'', escreeningTime = ''Jan 25 9PM'',
                     estatus = Some AVAILABLE, ebuttonText = ''Order tickets'',
                     eurl = ''/schedule''\<rparr>] world0)) =
     [''Error loading auto-purchase.json: Unexpected end of JSON input'']"
proof -
  have "''{'' \<noteq> configAText" "''{'' \<noteq> configOffText"
    by (simp_all add: configAText_def configOffText_def)
  then have p: "parseDouble ''{'' = Inl ''Unexpected end of JSON input''"
    by (simp add: parseDouble_def)
  then show ?thesis
    by (simp add: loadAutoPurchaseConfig_def monitorSchedule_autoPurchase_def world0_def)
qed

end
